theory Spec2Isabelle
  imports Main "HOL-Library.AList" "HOL-Library.Char_ord" "HOL-Library.List_Lexorder"
    "HOL-Library.Sublist"
begin

section \<open>Go values the client works with\<close>

text \<open>
  A Go \<open>string\<close> is a sequence of bytes, as \<^typ>\<open>string\<close> is here. A Go \<open>int\<close> is
  modelled as \<^typ>\<open>int\<close>: the client never computes with one, it only compares it with
  \<open>0\<close>, assigns a constant to it and prints it. An \<open>error\<close> is a value: the ones
  \<open>fmt.Errorf\<close> builds carry their message, \<open>url.EscapeError\<close> carries the offending
  text. Errors of the transport, of \<open>io.ReadAll\<close>, of the JSON decoder and of
  \<open>http.NewRequest\<close> are whatever error values those library calls return.
\<close>

datatype error = Errorf string | EscapeError string

text \<open>\<open>fmt.Sprint\<close> of an int, and the verb \<open>%d\<close>: the decimal digits, with a minus sign.\<close>

definition digit :: "nat \<Rightarrow> char" where
  "digit n = ''0123456789'' ! n"

fun FormatUint :: "nat \<Rightarrow> string" where
  "FormatUint n = (if n < 10 then [digit n] else FormatUint (n div 10) @ [digit (n mod 10)])"

declare FormatUint.simps [simp del]

definition Itoa :: "int \<Rightarrow> string" where
  "Itoa i = (if i < 0 then CHR ''-'' # FormatUint (nat (- i)) else FormatUint (nat i))"

section \<open>Parameter records and their reflection\<close>

record GetPhotosParams =
  Query :: string
  Orientation :: string
  Size :: string
  Color :: string
  Locale :: string
  Page :: int
  PerPage :: int

record GetCuratedPhotoParams =
  Page :: int
  PerPage :: int

record GetFeaturedCollectionParams =
  Page :: int
  PerPage :: int

record GetCollectionMediaParams =
  Type :: string
  Sort :: string
  Page :: int
  PerPage :: int

record GetVideosParams =
  Query :: string
  Orientation :: string
  Size :: string
  Locale :: string
  Page :: int
  PerPage :: int

record GetPopularVideosParams =
  MinWidth :: int
  MinHeight :: int
  MinDuration :: int
  MaxDuration :: int
  Page :: int
  PerPage :: int

text \<open>
  What \<open>reflect\<close> shows of a struct value: its fields in declaration order, each with the
  \<open>url\<close> entry of its tag (\<open>Tag.Get\<close> gives the empty string when there is none) and its
  value. The encoder tells \<open>reflect.Int\<close> and \<open>reflect.String\<close> from every other kind; a
  value of another kind is kept by what \<open>fmt.Sprint\<close> prints for it.
\<close>

datatype Kind = reflect_Int | reflect_String | reflect_Other

datatype gvalue = IntV int | StrV string | OtherV string

fun Kind_of :: "gvalue \<Rightarrow> Kind" where
  "Kind_of (IntV n) = reflect_Int"
| "Kind_of (StrV s) = reflect_String"
| "Kind_of (OtherV s) = reflect_Other"

fun Sprint :: "gvalue \<Rightarrow> string" where
  "Sprint (IntV n) = Itoa n"
| "Sprint (StrV s) = s"
| "Sprint (OtherV s) = s"

record StructField =
  urlTag :: string
  Interface :: gvalue

definition reflect_GetPhotosParams :: "GetPhotosParams \<Rightarrow> StructField list" where
  "reflect_GetPhotosParams p =
     [\<lparr>urlTag = ''query'', Interface = StrV (GetPhotosParams.Query p)\<rparr>,
      \<lparr>urlTag = ''orientation'', Interface = StrV (GetPhotosParams.Orientation p)\<rparr>,
      \<lparr>urlTag = ''size'', Interface = StrV (GetPhotosParams.Size p)\<rparr>,
      \<lparr>urlTag = ''color'', Interface = StrV (GetPhotosParams.Color p)\<rparr>,
      \<lparr>urlTag = ''locale'', Interface = StrV (GetPhotosParams.Locale p)\<rparr>,
      \<lparr>urlTag = ''page'', Interface = IntV (GetPhotosParams.Page p)\<rparr>,
      \<lparr>urlTag = ''per_page'', Interface = IntV (GetPhotosParams.PerPage p)\<rparr>]"

definition reflect_GetCuratedPhotoParams :: "GetCuratedPhotoParams \<Rightarrow> StructField list" where
  "reflect_GetCuratedPhotoParams p =
     [\<lparr>urlTag = ''page'', Interface = IntV (GetCuratedPhotoParams.Page p)\<rparr>,
      \<lparr>urlTag = ''per_page'', Interface = IntV (GetCuratedPhotoParams.PerPage p)\<rparr>]"

definition reflect_GetFeaturedCollectionParams ::
    "GetFeaturedCollectionParams \<Rightarrow> StructField list" where
  "reflect_GetFeaturedCollectionParams p =
     [\<lparr>urlTag = ''page'', Interface = IntV (GetFeaturedCollectionParams.Page p)\<rparr>,
      \<lparr>urlTag = ''per_page'', Interface = IntV (GetFeaturedCollectionParams.PerPage p)\<rparr>]"

definition reflect_GetCollectionMediaParams ::
    "GetCollectionMediaParams \<Rightarrow> StructField list" where
  "reflect_GetCollectionMediaParams p =
     [\<lparr>urlTag = ''type'', Interface = StrV (GetCollectionMediaParams.Type p)\<rparr>,
      \<lparr>urlTag = ''sort'', Interface = StrV (GetCollectionMediaParams.Sort p)\<rparr>,
      \<lparr>urlTag = ''page'', Interface = IntV (GetCollectionMediaParams.Page p)\<rparr>,
      \<lparr>urlTag = ''per_page'', Interface = IntV (GetCollectionMediaParams.PerPage p)\<rparr>]"

definition reflect_GetVideosParams :: "GetVideosParams \<Rightarrow> StructField list" where
  "reflect_GetVideosParams p =
     [\<lparr>urlTag = ''query'', Interface = StrV (GetVideosParams.Query p)\<rparr>,
      \<lparr>urlTag = ''orientation'', Interface = StrV (GetVideosParams.Orientation p)\<rparr>,
      \<lparr>urlTag = ''size'', Interface = StrV (GetVideosParams.Size p)\<rparr>,
      \<lparr>urlTag = ''locale'', Interface = StrV (GetVideosParams.Locale p)\<rparr>,
      \<lparr>urlTag = ''page'', Interface = IntV (GetVideosParams.Page p)\<rparr>,
      \<lparr>urlTag = ''per_page'', Interface = IntV (GetVideosParams.PerPage p)\<rparr>]"

definition reflect_GetPopularVideosParams :: "GetPopularVideosParams \<Rightarrow> StructField list" where
  "reflect_GetPopularVideosParams p =
     [\<lparr>urlTag = ''min_width'', Interface = IntV (GetPopularVideosParams.MinWidth p)\<rparr>,
      \<lparr>urlTag = ''min_height'', Interface = IntV (GetPopularVideosParams.MinHeight p)\<rparr>,
      \<lparr>urlTag = ''min_duration'', Interface = IntV (GetPopularVideosParams.MinDuration p)\<rparr>,
      \<lparr>urlTag = ''max_duration'', Interface = IntV (GetPopularVideosParams.MaxDuration p)\<rparr>,
      \<lparr>urlTag = ''page'', Interface = IntV (GetPopularVideosParams.Page p)\<rparr>,
      \<lparr>urlTag = ''per_page'', Interface = IntV (GetPopularVideosParams.PerPage p)\<rparr>]"

section \<open>\<open>url.Values\<close>\<close>

text \<open>
  \<open>url.Values\<close> is \<open>map[string][]string\<close>: here an association list, read through
  \<^const>\<open>map_of\<close>. \<open>Set\<close> replaces the values of a key by the one given. \<open>Encode\<close> sorts the
  keys and writes \<open>key=value\<close> for every value, both query-escaped, with \<open>&\<close> before every
  pair but the first.
\<close>

type_synonym Values = "(string \<times> string list) list"

definition Values_Set :: "string \<Rightarrow> string \<Rightarrow> Values \<Rightarrow> Values" where
  "Values_Set key val v = AList.update key [val] v"

definition Values_index :: "Values \<Rightarrow> string \<Rightarrow> string list" where
  "Values_index v key = (case map_of v key of None \<Rightarrow> [] | Some vs \<Rightarrow> vs)"

definition Values_Get :: "Values \<Rightarrow> string \<Rightarrow> string" where
  "Values_Get v key = (case Values_index v key of [] \<Rightarrow> [] | x # xs \<Rightarrow> x)"

definition upperhex :: string where
  "upperhex = ''0123456789ABCDEF''"

definition shouldEscape :: "char \<Rightarrow> bool" where
  "shouldEscape c =
     (if (CHR ''a'' \<le> c \<and> c \<le> CHR ''z'') \<or> (CHR ''A'' \<le> c \<and> c \<le> CHR ''Z'')
           \<or> (CHR ''0'' \<le> c \<and> c \<le> CHR ''9'') then False
      else if c \<in> set ''-_.~'' then False
      else True)"

definition escape_byte :: "char \<Rightarrow> string" where
  "escape_byte c =
     (if shouldEscape c then
        (if c = CHR '' '' then ''+''
         else [CHR ''%'', upperhex ! (of_char c div 16), upperhex ! (of_char c mod 16)])
      else [c])"

definition QueryEscape :: "string \<Rightarrow> string" where
  "QueryEscape s = concat (map escape_byte s)"

fun Encode_values :: "string \<Rightarrow> string list \<Rightarrow> string \<Rightarrow> string" where
  "Encode_values keyEscaped [] buf = buf"
| "Encode_values keyEscaped (v # vs) buf =
     Encode_values keyEscaped vs
       ((if buf \<noteq> [] then buf @ ''&'' else buf) @ keyEscaped @ ''='' @ QueryEscape v)"

fun Encode_keys :: "Values \<Rightarrow> string list \<Rightarrow> string \<Rightarrow> string" where
  "Encode_keys v [] buf = buf"
| "Encode_keys v (k # keys) buf =
     Encode_keys v keys (Encode_values (QueryEscape k) (Values_index v k) buf)"

definition Encode :: "Values \<Rightarrow> string" where
  "Encode v = (if v = [] then [] else Encode_keys v (sort (remdups (map fst v))) [])"

text \<open>
  \<open>url.ParseQuery\<close>, the reader of what \<open>Encode\<close> writes: the query is cut at every
  \<open>&\<close>, each piece at its first \<open>=\<close>, and both halves are unescaped. A piece with a
  semicolon or a bad escape is skipped and reported; the first bad escape is the error
  returned, a semicolon replaces it.
\<close>

definition ishex :: "char \<Rightarrow> bool" where
  "ishex c =
     ((CHR ''0'' \<le> c \<and> c \<le> CHR ''9'') \<or> (CHR ''a'' \<le> c \<and> c \<le> CHR ''f'')
        \<or> (CHR ''A'' \<le> c \<and> c \<le> CHR ''F''))"

definition unhex :: "char \<Rightarrow> nat" where
  "unhex c =
     (if CHR ''0'' \<le> c \<and> c \<le> CHR ''9'' then of_char c - of_char CHR ''0''
      else if CHR ''a'' \<le> c \<and> c \<le> CHR ''f'' then of_char c - of_char CHR ''a'' + 10
      else if CHR ''A'' \<le> c \<and> c \<le> CHR ''F'' then of_char c - of_char CHR ''A'' + 10
      else 0)"

fun QueryUnescape :: "string \<Rightarrow> error + string" where
  "QueryUnescape [] = Inr []"
| "QueryUnescape (c # s) =
     (if c = CHR ''%'' then
        (case s of
           h1 # h2 # rest \<Rightarrow>
             if ishex h1 \<and> ishex h2 then
               (case QueryUnescape rest of
                  Inl e \<Rightarrow> Inl e
                | Inr t \<Rightarrow> Inr (char_of (unhex h1 * 16 + unhex h2) # t))
             else Inl (EscapeError (take 3 (c # s)))
         | _ \<Rightarrow> Inl (EscapeError (take 3 (c # s))))
      else
        (case QueryUnescape s of
           Inl e \<Rightarrow> Inl e
         | Inr t \<Rightarrow> Inr ((if c = CHR ''+'' then CHR '' '' else c) # t)))"

text \<open>\<open>strings.Cut\<close> with a one-byte separator: before, after, found.\<close>

definition Cut :: "string \<Rightarrow> char \<Rightarrow> string \<times> string \<times> bool" where
  "Cut s sep =
     (if sep \<in> set s
      then (takeWhile (\<lambda>c. c \<noteq> sep) s, tl (dropWhile (\<lambda>c. c \<noteq> sep) s), True)
      else (s, [], False))"

function parseQuery :: "Values \<Rightarrow> string \<Rightarrow> error option \<Rightarrow> Values \<times> error option" where
  "parseQuery m query err =
     (if query = [] then (m, err)
      else
        (let (key, rest, found) = Cut query CHR ''&'' in
           if CHR '';'' \<in> set key then
             parseQuery m rest (Some (Errorf ''invalid semicolon separator in query''))
           else if key = [] then parseQuery m rest err
           else
             (let (key1, val, found1) = Cut key CHR ''='' in
                (case QueryUnescape key1 of
                   Inl err1 \<Rightarrow> parseQuery m rest (if err = None then Some err1 else err)
                 | Inr key2 \<Rightarrow>
                     (case QueryUnescape val of
                        Inl err1 \<Rightarrow> parseQuery m rest (if err = None then Some err1 else err)
                      | Inr val2 \<Rightarrow>
                          parseQuery (AList.update key2 (Values_index m key2 @ [val2]) m)
                            rest err)))))"
  by pat_completeness auto
termination
proof -
  have shorter: "length rest < length query"
    if "query \<noteq> []" and "(key, rest, found) = Cut query sep"
    for query key rest :: string and sep found
  proof (cases "sep \<in> set query")
    case True
    then have "dropWhile (\<lambda>c. c \<noteq> sep) query \<noteq> []" by simp
    then have "length (tl (dropWhile (\<lambda>c. c \<noteq> sep) query))
                 < length (dropWhile (\<lambda>c. c \<noteq> sep) query)"
      by (cases "dropWhile (\<lambda>c. c \<noteq> sep) query") simp_all
    also have "\<dots> \<le> length query" by (rule length_dropWhile_le)
    finally show ?thesis using True that by (simp add: Cut_def)
  next
    case False
    with that show ?thesis by (simp add: Cut_def)
  qed
  show ?thesis
    by (relation "measure (\<lambda>(m, query, err). length query)") (auto intro: shorter)
qed

declare parseQuery.simps [simp del]

definition ParseQuery :: "string \<Rightarrow> Values \<times> error option" where
  "ParseQuery query = parseQuery [] query None"

section \<open>The parameter encoder\<close>

fun structToURLValues_loop :: "StructField list \<Rightarrow> Values \<Rightarrow> Values" where
  "structToURLValues_loop [] val = val"
| "structToURLValues_loop (field # rest) val =
     (let fieldValue = Sprint (Interface field);
          fieldKind = Kind_of (Interface field)
      in structToURLValues_loop rest
           (if urlTag field \<noteq> [] \<and>
               ((fieldKind = reflect_Int \<and> fieldValue \<noteq> ''0'') \<or>
                (fieldKind = reflect_String \<and> fieldValue \<noteq> []))
            then Values_Set (urlTag field) fieldValue val
            else val))"

definition structToURLValues :: "StructField list \<Rightarrow> Values" where
  "structToURLValues s = structToURLValues_loop s []"

section \<open>Requests, responses and the library calls around them\<close>

text \<open>
  A request is its method, the URL text it was built from, and its header
  (\<open>map[string][]string\<close>). A response body is a stream: it delivers its bytes and then
  ends, either normally or with a read error. \<open>io.ReadAll\<close> gives the bytes when the stream
  ends normally and the error otherwise. The context of a call only reaches the transport,
  whose answer \<open>HTTPClient\<close> stands for.
\<close>

record Request =
  Method :: string
  URL :: string
  Header :: "string \<rightharpoonup> string list"

record Body =
  Data :: string
  ReadErr :: "error option"

record Response =
  StatusCode :: int
  Body :: Body

record Client =
  BaseURL :: string
  ApiKey :: string
  HTTPClient :: "Request \<Rightarrow> error + Response"
  Version :: string

text \<open>
  The standard library calls whose results the client only passes on: whether
  \<open>http.NewRequest\<close> rejects a URL, what the JSON decoder does to a destination of type
  \<open>'r\<close> when it reads a body (the destination after the call, and its error), and the zero
  value of the destination type.
\<close>

record 'r Std =
  url_Parse :: "string \<Rightarrow> error option"
  json_Decode :: "Body \<Rightarrow> 'r \<Rightarrow> 'r \<times> error option"
  zero :: 'r

text \<open>The library calls a binding makes, in order: what a recording transport would see.\<close>

datatype Call = NewRequest_call string string | Do_call Request

definition ReadAll :: "Body \<Rightarrow> error + string" where
  "ReadAll b = (case ReadErr b of Some e \<Rightarrow> Inl e | None \<Rightarrow> Inr (Data b))"

definition NewRequest :: "'r Std \<Rightarrow> string \<Rightarrow> string \<Rightarrow> error + Request" where
  "NewRequest std method url =
     (case url_Parse std url of
        Some e \<Rightarrow> Inl e
      | None \<Rightarrow> Inr \<lparr>Method = method, URL = url, Header = Map.empty\<rparr>)"

definition Header_Set :: "string \<Rightarrow> string \<Rightarrow> Request \<Rightarrow> Request" where
  "Header_Set key val req = req\<lparr>Header := (Header req)(key \<mapsto> [val])\<rparr>"

text \<open>What a binding hands back: the response pointer (\<open>None\<close> for \<open>nil\<close>), the error
  (\<open>None\<close> for \<open>nil\<close>), the caller's parameter record as the call leaves it, and the
  library calls made.\<close>

record ('p, 'r) Outcome =
  resp :: "'r option"
  err :: "error option"
  params :: 'p
  calls :: "Call list"

section \<open>The request pipeline\<close>

text \<open>
  \<open>sendRequest\<close> returns its error, the destination \<open>vals\<close> as the call leaves it, and the
  one library call it makes on the network.
\<close>

definition sendRequest ::
    "'r Std \<Rightarrow> Client \<Rightarrow> Request \<Rightarrow> 'r \<Rightarrow> error option \<times> 'r \<times> Call list" where
  "sendRequest std c req vals =
     (case HTTPClient c req of
        Inl e \<Rightarrow> (Some e, vals, [Do_call req])
      | Inr res \<Rightarrow>
          if StatusCode res < 200 \<or> StatusCode res \<ge> 400 then
            (case ReadAll (Body res) of
               Inl e \<Rightarrow> (Some e, vals, [Do_call req])
             | Inr bytes \<Rightarrow>
                 (Some (Errorf (''Unknown API error: '' @ Itoa (StatusCode res) @ '' '' @ bytes)),
                  vals, [Do_call req]))
          else
            (case json_Decode std (Body res) vals of
               (vals', Some e) \<Rightarrow> (Some e, vals', [Do_call req])
             | (vals', None) \<Rightarrow> (None, vals', [Do_call req])))"

section \<open>The bindings\<close>

text \<open>
  A binding takes the client and the caller's parameter record (the source takes a pointer
  and writes the defaults through it: the record as the call leaves it is part of the
  outcome). \<open>id'\<close> is the source's \<open>id\<close>.
\<close>

definition GetPhotos ::
    "'r Std \<Rightarrow> Client \<Rightarrow> GetPhotosParams \<Rightarrow> (GetPhotosParams, 'r) Outcome" where
  "GetPhotos std c params0 =
     (let params1 = (if GetPhotosParams.Page params0 = 0
                     then params0\<lparr>GetPhotosParams.Page := 1\<rparr> else params0);
          params2 = (if GetPhotosParams.PerPage params1 = 0
                     then params1\<lparr>GetPhotosParams.PerPage := 5\<rparr> else params1)
      in if GetPhotosParams.Query params2 = []
         then \<lparr>resp = None, err = Some (Errorf ''Query field cannot be empty.''),
               params = params2, calls = []\<rparr>
         else
           (let url = BaseURL c @ Version c @ ''/search?''
                        @ Encode (structToURLValues (reflect_GetPhotosParams params2))
            in
              (case NewRequest std ''GET'' url of
                 Inl e \<Rightarrow>
                   \<lparr>resp = None, err = Some e, params = params2, calls = [NewRequest_call ''GET'' url]\<rparr>
               | Inr req0 \<Rightarrow>
                   (let req1 = Header_Set ''Accept'' ''application/json'' req0;
                        req3 = Header_Set ''Authorization'' (ApiKey c) req1;
                        (e, r, sent) = sendRequest std c req3 (zero std)
                    in if e \<noteq> None
                       then \<lparr>resp = None, err = e, params = params2,
                             calls = NewRequest_call ''GET'' url # sent\<rparr>
                       else \<lparr>resp = Some r, err = None, params = params2,
                             calls = NewRequest_call ''GET'' url # sent\<rparr>))))"

definition GetCurated ::
    "'r Std \<Rightarrow> Client \<Rightarrow> GetCuratedPhotoParams \<Rightarrow> (GetCuratedPhotoParams, 'r) Outcome" where
  "GetCurated std c params0 =
     (let params1 = (if GetCuratedPhotoParams.Page params0 = 0
                     then params0\<lparr>GetCuratedPhotoParams.Page := 1\<rparr> else params0);
          params2 = (if GetCuratedPhotoParams.PerPage params1 = 0
                     then params1\<lparr>GetCuratedPhotoParams.PerPage := 5\<rparr> else params1)
      in
        (let url = BaseURL c @ Version c @ ''/curated?''
                     @ Encode (structToURLValues (reflect_GetCuratedPhotoParams params2))
         in
           (case NewRequest std ''GET'' url of
              Inl e \<Rightarrow>
                \<lparr>resp = None, err = Some e, params = params2, calls = [NewRequest_call ''GET'' url]\<rparr>
            | Inr req0 \<Rightarrow>
                (let req1 = Header_Set ''Accept'' ''application/json'' req0;
                     req2 = Header_Set ''Content-Type'' ''application/json'' req1;
                     req3 = Header_Set ''Authorization'' (ApiKey c) req2;
                     (e, r, sent) = sendRequest std c req3 (zero std)
                 in if e \<noteq> None
                    then \<lparr>resp = None, err = e, params = params2,
                          calls = NewRequest_call ''GET'' url # sent\<rparr>
                    else \<lparr>resp = Some r, err = None, params = params2,
                          calls = NewRequest_call ''GET'' url # sent\<rparr>))))"

definition GetPhoto :: "'r Std \<Rightarrow> Client \<Rightarrow> string \<Rightarrow> (unit, 'r) Outcome" where
  "GetPhoto std c id' =
     (let url = BaseURL c @ Version c @ ''/photos/'' @ id'
      in
        (case NewRequest std ''GET'' url of
           Inl e \<Rightarrow>
             \<lparr>resp = None, err = Some e, params = (), calls = [NewRequest_call ''GET'' url]\<rparr>
         | Inr req0 \<Rightarrow>
             (let req1 = Header_Set ''Accept'' ''application/json'' req0;
                  req2 = Header_Set ''Content-Type'' ''application/json'' req1;
                  req3 = Header_Set ''Authorization'' (ApiKey c) req2;
                  (e, r, sent) = sendRequest std c req3 (zero std)
              in if e \<noteq> None
                 then \<lparr>resp = None, err = e, params = (),
                       calls = NewRequest_call ''GET'' url # sent\<rparr>
                 else \<lparr>resp = Some r, err = None, params = (),
                       calls = NewRequest_call ''GET'' url # sent\<rparr>)))"

definition getCollections ::
    "'r Std \<Rightarrow> Client \<Rightarrow> GetFeaturedCollectionParams \<Rightarrow> bool
      \<Rightarrow> (GetFeaturedCollectionParams, 'r) Outcome" where
  "getCollections std c params0 own =
     (let params1 = (if GetFeaturedCollectionParams.Page params0 = 0
                     then params0\<lparr>GetFeaturedCollectionParams.Page := 1\<rparr> else params0);
          params2 = (if GetFeaturedCollectionParams.PerPage params1 = 0
                     then params1\<lparr>GetFeaturedCollectionParams.PerPage := 5\<rparr> else params1)
      in
        (let url0 = BaseURL c @ Version c @ ''/collections/featured?''
                      @ Encode (structToURLValues (reflect_GetFeaturedCollectionParams params2));
             url = (if own
                    then BaseURL c @ Version c @ ''/collections?''
                           @ Encode (structToURLValues
                               (reflect_GetFeaturedCollectionParams params2))
                    else url0)
         in
           (case NewRequest std ''GET'' url of
              Inl e \<Rightarrow>
                \<lparr>resp = None, err = Some e, params = params2, calls = [NewRequest_call ''GET'' url]\<rparr>
            | Inr req0 \<Rightarrow>
                (let req1 = Header_Set ''Accept'' ''application/json'' req0;
                     req2 = Header_Set ''Content-Type'' ''application/json'' req1;
                     req3 = Header_Set ''Authorization'' (ApiKey c) req2;
                     (e, r, sent) = sendRequest std c req3 (zero std)
                 in if e \<noteq> None
                    then \<lparr>resp = None, err = e, params = params2,
                          calls = NewRequest_call ''GET'' url # sent\<rparr>
                    else \<lparr>resp = Some r, err = None, params = params2,
                          calls = NewRequest_call ''GET'' url # sent\<rparr>))))"

definition GetCollection ::
    "'r Std \<Rightarrow> Client \<Rightarrow> GetCollectionMediaParams \<Rightarrow> string \<Rightarrow> (GetCollectionMediaParams, 'r) Outcome" where
  "GetCollection std c params0 id' =
     (let params1 = (if GetCollectionMediaParams.Page params0 = 0
                     then params0\<lparr>GetCollectionMediaParams.Page := 1\<rparr> else params0);
          params2 = (if GetCollectionMediaParams.PerPage params1 = 0
                     then params1\<lparr>GetCollectionMediaParams.PerPage := 5\<rparr> else params1)
      in
        (let url = BaseURL c @ Version c @ ''/collections/'' @ id' @ ''?''
                     @ Encode (structToURLValues (reflect_GetCollectionMediaParams params2))
         in
           (case NewRequest std ''GET'' url of
              Inl e \<Rightarrow>
                \<lparr>resp = None, err = Some e, params = params2, calls = [NewRequest_call ''GET'' url]\<rparr>
            | Inr req0 \<Rightarrow>
                (let req1 = Header_Set ''Accept'' ''application/json'' req0;
                     req2 = Header_Set ''Content-Type'' ''application/json'' req1;
                     req3 = Header_Set ''Authorization'' (ApiKey c) req2;
                     (e, r, sent) = sendRequest std c req3 (zero std)
                 in if e \<noteq> None
                    then \<lparr>resp = None, err = e, params = params2,
                          calls = NewRequest_call ''GET'' url # sent\<rparr>
                    else \<lparr>resp = Some r, err = None, params = params2,
                          calls = NewRequest_call ''GET'' url # sent\<rparr>))))"

definition GetFeaturedCollections ::
    "'r Std \<Rightarrow> Client \<Rightarrow> GetFeaturedCollectionParams
      \<Rightarrow> (GetFeaturedCollectionParams, 'r) Outcome" where
  "GetFeaturedCollections std c params0 = getCollections std c params0 False"

definition GetUserCollections ::
    "'r Std \<Rightarrow> Client \<Rightarrow> GetFeaturedCollectionParams
      \<Rightarrow> (GetFeaturedCollectionParams, 'r) Outcome" where
  "GetUserCollections std c params0 = getCollections std c params0 True"

definition GetVideo :: "'r Std \<Rightarrow> Client \<Rightarrow> string \<Rightarrow> (unit, 'r) Outcome" where
  "GetVideo std c id' =
     (let url = BaseURL c @ ''/videos/videos/'' @ id'
      in
        (case NewRequest std ''GET'' url of
           Inl e \<Rightarrow>
             \<lparr>resp = None, err = Some e, params = (), calls = [NewRequest_call ''GET'' url]\<rparr>
         | Inr req0 \<Rightarrow>
             (let req1 = Header_Set ''Accept'' ''application/json'' req0;
                  req2 = Header_Set ''Content-Type'' ''application/json'' req1;
                  req3 = Header_Set ''Authorization'' (ApiKey c) req2;
                  (e, r, sent) = sendRequest std c req3 (zero std)
              in if e \<noteq> None
                 then \<lparr>resp = None, err = e, params = (),
                       calls = NewRequest_call ''GET'' url # sent\<rparr>
                 else \<lparr>resp = Some r, err = None, params = (),
                       calls = NewRequest_call ''GET'' url # sent\<rparr>)))"

definition GetPopularVideos ::
    "'r Std \<Rightarrow> Client \<Rightarrow> GetPopularVideosParams \<Rightarrow> (GetPopularVideosParams, 'r) Outcome" where
  "GetPopularVideos std c params0 =
     (let params1 = (if GetPopularVideosParams.Page params0 = 0
                     then params0\<lparr>GetPopularVideosParams.Page := 1\<rparr> else params0);
          params2 = (if GetPopularVideosParams.PerPage params1 = 0
                     then params1\<lparr>GetPopularVideosParams.PerPage := 2\<rparr> else params1)
      in
        (let url = BaseURL c @ ''videos/popular?''
                     @ Encode (structToURLValues (reflect_GetPopularVideosParams params2))
         in
           (case NewRequest std ''GET'' url of
              Inl e \<Rightarrow>
                \<lparr>resp = None, err = Some e, params = params2, calls = [NewRequest_call ''GET'' url]\<rparr>
            | Inr req0 \<Rightarrow>
                (let req1 = Header_Set ''Accept'' ''application/json'' req0;
                     req2 = Header_Set ''Content-Type'' ''application/json'' req1;
                     req3 = Header_Set ''Authorization'' (ApiKey c) req2;
                     (e, r, sent) = sendRequest std c req3 (zero std)
                 in if e \<noteq> None
                    then \<lparr>resp = None, err = e, params = params2,
                          calls = NewRequest_call ''GET'' url # sent\<rparr>
                    else \<lparr>resp = Some r, err = None, params = params2,
                          calls = NewRequest_call ''GET'' url # sent\<rparr>))))"

definition GetVideos ::
    "'r Std \<Rightarrow> Client \<Rightarrow> GetVideosParams \<Rightarrow> (GetVideosParams, 'r) Outcome" where
  "GetVideos std c params0 =
     (let params1 = (if GetVideosParams.Page params0 = 0
                     then params0\<lparr>GetVideosParams.Page := 1\<rparr> else params0);
          params2 = (if GetVideosParams.PerPage params1 = 0
                     then params1\<lparr>GetVideosParams.PerPage := 5\<rparr> else params1)
      in if GetVideosParams.Query params2 = []
         then \<lparr>resp = None, err = Some (Errorf ''Query field cannot be empty.''),
               params = params2, calls = []\<rparr>
         else
           (let url = BaseURL c @ ''/videos/search?''
                        @ Encode (structToURLValues (reflect_GetVideosParams params2))
            in
              (case NewRequest std ''GET'' url of
                 Inl e \<Rightarrow>
                   \<lparr>resp = None, err = Some e, params = params2, calls = [NewRequest_call ''GET'' url]\<rparr>
               | Inr req0 \<Rightarrow>
                   (let req1 = Header_Set ''Accept'' ''application/json'' req0;
                        req3 = Header_Set ''Authorization'' (ApiKey c) req1;
                        (e, r, sent) = sendRequest std c req3 (zero std)
                    in if e \<noteq> None
                       then \<lparr>resp = None, err = e, params = params2,
                             calls = NewRequest_call ''GET'' url # sent\<rparr>
                       else \<lparr>resp = Some r, err = None, params = params2,
                             calls = NewRequest_call ''GET'' url # sent\<rparr>))))"

section \<open>The common tail of the bindings\<close>

text \<open>
  Once its URL is built every binding runs the same lines: the request is made, the headers
  are set, the pipeline runs, and the response is handed back unless there was an error.
  \<open>dispatch\<close> is that tail, with the request as the headers leave it given by \<open>hdr\<close>; the
  lemmas below rewrite each binding to it.
\<close>

definition dispatch ::
    "'r Std \<Rightarrow> Client \<Rightarrow> string \<Rightarrow> (string \<rightharpoonup> string list) \<Rightarrow> 'p \<Rightarrow> ('p, 'r) Outcome" where
  "dispatch std c url hdr ps =
     (case url_Parse std url of
        Some e \<Rightarrow> \<lparr>resp = None, err = Some e, params = ps, calls = [NewRequest_call ''GET'' url]\<rparr>
      | None \<Rightarrow>
          (case sendRequest std c \<lparr>Method = ''GET'', URL = url, Header = hdr\<rparr> (zero std) of
             (e, r, sent) \<Rightarrow>
               \<lparr>resp = (if e \<noteq> None then None else Some r), err = e, params = ps,
                calls = NewRequest_call ''GET'' url # sent\<rparr>))"

definition headers_plain :: "Client \<Rightarrow> string \<rightharpoonup> string list" where
  "headers_plain c =
     [''Accept'' \<mapsto> [''application/json''], ''Authorization'' \<mapsto> [ApiKey c]]"

definition headers_json :: "Client \<Rightarrow> string \<rightharpoonup> string list" where
  "headers_json c =
     [''Accept'' \<mapsto> [''application/json''], ''Content-Type'' \<mapsto> [''application/json''],
      ''Authorization'' \<mapsto> [ApiKey c]]"

text \<open>
  The record a list-shape binding leaves behind, for each parameter type: page \<open>1\<close> and the
  endpoint's page size where the caller left \<open>0\<close>.
\<close>

definition defaults_photos :: "GetPhotosParams \<Rightarrow> GetPhotosParams" where
  "defaults_photos p =
     p\<lparr>GetPhotosParams.Page := (if GetPhotosParams.Page p = 0 then 1 else GetPhotosParams.Page p),
       GetPhotosParams.PerPage := (if GetPhotosParams.PerPage p = 0 then 5 else GetPhotosParams.PerPage p)\<rparr>"

definition defaults_curated :: "GetCuratedPhotoParams \<Rightarrow> GetCuratedPhotoParams" where
  "defaults_curated p =
     p\<lparr>GetCuratedPhotoParams.Page := (if GetCuratedPhotoParams.Page p = 0 then 1 else GetCuratedPhotoParams.Page p),
       GetCuratedPhotoParams.PerPage := (if GetCuratedPhotoParams.PerPage p = 0 then 5 else GetCuratedPhotoParams.PerPage p)\<rparr>"

definition defaults_collections :: "GetFeaturedCollectionParams \<Rightarrow> GetFeaturedCollectionParams" where
  "defaults_collections p =
     p\<lparr>GetFeaturedCollectionParams.Page := (if GetFeaturedCollectionParams.Page p = 0 then 1 else GetFeaturedCollectionParams.Page p),
       GetFeaturedCollectionParams.PerPage := (if GetFeaturedCollectionParams.PerPage p = 0 then 5 else GetFeaturedCollectionParams.PerPage p)\<rparr>"

definition defaults_media :: "GetCollectionMediaParams \<Rightarrow> GetCollectionMediaParams" where
  "defaults_media p =
     p\<lparr>GetCollectionMediaParams.Page := (if GetCollectionMediaParams.Page p = 0 then 1 else GetCollectionMediaParams.Page p),
       GetCollectionMediaParams.PerPage := (if GetCollectionMediaParams.PerPage p = 0 then 5 else GetCollectionMediaParams.PerPage p)\<rparr>"

definition defaults_videos :: "GetVideosParams \<Rightarrow> GetVideosParams" where
  "defaults_videos p =
     p\<lparr>GetVideosParams.Page := (if GetVideosParams.Page p = 0 then 1 else GetVideosParams.Page p),
       GetVideosParams.PerPage := (if GetVideosParams.PerPage p = 0 then 5 else GetVideosParams.PerPage p)\<rparr>"

definition defaults_popular :: "GetPopularVideosParams \<Rightarrow> GetPopularVideosParams" where
  "defaults_popular p =
     p\<lparr>GetPopularVideosParams.Page := (if GetPopularVideosParams.Page p = 0 then 1 else GetPopularVideosParams.Page p),
       GetPopularVideosParams.PerPage := (if GetPopularVideosParams.PerPage p = 0 then 2 else GetPopularVideosParams.PerPage p)\<rparr>"

section \<open>A client over a canned transport\<close>

text \<open>
  \<open>NewClient\<close> as in the source, with the package's \<open>BaseURL\<close> and \<open>Version\<close>; the
  transport behind its \<open>http.Client\<close> is an argument. \<open>canned\<close> is a transport that
  answers every request with one status and one body, read to its end without error.
  \<open>std_empty_object\<close> has a URL parser that accepts everything and a decoder for a
  destination without fields, which takes the body \<open>{}\<close> and reports any other.
\<close>

definition NewClient :: "(Request \<Rightarrow> error + Response) \<Rightarrow> string \<Rightarrow> Client" where
  "NewClient transport apiKey =
     \<lparr>BaseURL = ''https://api.pexels.com/'', ApiKey = apiKey, HTTPClient = transport,
      Version = ''v1''\<rparr>"

definition canned :: "int \<Rightarrow> string \<Rightarrow> Request \<Rightarrow> error + Response" where
  "canned status body req = Inr \<lparr>StatusCode = status, Body = \<lparr>Data = body, ReadErr = None\<rparr>\<rparr>"

text \<open>
  \<open>answering\<close> is a transport that answers every request with one given response, whose
  body may also be one that fails while it is read.
\<close>

definition answering :: "Response \<Rightarrow> Request \<Rightarrow> error + Response" where
  "answering res req = Inr res"

definition std_empty_object :: "unit Std" where
  "std_empty_object =
     \<lparr>url_Parse = (\<lambda>url. None),
      json_Decode = (\<lambda>b vals.
        if ReadErr b = None \<and> Data b = ''{}'' then (vals, None)
        else (vals, Some (Errorf ''json: cannot decode''))),
      zero = ()\<rparr>"

section \<open>What a recording transport sees\<close>

text \<open>The URLs handed to \<open>http.NewRequest\<close>, and the requests handed to the transport.\<close>

fun built_urls :: "Call list \<Rightarrow> string list" where
  "built_urls [] = []"
| "built_urls (NewRequest_call method url # cs) = url # built_urls cs"
| "built_urls (Do_call req # cs) = built_urls cs"

fun sent :: "Call list \<Rightarrow> Request list" where
  "sent [] = []"
| "sent (NewRequest_call method url # cs) = sent cs"
| "sent (Do_call req # cs) = req # sent cs"

section \<open>The encoder's condition, and an encoded query taken apart\<close>

text \<open>
  The condition of the claims for a field to be encoded, in the spec's words: the field has
  a non-empty query-name annotation and its value is not the zero value of its type, a
  non-zero integer or a non-empty string. (The source tests the kind and the printed
  value; a field of any other kind is never encoded.)
\<close>

definition spec_included :: "StructField \<Rightarrow> bool" where
  "spec_included field =
     (urlTag field \<noteq> [] \<and>
      (case Interface field of IntV n \<Rightarrow> n \<noteq> 0 | StrV x \<Rightarrow> x \<noteq> [] | OtherV x \<Rightarrow> False))"

text \<open>
  The annotations of a struct are distinct when no non-empty \<open>url\<close> tag occurs on two
  fields.
\<close>

definition distinct_tags :: "StructField list \<Rightarrow> bool" where
  "distinct_tags s = distinct (filter (\<lambda>t. t \<noteq> []) (map urlTag s))"

text \<open>
  \<open>strings.Split\<close> with a one-byte separator: the pieces between the separators (one
  empty piece for the empty string).
\<close>

fun Split :: "string \<Rightarrow> char \<Rightarrow> string list" where
  "Split [] sep = [[]]"
| "Split (c # s) sep =
     (if c = sep then [] # Split s sep
      else (case Split s sep of p # ps \<Rightarrow> (c # p) # ps | [] \<Rightarrow> [[c]]))"

text \<open>
  \<open>strconv.Atoi\<close>: an optional sign and then decimal digits, at least one. \<open>None\<close> stands
  for its error. (On the unbounded integers of this model there is no range error.)
\<close>

fun ParseUint :: "string \<Rightarrow> nat \<Rightarrow> nat option" where
  "ParseUint [] n = Some n"
| "ParseUint (c # s) n =
     (if CHR ''0'' \<le> c \<and> c \<le> CHR ''9''
      then ParseUint s (n * 10 + (of_char c - of_char CHR ''0''))
      else None)"

definition Atoi :: "string \<Rightarrow> int option" where
  "Atoi s =
     (case s of
        [] \<Rightarrow> None
      | c # t \<Rightarrow>
          if c = CHR ''-'' then (if t = [] then None else map_option (\<lambda>n. - int n) (ParseUint t 0))
          else if c = CHR ''+'' then (if t = [] then None else map_option int (ParseUint t 0))
          else map_option int (ParseUint s 0))"

text \<open>
  What \<open>Encode\<close> writes, piece by piece: the keys in sorted order, each with its values;
  one piece \<open>key=value\<close> for each; the pieces joined by \<open>&\<close>. And what \<open>parseQuery\<close> does
  with one piece. These are the terms the proofs below reason in.
\<close>

definition Encode_pairs :: "Values \<Rightarrow> (string \<times> string) list" where
  "Encode_pairs v =
     concat (map (\<lambda>k. map (\<lambda>x. (k, x)) (Values_index v k)) (sort (remdups (map fst v))))"

definition piece :: "string \<times> string \<Rightarrow> string" where
  "piece kx = QueryEscape (fst kx) @ ''='' @ QueryEscape (snd kx)"

definition add_piece :: "string \<Rightarrow> string \<Rightarrow> string" where
  "add_piece buf p = (if buf \<noteq> [] then buf @ ''&'' else buf) @ p"

fun join_amp :: "string list \<Rightarrow> string" where
  "join_amp [] = []"
| "join_amp [p] = p"
| "join_amp (p # q # ps) = p @ ''&'' @ join_amp (q # ps)"

definition parse_add :: "Values \<Rightarrow> string \<times> string \<Rightarrow> Values" where
  "parse_add m kx = AList.update (fst kx) (Values_index m (fst kx) @ [snd kx]) m"

section \<open>The bindings, rewritten to their common tail\<close>

lemma tail_plain:
  "(case NewRequest std ''GET'' url of
      Inl e \<Rightarrow>
        \<lparr>resp = None, err = Some e, params = ps, calls = [NewRequest_call ''GET'' url]\<rparr>
    | Inr req0 \<Rightarrow>
        (let req1 = Header_Set ''Accept'' ''application/json'' req0;
             req3 = Header_Set ''Authorization'' (ApiKey c) req1;
             (e, r, sent) = sendRequest std c req3 (zero std)
         in if e \<noteq> None
            then \<lparr>resp = None, err = e, params = ps,
                  calls = NewRequest_call ''GET'' url # sent\<rparr>
            else \<lparr>resp = Some r, err = None, params = ps,
                  calls = NewRequest_call ''GET'' url # sent\<rparr>))
   = dispatch std c url (headers_plain c) ps"
  by (simp add: dispatch_def NewRequest_def Header_Set_def Let_def headers_plain_def
        split: option.splits prod.splits)

lemma tail_json:
  "(case NewRequest std ''GET'' url of
      Inl e \<Rightarrow>
        \<lparr>resp = None, err = Some e, params = ps, calls = [NewRequest_call ''GET'' url]\<rparr>
    | Inr req0 \<Rightarrow>
        (let req1 = Header_Set ''Accept'' ''application/json'' req0;
             req2 = Header_Set ''Content-Type'' ''application/json'' req1;
             req3 = Header_Set ''Authorization'' (ApiKey c) req2;
             (e, r, sent) = sendRequest std c req3 (zero std)
         in if e \<noteq> None
            then \<lparr>resp = None, err = e, params = ps,
                  calls = NewRequest_call ''GET'' url # sent\<rparr>
            else \<lparr>resp = Some r, err = None, params = ps,
                  calls = NewRequest_call ''GET'' url # sent\<rparr>))
   = dispatch std c url (headers_json c) ps"
  by (simp add: dispatch_def NewRequest_def Header_Set_def Let_def headers_json_def
        split: option.splits prod.splits)

lemma defaults_photos_eq:
  "(if GetPhotosParams.PerPage (if GetPhotosParams.Page params0 = 0 then params0\<lparr>GetPhotosParams.Page := 1\<rparr> else params0) = 0
    then (if GetPhotosParams.Page params0 = 0 then params0\<lparr>GetPhotosParams.Page := 1\<rparr> else params0)\<lparr>GetPhotosParams.PerPage := 5\<rparr>
    else (if GetPhotosParams.Page params0 = 0 then params0\<lparr>GetPhotosParams.Page := 1\<rparr> else params0)) = defaults_photos params0"
  by (cases params0) (simp add: defaults_photos_def)

lemma defaults_curated_eq:
  "(if GetCuratedPhotoParams.PerPage (if GetCuratedPhotoParams.Page params0 = 0 then params0\<lparr>GetCuratedPhotoParams.Page := 1\<rparr> else params0) = 0
    then (if GetCuratedPhotoParams.Page params0 = 0 then params0\<lparr>GetCuratedPhotoParams.Page := 1\<rparr> else params0)\<lparr>GetCuratedPhotoParams.PerPage := 5\<rparr>
    else (if GetCuratedPhotoParams.Page params0 = 0 then params0\<lparr>GetCuratedPhotoParams.Page := 1\<rparr> else params0)) = defaults_curated params0"
  by (cases params0) (simp add: defaults_curated_def)

lemma defaults_collections_eq:
  "(if GetFeaturedCollectionParams.PerPage (if GetFeaturedCollectionParams.Page params0 = 0 then params0\<lparr>GetFeaturedCollectionParams.Page := 1\<rparr> else params0) = 0
    then (if GetFeaturedCollectionParams.Page params0 = 0 then params0\<lparr>GetFeaturedCollectionParams.Page := 1\<rparr> else params0)\<lparr>GetFeaturedCollectionParams.PerPage := 5\<rparr>
    else (if GetFeaturedCollectionParams.Page params0 = 0 then params0\<lparr>GetFeaturedCollectionParams.Page := 1\<rparr> else params0)) = defaults_collections params0"
  by (cases params0) (simp add: defaults_collections_def)

lemma defaults_media_eq:
  "(if GetCollectionMediaParams.PerPage (if GetCollectionMediaParams.Page params0 = 0 then params0\<lparr>GetCollectionMediaParams.Page := 1\<rparr> else params0) = 0
    then (if GetCollectionMediaParams.Page params0 = 0 then params0\<lparr>GetCollectionMediaParams.Page := 1\<rparr> else params0)\<lparr>GetCollectionMediaParams.PerPage := 5\<rparr>
    else (if GetCollectionMediaParams.Page params0 = 0 then params0\<lparr>GetCollectionMediaParams.Page := 1\<rparr> else params0)) = defaults_media params0"
  by (cases params0) (simp add: defaults_media_def)

lemma defaults_videos_eq:
  "(if GetVideosParams.PerPage (if GetVideosParams.Page params0 = 0 then params0\<lparr>GetVideosParams.Page := 1\<rparr> else params0) = 0
    then (if GetVideosParams.Page params0 = 0 then params0\<lparr>GetVideosParams.Page := 1\<rparr> else params0)\<lparr>GetVideosParams.PerPage := 5\<rparr>
    else (if GetVideosParams.Page params0 = 0 then params0\<lparr>GetVideosParams.Page := 1\<rparr> else params0)) = defaults_videos params0"
  by (cases params0) (simp add: defaults_videos_def)

lemma defaults_popular_eq:
  "(if GetPopularVideosParams.PerPage (if GetPopularVideosParams.Page params0 = 0 then params0\<lparr>GetPopularVideosParams.Page := 1\<rparr> else params0) = 0
    then (if GetPopularVideosParams.Page params0 = 0 then params0\<lparr>GetPopularVideosParams.Page := 1\<rparr> else params0)\<lparr>GetPopularVideosParams.PerPage := 2\<rparr>
    else (if GetPopularVideosParams.Page params0 = 0 then params0\<lparr>GetPopularVideosParams.Page := 1\<rparr> else params0)) = defaults_popular params0"
  by (cases params0) (simp add: defaults_popular_def)

lemma Query_defaults_photos:
  "GetPhotosParams.Query (defaults_photos p) = GetPhotosParams.Query p"
  by (simp add: defaults_photos_def)

lemma Query_defaults_videos:
  "GetVideosParams.Query (defaults_videos p) = GetVideosParams.Query p"
  by (simp add: defaults_videos_def)

lemma GetPhotos_dispatch:
  "GetPhotos std c p =
     (if GetPhotosParams.Query p = []
      then \<lparr>resp = None, err = Some (Errorf ''Query field cannot be empty.''),
            params = defaults_photos p, calls = []\<rparr>
      else dispatch std c
             (BaseURL c @ Version c @ ''/search?''
                @ Encode (structToURLValues (reflect_GetPhotosParams (defaults_photos p))))
             (headers_plain c) (defaults_photos p))"
  unfolding GetPhotos_def Let_def tail_plain [unfolded Let_def] defaults_photos_eq Query_defaults_photos
  by (rule refl)

lemma GetCurated_dispatch:
  "GetCurated std c p =
     dispatch std c
       (BaseURL c @ Version c @ ''/curated?''
          @ Encode (structToURLValues (reflect_GetCuratedPhotoParams (defaults_curated p))))
       (headers_json c) (defaults_curated p)"
  unfolding GetCurated_def Let_def tail_json [unfolded Let_def] defaults_curated_eq
  by (rule refl)

lemma GetCollection_dispatch:
  "GetCollection std c p id' =
     dispatch std c
       (BaseURL c @ Version c @ ''/collections/'' @ id' @ ''?''
          @ Encode (structToURLValues (reflect_GetCollectionMediaParams (defaults_media p))))
       (headers_json c) (defaults_media p)"
  unfolding GetCollection_def Let_def tail_json [unfolded Let_def] defaults_media_eq
  by (rule refl)

lemma GetPopularVideos_dispatch:
  "GetPopularVideos std c p =
     dispatch std c
       (BaseURL c @ ''videos/popular?''
          @ Encode (structToURLValues (reflect_GetPopularVideosParams (defaults_popular p))))
       (headers_json c) (defaults_popular p)"
  unfolding GetPopularVideos_def Let_def tail_json [unfolded Let_def] defaults_popular_eq
  by (rule refl)

lemma GetVideos_dispatch:
  "GetVideos std c p =
     (if GetVideosParams.Query p = []
      then \<lparr>resp = None, err = Some (Errorf ''Query field cannot be empty.''),
            params = defaults_videos p, calls = []\<rparr>
      else dispatch std c
             (BaseURL c @ ''/videos/search?''
                @ Encode (structToURLValues (reflect_GetVideosParams (defaults_videos p))))
             (headers_plain c) (defaults_videos p))"
  unfolding GetVideos_def Let_def tail_plain [unfolded Let_def] defaults_videos_eq Query_defaults_videos
  by (rule refl)

lemma getCollections_dispatch:
  "getCollections std c p own =
     dispatch std c
       (BaseURL c @ Version c @ (if own then ''/collections?'' else ''/collections/featured?'')
          @ Encode (structToURLValues (reflect_GetFeaturedCollectionParams
              (defaults_collections p))))
       (headers_json c) (defaults_collections p)"
  unfolding getCollections_def Let_def tail_json [unfolded Let_def] defaults_collections_eq
  by (cases own) simp_all

lemma GetPhoto_dispatch:
  "GetPhoto std c id' =
     dispatch std c (BaseURL c @ Version c @ ''/photos/'' @ id') (headers_json c) ()"
  unfolding GetPhoto_def Let_def tail_json [unfolded Let_def]
  by (rule refl)

lemma GetVideo_dispatch:
  "GetVideo std c id' =
     dispatch std c (BaseURL c @ ''/videos/videos/'' @ id') (headers_json c) ()"
  unfolding GetVideo_def Let_def tail_json [unfolded Let_def]
  by (rule refl)

lemma params_dispatch: "params (dispatch std c url hdr ps) = ps"
  by (simp add: dispatch_def split: option.splits prod.splits)

section \<open>The pipeline and the common tail\<close>

lemma sendRequest_calls: "snd (snd (sendRequest std c req vals)) = [Do_call req]"
  by (simp add: sendRequest_def split: sum.splits prod.splits option.splits)

lemma calls_dispatch:
  "calls (dispatch std c url hdr ps) =
     (if url_Parse std url = None
      then [NewRequest_call ''GET'' url, Do_call \<lparr>Method = ''GET'', URL = url, Header = hdr\<rparr>]
      else [NewRequest_call ''GET'' url])"
  using sendRequest_calls [of std c "\<lparr>Method = ''GET'', URL = url, Header = hdr\<rparr>" "zero std"]
  by (auto simp: dispatch_def split: option.splits prod.splits)

lemma built_urls_dispatch: "built_urls (calls (dispatch std c url hdr ps)) = [url]"
  by (simp add: calls_dispatch)

lemma sent_dispatch:
  "sent (calls (dispatch std c url hdr ps)) =
     (if url_Parse std url = None then [\<lparr>Method = ''GET'', URL = url, Header = hdr\<rparr>] else [])"
  by (simp add: calls_dispatch)

lemma sendRequest_error_status:
  assumes "HTTPClient c req = Inr res"
    and "StatusCode res < 200 \<or> 400 \<le> StatusCode res"
    and "ReadAll (Body res) = Inr b"
  shows "sendRequest std c req vals =
           (Some (Errorf (''Unknown API error: '' @ Itoa (StatusCode res) @ '' '' @ b)), vals,
            [Do_call req])"
  using assms by (auto simp: sendRequest_def)

lemma sendRequest_decoded_status:
  assumes "HTTPClient c req = Inr res"
    and "200 \<le> StatusCode res" and "StatusCode res < 400"
  shows "sendRequest std c req vals =
           (snd (json_Decode std (Body res) vals), fst (json_Decode std (Body res) vals),
            [Do_call req])"
  using assms by (auto simp: sendRequest_def split: prod.splits option.splits)

lemma ReadAll_canned: "canned s b req = Inr res \<Longrightarrow> ReadAll (Body res) = Inr b \<and> StatusCode res = s"
  by (auto simp: canned_def ReadAll_def)

lemma dispatch_canned_error:
  assumes "s < 200 \<or> 400 \<le> s"
  shows "resp (dispatch std (c\<lparr>HTTPClient := canned s b\<rparr>) url hdr ps) = None \<and>
         (sent (calls (dispatch std (c\<lparr>HTTPClient := canned s b\<rparr>) url hdr ps)) \<noteq> [] \<longrightarrow>
          err (dispatch std (c\<lparr>HTTPClient := canned s b\<rparr>) url hdr ps)
            = Some (Errorf (''Unknown API error: '' @ Itoa s @ '' '' @ b)))"
proof -
  let ?c = "c\<lparr>HTTPClient := canned s b\<rparr>"
  let ?req = "\<lparr>Method = ''GET'', URL = url, Header = hdr\<rparr>"
  let ?res = "\<lparr>StatusCode = s, Body = \<lparr>Data = b, ReadErr = None\<rparr>\<rparr>"
  have "HTTPClient ?c ?req = Inr ?res" by (simp add: canned_def)
  moreover have "ReadAll (Body ?res) = Inr b" by (simp add: ReadAll_def)
  ultimately have sr: "sendRequest std ?c ?req (zero std) =
      (Some (Errorf (''Unknown API error: '' @ Itoa s @ '' '' @ b)), zero std, [Do_call ?req])"
    using assms sendRequest_error_status [of ?c ?req ?res b std "zero std"] by simp
  show ?thesis
    by (simp add: dispatch_def sr split: option.splits)
qed

lemma Itoa_404: "Itoa 404 = ''404''"
  by (simp add: Itoa_def FormatUint.simps digit_def)

lemma headers_json_transport [simp]: "headers_json (c\<lparr>HTTPClient := t\<rparr>) = headers_json c"
  by (simp add: headers_json_def)

lemma headers_plain_transport [simp]: "headers_plain (c\<lparr>HTTPClient := t\<rparr>) = headers_plain c"
  by (simp add: headers_plain_def)

lemma dispatch_canned_decoded:
  assumes "200 \<le> s" and "s < 400"
  shows "dispatch std (c\<lparr>HTTPClient := canned s b\<rparr>) url hdr ps
           = dispatch std (c\<lparr>HTTPClient := canned 200 b\<rparr>) url hdr ps"
  using assms by (simp add: dispatch_def sendRequest_def canned_def split: option.splits)

lemma client_fields_transport [simp]:
  "BaseURL (c\<lparr>HTTPClient := t\<rparr>) = BaseURL c"
  "Version (c\<lparr>HTTPClient := t\<rparr>) = Version c"
  "ApiKey (c\<lparr>HTTPClient := t\<rparr>) = ApiKey c"
  by simp_all

lemma NewClient_canned [simp]:
  "(NewClient t k)\<lparr>HTTPClient := t'\<rparr> = NewClient t' k"
  by (simp add: NewClient_def)

lemma GetCurated_canned_error:
  assumes "s < 200 \<or> 400 \<le> s"
  shows "resp (GetCurated std (c\<lparr>HTTPClient := canned s b\<rparr>) p) = None \<and>
         (sent (calls (GetCurated std (c\<lparr>HTTPClient := canned s b\<rparr>) p)) \<noteq> [] \<longrightarrow>
          err (GetCurated std (c\<lparr>HTTPClient := canned s b\<rparr>) p) = Some (Errorf (''Unknown API error: '' @ Itoa s @ '' '' @ b)))"
  unfolding GetCurated_dispatch by (rule dispatch_canned_error [OF assms])

lemma GetPhoto_canned_error:
  assumes "s < 200 \<or> 400 \<le> s"
  shows "resp (GetPhoto std (c\<lparr>HTTPClient := canned s b\<rparr>) id') = None \<and>
         (sent (calls (GetPhoto std (c\<lparr>HTTPClient := canned s b\<rparr>) id')) \<noteq> [] \<longrightarrow>
          err (GetPhoto std (c\<lparr>HTTPClient := canned s b\<rparr>) id') = Some (Errorf (''Unknown API error: '' @ Itoa s @ '' '' @ b)))"
  unfolding GetPhoto_dispatch by (rule dispatch_canned_error [OF assms])

lemma getCollections_canned_error:
  assumes "s < 200 \<or> 400 \<le> s"
  shows "resp (getCollections std (c\<lparr>HTTPClient := canned s b\<rparr>) p own) = None \<and>
         (sent (calls (getCollections std (c\<lparr>HTTPClient := canned s b\<rparr>) p own)) \<noteq> [] \<longrightarrow>
          err (getCollections std (c\<lparr>HTTPClient := canned s b\<rparr>) p own) = Some (Errorf (''Unknown API error: '' @ Itoa s @ '' '' @ b)))"
  unfolding getCollections_dispatch by (rule dispatch_canned_error [OF assms])

lemma GetCollection_canned_error:
  assumes "s < 200 \<or> 400 \<le> s"
  shows "resp (GetCollection std (c\<lparr>HTTPClient := canned s b\<rparr>) p id') = None \<and>
         (sent (calls (GetCollection std (c\<lparr>HTTPClient := canned s b\<rparr>) p id')) \<noteq> [] \<longrightarrow>
          err (GetCollection std (c\<lparr>HTTPClient := canned s b\<rparr>) p id') = Some (Errorf (''Unknown API error: '' @ Itoa s @ '' '' @ b)))"
  unfolding GetCollection_dispatch by (rule dispatch_canned_error [OF assms])

lemma GetVideo_canned_error:
  assumes "s < 200 \<or> 400 \<le> s"
  shows "resp (GetVideo std (c\<lparr>HTTPClient := canned s b\<rparr>) id') = None \<and>
         (sent (calls (GetVideo std (c\<lparr>HTTPClient := canned s b\<rparr>) id')) \<noteq> [] \<longrightarrow>
          err (GetVideo std (c\<lparr>HTTPClient := canned s b\<rparr>) id') = Some (Errorf (''Unknown API error: '' @ Itoa s @ '' '' @ b)))"
  unfolding GetVideo_dispatch by (rule dispatch_canned_error [OF assms])

lemma GetPopularVideos_canned_error:
  assumes "s < 200 \<or> 400 \<le> s"
  shows "resp (GetPopularVideos std (c\<lparr>HTTPClient := canned s b\<rparr>) p) = None \<and>
         (sent (calls (GetPopularVideos std (c\<lparr>HTTPClient := canned s b\<rparr>) p)) \<noteq> [] \<longrightarrow>
          err (GetPopularVideos std (c\<lparr>HTTPClient := canned s b\<rparr>) p) = Some (Errorf (''Unknown API error: '' @ Itoa s @ '' '' @ b)))"
  unfolding GetPopularVideos_dispatch by (rule dispatch_canned_error [OF assms])

lemma GetFeaturedCollections_canned_error:
  assumes "s < 200 \<or> 400 \<le> s"
  shows "resp (GetFeaturedCollections std (c\<lparr>HTTPClient := canned s b\<rparr>) p) = None \<and>
         (sent (calls (GetFeaturedCollections std (c\<lparr>HTTPClient := canned s b\<rparr>) p)) \<noteq> [] \<longrightarrow>
          err (GetFeaturedCollections std (c\<lparr>HTTPClient := canned s b\<rparr>) p) = Some (Errorf (''Unknown API error: '' @ Itoa s @ '' '' @ b)))"
  unfolding GetFeaturedCollections_def by (rule getCollections_canned_error [OF assms])

lemma GetUserCollections_canned_error:
  assumes "s < 200 \<or> 400 \<le> s"
  shows "resp (GetUserCollections std (c\<lparr>HTTPClient := canned s b\<rparr>) p) = None \<and>
         (sent (calls (GetUserCollections std (c\<lparr>HTTPClient := canned s b\<rparr>) p)) \<noteq> [] \<longrightarrow>
          err (GetUserCollections std (c\<lparr>HTTPClient := canned s b\<rparr>) p) = Some (Errorf (''Unknown API error: '' @ Itoa s @ '' '' @ b)))"
  unfolding GetUserCollections_def by (rule getCollections_canned_error [OF assms])

lemma GetPhotos_canned_error:
  assumes "s < 200 \<or> 400 \<le> s"
  shows "resp (GetPhotos std (c\<lparr>HTTPClient := canned s b\<rparr>) p) = None \<and>
         (sent (calls (GetPhotos std (c\<lparr>HTTPClient := canned s b\<rparr>) p)) \<noteq> [] \<longrightarrow>
          err (GetPhotos std (c\<lparr>HTTPClient := canned s b\<rparr>) p) = Some (Errorf (''Unknown API error: '' @ Itoa s @ '' '' @ b)))"
proof (cases "GetPhotosParams.Query p = []")
  case True
  then show ?thesis by (simp add: GetPhotos_dispatch)
next
  case False
  show ?thesis
    unfolding GetPhotos_dispatch if_not_P [OF False] by (rule dispatch_canned_error [OF assms])
qed

lemma GetVideos_canned_error:
  assumes "s < 200 \<or> 400 \<le> s"
  shows "resp (GetVideos std (c\<lparr>HTTPClient := canned s b\<rparr>) p) = None \<and>
         (sent (calls (GetVideos std (c\<lparr>HTTPClient := canned s b\<rparr>) p)) \<noteq> [] \<longrightarrow>
          err (GetVideos std (c\<lparr>HTTPClient := canned s b\<rparr>) p) = Some (Errorf (''Unknown API error: '' @ Itoa s @ '' '' @ b)))"
proof (cases "GetVideosParams.Query p = []")
  case True
  then show ?thesis by (simp add: GetVideos_dispatch)
next
  case False
  show ?thesis
    unfolding GetVideos_dispatch if_not_P [OF False] by (rule dispatch_canned_error [OF assms])
qed

section \<open>Validation of the search query\<close>

text \<open>
  C1. Photo search (\<open>GetPhotos\<close>) and video search (\<open>GetVideos\<close>): whenever the query
  string of the parameter record is empty, the call returns a nil response and the
  validation error with its fixed message, and it makes no library call at all: no request
  is constructed (\<open>http.NewRequest\<close>) and none is sent (\<open>HTTPClient.Do\<close>). This holds for
  every client, whatever its transport would answer.
\<close>

theorem C1_empty_query_is_rejected_without_a_request:
  "(GetPhotosParams.Query p = [] \<longrightarrow>
      resp (GetPhotos std c p) = None \<and>
      err (GetPhotos std c p) = Some (Errorf ''Query field cannot be empty.'') \<and>
      calls (GetPhotos std c p) = []) \<and>
   (GetVideosParams.Query q = [] \<longrightarrow>
      resp (GetVideos std' c' q) = None \<and>
      err (GetVideos std' c' q) = Some (Errorf ''Query field cannot be empty.'') \<and>
      calls (GetVideos std' c' q) = [])"
  by (simp add: GetPhotos_dispatch GetVideos_dispatch)

theorem C1_empty_query_witness:
  "resp (GetPhotos std_empty_object (NewClient (canned 200 ''{}'') ''KEY'')
      \<lparr>GetPhotosParams.Query = [], Orientation = ''landscape'', Size = [], Color = [],
       Locale = [], Page = 0, PerPage = 0\<rparr>) = None \<and>
   err (GetPhotos std_empty_object (NewClient (canned 200 ''{}'') ''KEY'')
      \<lparr>GetPhotosParams.Query = [], Orientation = ''landscape'', Size = [], Color = [],
       Locale = [], Page = 0, PerPage = 0\<rparr>) = Some (Errorf ''Query field cannot be empty.'') \<and>
   calls (GetPhotos std_empty_object (NewClient (canned 200 ''{}'') ''KEY'')
      \<lparr>GetPhotosParams.Query = [], Orientation = ''landscape'', Size = [], Color = [],
       Locale = [], Page = 0, PerPage = 0\<rparr>) = [] \<and>
   resp (GetVideos std_empty_object (NewClient (canned 200 ''{}'') ''KEY'')
      \<lparr>GetVideosParams.Query = [], Orientation = [], Size = ''large'', Locale = [],
       Page = 3, PerPage = 0\<rparr>) = None \<and>
   err (GetVideos std_empty_object (NewClient (canned 200 ''{}'') ''KEY'')
      \<lparr>GetVideosParams.Query = [], Orientation = [], Size = ''large'', Locale = [],
       Page = 3, PerPage = 0\<rparr>) = Some (Errorf ''Query field cannot be empty.'') \<and>
   calls (GetVideos std_empty_object (NewClient (canned 200 ''{}'') ''KEY'')
      \<lparr>GetVideosParams.Query = [], Orientation = [], Size = ''large'', Locale = [],
       Page = 3, PerPage = 0\<rparr>) = []"
  using C1_empty_query_is_rejected_without_a_request
    [where p = "\<lparr>GetPhotosParams.Query = [], Orientation = ''landscape'', Size = [],
                 Color = [], Locale = [], Page = 0, PerPage = 0\<rparr>"
       and q = "\<lparr>GetVideosParams.Query = [], Orientation = [], Size = ''large'',
                 Locale = [], Page = 3, PerPage = 0\<rparr>"
       and std = std_empty_object and std' = std_empty_object
       and c = "NewClient (canned 200 ''{}'') ''KEY''"
       and c' = "NewClient (canned 200 ''{}'') ''KEY''"]
  by simp

section \<open>The defaults reach the caller's record\<close>

text \<open>
  C10. Every list-shape binding writes the pagination defaults into the caller's parameter
  record: whatever the call returns, the record it leaves behind is the one it was given
  with page \<open>1\<close> and the endpoint's page size (\<open>5\<close>, or \<open>2\<close> for popular videos) in place
  of a \<open>0\<close>. The two search bindings do so before they look at the query: a call that
  fails with the validation error has still replaced a zero page by \<open>1\<close> and a zero page
  size by \<open>5\<close>, so the record is not left as it was.
\<close>

theorem C10_defaults_are_written_before_validation:
  "params (GetPhotos std c p1) = defaults_photos p1 \<and>
   params (GetCurated std c p2) = defaults_curated p2 \<and>
   params (getCollections std c p3 own) = defaults_collections p3 \<and>
   params (GetFeaturedCollections std c p3) = defaults_collections p3 \<and>
   params (GetUserCollections std c p3) = defaults_collections p3 \<and>
   params (GetCollection std c p4 id') = defaults_media p4 \<and>
   params (GetVideos std c p5) = defaults_videos p5 \<and>
   params (GetPopularVideos std c p6) = defaults_popular p6 \<and>
   (GetPhotosParams.Query p1 = [] \<longrightarrow>
      err (GetPhotos std c p1) = Some (Errorf ''Query field cannot be empty.'') \<and>
      GetPhotosParams.Page (params (GetPhotos std c p1))
        = (if GetPhotosParams.Page p1 = 0 then 1 else GetPhotosParams.Page p1) \<and>
      GetPhotosParams.PerPage (params (GetPhotos std c p1))
        = (if GetPhotosParams.PerPage p1 = 0 then 5 else GetPhotosParams.PerPage p1)) \<and>
   (GetVideosParams.Query p5 = [] \<longrightarrow>
      err (GetVideos std c p5) = Some (Errorf ''Query field cannot be empty.'') \<and>
      GetVideosParams.Page (params (GetVideos std c p5))
        = (if GetVideosParams.Page p5 = 0 then 1 else GetVideosParams.Page p5) \<and>
      GetVideosParams.PerPage (params (GetVideos std c p5))
        = (if GetVideosParams.PerPage p5 = 0 then 5 else GetVideosParams.PerPage p5))"
  by (simp add: GetPhotos_dispatch GetCurated_dispatch getCollections_dispatch
        GetFeaturedCollections_def GetUserCollections_def GetCollection_dispatch
        GetVideos_dispatch GetPopularVideos_dispatch params_dispatch
        defaults_photos_def defaults_videos_def)

theorem C10_defaults_witness:
  "err (GetPhotos std_empty_object (NewClient (canned 200 ''{}'') ''KEY'')
      \<lparr>GetPhotosParams.Query = [], Orientation = [], Size = [], Color = ''red'',
       Locale = [], Page = 0, PerPage = 0\<rparr>) = Some (Errorf ''Query field cannot be empty.'') \<and>
   params (GetPhotos std_empty_object (NewClient (canned 200 ''{}'') ''KEY'')
      \<lparr>GetPhotosParams.Query = [], Orientation = [], Size = [], Color = ''red'',
       Locale = [], Page = 0, PerPage = 0\<rparr>)
     = \<lparr>GetPhotosParams.Query = [], Orientation = [], Size = [], Color = ''red'',
        Locale = [], Page = 1, PerPage = 5\<rparr> \<and>
   err (GetVideos std_empty_object (NewClient (canned 200 ''{}'') ''KEY'')
      \<lparr>GetVideosParams.Query = [], Orientation = [], Size = [], Locale = ''en-US'',
       Page = 0, PerPage = 0\<rparr>) = Some (Errorf ''Query field cannot be empty.'') \<and>
   params (GetVideos std_empty_object (NewClient (canned 200 ''{}'') ''KEY'')
      \<lparr>GetVideosParams.Query = [], Orientation = [], Size = [], Locale = ''en-US'',
       Page = 0, PerPage = 0\<rparr>)
     = \<lparr>GetVideosParams.Query = [], Orientation = [], Size = [], Locale = ''en-US'',
        Page = 1, PerPage = 5\<rparr>"
  using C10_defaults_are_written_before_validation
    [where ?p1.0 = "\<lparr>GetPhotosParams.Query = [], Orientation = [], Size = [],
                    Color = ''red'', Locale = [], Page = 0, PerPage = 0\<rparr>"
       and ?p2.0 = "\<lparr>GetCuratedPhotoParams.Page = 0, PerPage = 0\<rparr>"
       and ?p3.0 = "\<lparr>GetFeaturedCollectionParams.Page = 0, PerPage = 0\<rparr>"
       and ?p4.0 = "\<lparr>GetCollectionMediaParams.Type = [], Sort = [], Page = 0, PerPage = 0\<rparr>"
       and ?p5.0 = "\<lparr>GetVideosParams.Query = [], Orientation = [], Size = [],
                    Locale = ''en-US'', Page = 0, PerPage = 0\<rparr>"
       and ?p6.0 = "\<lparr>MinWidth = 0, MinHeight = 0, MinDuration = 0, MaxDuration = 0,
                    Page = 0, PerPage = 0\<rparr>"
       and own = False and id' = "''x''"
       and std = std_empty_object
       and c = "NewClient (canned 200 ''{}'') ''KEY''"]
  by (simp add: defaults_photos_def defaults_videos_def)

section \<open>Statuses the pipeline reports as errors\<close>

lemma sendRequest_read_failed:
  assumes "HTTPClient c req = Inr res"
    and "StatusCode res < 200 \<or> 400 \<le> StatusCode res"
    and "ReadAll (Body res) = Inl e"
  shows "sendRequest std c req vals = (Some e, vals, [Do_call req])"
  using assms by (auto simp: sendRequest_def)

lemma dispatch_answering_error:
  assumes "StatusCode res < 200 \<or> 400 \<le> StatusCode res"
  shows "resp (dispatch std (c\<lparr>HTTPClient := answering res\<rparr>) url hdr ps) = None \<and>
         (sent (calls (dispatch std (c\<lparr>HTTPClient := answering res\<rparr>) url hdr ps)) \<noteq> [] \<and> ReadAll (Body res) = Inr b \<longrightarrow>
            err (dispatch std (c\<lparr>HTTPClient := answering res\<rparr>) url hdr ps) = Some (Errorf (''Unknown API error: '' @ Itoa (StatusCode res) @ '' '' @ b))) \<and>
         (sent (calls (dispatch std (c\<lparr>HTTPClient := answering res\<rparr>) url hdr ps)) \<noteq> [] \<and> ReadAll (Body res) = Inl e \<longrightarrow>
            err (dispatch std (c\<lparr>HTTPClient := answering res\<rparr>) url hdr ps) = Some e)"
proof -
  let ?c = "c\<lparr>HTTPClient := answering res\<rparr>"
  let ?req = "\<lparr>Method = ''GET'', URL = url, Header = hdr\<rparr>"
  have ans: "HTTPClient ?c ?req = Inr res" by (simp add: answering_def)
  have ok: "sendRequest std ?c ?req (zero std)
      = (Some (Errorf (''Unknown API error: '' @ Itoa (StatusCode res) @ '' '' @ b')), zero std,
         [Do_call ?req])"
    if "ReadAll (Body res) = Inr b'" for b'
    using sendRequest_error_status [OF ans assms that] .
  have failed: "sendRequest std ?c ?req (zero std) = (Some e', zero std, [Do_call ?req])"
    if "ReadAll (Body res) = Inl e'" for e'
    using sendRequest_read_failed [OF ans assms that] .
  have "resp (dispatch std ?c url hdr ps) = None"
    using ok failed
    by (cases "ReadAll (Body res)") (auto simp: dispatch_def split: option.splits)
  moreover have "err (dispatch std ?c url hdr ps) = Some (Errorf (''Unknown API error: '' @ Itoa (StatusCode res) @ '' '' @ b))"
    if "sent (calls (dispatch std ?c url hdr ps)) \<noteq> []" and "ReadAll (Body res) = Inr b"
    using that ok by (simp add: dispatch_def split: option.splits)
  moreover have "err (dispatch std ?c url hdr ps) = Some e"
    if "sent (calls (dispatch std ?c url hdr ps)) \<noteq> []" and "ReadAll (Body res) = Inl e"
    using that failed by (simp add: dispatch_def split: option.splits)
  ultimately show ?thesis by blast
qed

lemma GetCurated_answering_error:
  assumes "StatusCode res < 200 \<or> 400 \<le> StatusCode res"
  shows "resp (GetCurated std (c\<lparr>HTTPClient := answering res\<rparr>) p) = None \<and>
         (sent (calls (GetCurated std (c\<lparr>HTTPClient := answering res\<rparr>) p)) \<noteq> [] \<and> ReadAll (Body res) = Inr b \<longrightarrow>
            err (GetCurated std (c\<lparr>HTTPClient := answering res\<rparr>) p) = Some (Errorf (''Unknown API error: '' @ Itoa (StatusCode res) @ '' '' @ b))) \<and>
         (sent (calls (GetCurated std (c\<lparr>HTTPClient := answering res\<rparr>) p)) \<noteq> [] \<and> ReadAll (Body res) = Inl e \<longrightarrow>
            err (GetCurated std (c\<lparr>HTTPClient := answering res\<rparr>) p) = Some e)"
  unfolding GetCurated_dispatch by (rule dispatch_answering_error [OF assms])

lemma GetCurated_answering_reaches:
  assumes "StatusCode res < 200 \<or> 400 \<le> StatusCode res"
  shows "((\<forall>u. url_Parse std u = None) \<and> ReadAll (Body res) = Inr b \<longrightarrow>
            err (GetCurated std (c\<lparr>HTTPClient := answering res\<rparr>) p) = Some (Errorf (''Unknown API error: '' @ Itoa (StatusCode res) @ '' '' @ b)))"
proof (intro impI)
  assume a: "(\<forall>u. url_Parse std u = None) \<and> ReadAll (Body res) = Inr b"
  then have "sent (calls (GetCurated std (c\<lparr>HTTPClient := answering res\<rparr>) p)) \<noteq> []"
    by (simp add: GetCurated_dispatch sent_dispatch)
  with a GetCurated_answering_error [OF assms, of std c p b e]
  show "err (GetCurated std (c\<lparr>HTTPClient := answering res\<rparr>) p) = Some (Errorf (''Unknown API error: '' @ Itoa (StatusCode res) @ '' '' @ b))"
    by blast
qed

lemma GetPhoto_answering_error:
  assumes "StatusCode res < 200 \<or> 400 \<le> StatusCode res"
  shows "resp (GetPhoto std (c\<lparr>HTTPClient := answering res\<rparr>) id') = None \<and>
         (sent (calls (GetPhoto std (c\<lparr>HTTPClient := answering res\<rparr>) id')) \<noteq> [] \<and> ReadAll (Body res) = Inr b \<longrightarrow>
            err (GetPhoto std (c\<lparr>HTTPClient := answering res\<rparr>) id') = Some (Errorf (''Unknown API error: '' @ Itoa (StatusCode res) @ '' '' @ b))) \<and>
         (sent (calls (GetPhoto std (c\<lparr>HTTPClient := answering res\<rparr>) id')) \<noteq> [] \<and> ReadAll (Body res) = Inl e \<longrightarrow>
            err (GetPhoto std (c\<lparr>HTTPClient := answering res\<rparr>) id') = Some e)"
  unfolding GetPhoto_dispatch by (rule dispatch_answering_error [OF assms])

lemma GetPhoto_answering_reaches:
  assumes "StatusCode res < 200 \<or> 400 \<le> StatusCode res"
  shows "((\<forall>u. url_Parse std u = None) \<and> ReadAll (Body res) = Inr b \<longrightarrow>
            err (GetPhoto std (c\<lparr>HTTPClient := answering res\<rparr>) id') = Some (Errorf (''Unknown API error: '' @ Itoa (StatusCode res) @ '' '' @ b)))"
proof (intro impI)
  assume a: "(\<forall>u. url_Parse std u = None) \<and> ReadAll (Body res) = Inr b"
  then have "sent (calls (GetPhoto std (c\<lparr>HTTPClient := answering res\<rparr>) id')) \<noteq> []"
    by (simp add: GetPhoto_dispatch sent_dispatch)
  with a GetPhoto_answering_error [OF assms, of std c id' b e]
  show "err (GetPhoto std (c\<lparr>HTTPClient := answering res\<rparr>) id') = Some (Errorf (''Unknown API error: '' @ Itoa (StatusCode res) @ '' '' @ b))"
    by blast
qed

lemma getCollections_answering_error:
  assumes "StatusCode res < 200 \<or> 400 \<le> StatusCode res"
  shows "resp (getCollections std (c\<lparr>HTTPClient := answering res\<rparr>) p own) = None \<and>
         (sent (calls (getCollections std (c\<lparr>HTTPClient := answering res\<rparr>) p own)) \<noteq> [] \<and> ReadAll (Body res) = Inr b \<longrightarrow>
            err (getCollections std (c\<lparr>HTTPClient := answering res\<rparr>) p own) = Some (Errorf (''Unknown API error: '' @ Itoa (StatusCode res) @ '' '' @ b))) \<and>
         (sent (calls (getCollections std (c\<lparr>HTTPClient := answering res\<rparr>) p own)) \<noteq> [] \<and> ReadAll (Body res) = Inl e \<longrightarrow>
            err (getCollections std (c\<lparr>HTTPClient := answering res\<rparr>) p own) = Some e)"
  unfolding getCollections_dispatch by (rule dispatch_answering_error [OF assms])

lemma getCollections_answering_reaches:
  assumes "StatusCode res < 200 \<or> 400 \<le> StatusCode res"
  shows "((\<forall>u. url_Parse std u = None) \<and> ReadAll (Body res) = Inr b \<longrightarrow>
            err (getCollections std (c\<lparr>HTTPClient := answering res\<rparr>) p own) = Some (Errorf (''Unknown API error: '' @ Itoa (StatusCode res) @ '' '' @ b)))"
proof (intro impI)
  assume a: "(\<forall>u. url_Parse std u = None) \<and> ReadAll (Body res) = Inr b"
  then have "sent (calls (getCollections std (c\<lparr>HTTPClient := answering res\<rparr>) p own)) \<noteq> []"
    by (simp add: getCollections_dispatch sent_dispatch)
  with a getCollections_answering_error [OF assms, of std c p own b e]
  show "err (getCollections std (c\<lparr>HTTPClient := answering res\<rparr>) p own) = Some (Errorf (''Unknown API error: '' @ Itoa (StatusCode res) @ '' '' @ b))"
    by blast
qed

lemma GetCollection_answering_error:
  assumes "StatusCode res < 200 \<or> 400 \<le> StatusCode res"
  shows "resp (GetCollection std (c\<lparr>HTTPClient := answering res\<rparr>) p id') = None \<and>
         (sent (calls (GetCollection std (c\<lparr>HTTPClient := answering res\<rparr>) p id')) \<noteq> [] \<and> ReadAll (Body res) = Inr b \<longrightarrow>
            err (GetCollection std (c\<lparr>HTTPClient := answering res\<rparr>) p id') = Some (Errorf (''Unknown API error: '' @ Itoa (StatusCode res) @ '' '' @ b))) \<and>
         (sent (calls (GetCollection std (c\<lparr>HTTPClient := answering res\<rparr>) p id')) \<noteq> [] \<and> ReadAll (Body res) = Inl e \<longrightarrow>
            err (GetCollection std (c\<lparr>HTTPClient := answering res\<rparr>) p id') = Some e)"
  unfolding GetCollection_dispatch by (rule dispatch_answering_error [OF assms])

lemma GetCollection_answering_reaches:
  assumes "StatusCode res < 200 \<or> 400 \<le> StatusCode res"
  shows "((\<forall>u. url_Parse std u = None) \<and> ReadAll (Body res) = Inr b \<longrightarrow>
            err (GetCollection std (c\<lparr>HTTPClient := answering res\<rparr>) p id') = Some (Errorf (''Unknown API error: '' @ Itoa (StatusCode res) @ '' '' @ b)))"
proof (intro impI)
  assume a: "(\<forall>u. url_Parse std u = None) \<and> ReadAll (Body res) = Inr b"
  then have "sent (calls (GetCollection std (c\<lparr>HTTPClient := answering res\<rparr>) p id')) \<noteq> []"
    by (simp add: GetCollection_dispatch sent_dispatch)
  with a GetCollection_answering_error [OF assms, of std c p id' b e]
  show "err (GetCollection std (c\<lparr>HTTPClient := answering res\<rparr>) p id') = Some (Errorf (''Unknown API error: '' @ Itoa (StatusCode res) @ '' '' @ b))"
    by blast
qed

lemma GetVideo_answering_error:
  assumes "StatusCode res < 200 \<or> 400 \<le> StatusCode res"
  shows "resp (GetVideo std (c\<lparr>HTTPClient := answering res\<rparr>) id') = None \<and>
         (sent (calls (GetVideo std (c\<lparr>HTTPClient := answering res\<rparr>) id')) \<noteq> [] \<and> ReadAll (Body res) = Inr b \<longrightarrow>
            err (GetVideo std (c\<lparr>HTTPClient := answering res\<rparr>) id') = Some (Errorf (''Unknown API error: '' @ Itoa (StatusCode res) @ '' '' @ b))) \<and>
         (sent (calls (GetVideo std (c\<lparr>HTTPClient := answering res\<rparr>) id')) \<noteq> [] \<and> ReadAll (Body res) = Inl e \<longrightarrow>
            err (GetVideo std (c\<lparr>HTTPClient := answering res\<rparr>) id') = Some e)"
  unfolding GetVideo_dispatch by (rule dispatch_answering_error [OF assms])

lemma GetVideo_answering_reaches:
  assumes "StatusCode res < 200 \<or> 400 \<le> StatusCode res"
  shows "((\<forall>u. url_Parse std u = None) \<and> ReadAll (Body res) = Inr b \<longrightarrow>
            err (GetVideo std (c\<lparr>HTTPClient := answering res\<rparr>) id') = Some (Errorf (''Unknown API error: '' @ Itoa (StatusCode res) @ '' '' @ b)))"
proof (intro impI)
  assume a: "(\<forall>u. url_Parse std u = None) \<and> ReadAll (Body res) = Inr b"
  then have "sent (calls (GetVideo std (c\<lparr>HTTPClient := answering res\<rparr>) id')) \<noteq> []"
    by (simp add: GetVideo_dispatch sent_dispatch)
  with a GetVideo_answering_error [OF assms, of std c id' b e]
  show "err (GetVideo std (c\<lparr>HTTPClient := answering res\<rparr>) id') = Some (Errorf (''Unknown API error: '' @ Itoa (StatusCode res) @ '' '' @ b))"
    by blast
qed

lemma GetPopularVideos_answering_error:
  assumes "StatusCode res < 200 \<or> 400 \<le> StatusCode res"
  shows "resp (GetPopularVideos std (c\<lparr>HTTPClient := answering res\<rparr>) p) = None \<and>
         (sent (calls (GetPopularVideos std (c\<lparr>HTTPClient := answering res\<rparr>) p)) \<noteq> [] \<and> ReadAll (Body res) = Inr b \<longrightarrow>
            err (GetPopularVideos std (c\<lparr>HTTPClient := answering res\<rparr>) p) = Some (Errorf (''Unknown API error: '' @ Itoa (StatusCode res) @ '' '' @ b))) \<and>
         (sent (calls (GetPopularVideos std (c\<lparr>HTTPClient := answering res\<rparr>) p)) \<noteq> [] \<and> ReadAll (Body res) = Inl e \<longrightarrow>
            err (GetPopularVideos std (c\<lparr>HTTPClient := answering res\<rparr>) p) = Some e)"
  unfolding GetPopularVideos_dispatch by (rule dispatch_answering_error [OF assms])

lemma GetPopularVideos_answering_reaches:
  assumes "StatusCode res < 200 \<or> 400 \<le> StatusCode res"
  shows "((\<forall>u. url_Parse std u = None) \<and> ReadAll (Body res) = Inr b \<longrightarrow>
            err (GetPopularVideos std (c\<lparr>HTTPClient := answering res\<rparr>) p) = Some (Errorf (''Unknown API error: '' @ Itoa (StatusCode res) @ '' '' @ b)))"
proof (intro impI)
  assume a: "(\<forall>u. url_Parse std u = None) \<and> ReadAll (Body res) = Inr b"
  then have "sent (calls (GetPopularVideos std (c\<lparr>HTTPClient := answering res\<rparr>) p)) \<noteq> []"
    by (simp add: GetPopularVideos_dispatch sent_dispatch)
  with a GetPopularVideos_answering_error [OF assms, of std c p b e]
  show "err (GetPopularVideos std (c\<lparr>HTTPClient := answering res\<rparr>) p) = Some (Errorf (''Unknown API error: '' @ Itoa (StatusCode res) @ '' '' @ b))"
    by blast
qed

lemma GetFeaturedCollections_answering_error:
  assumes "StatusCode res < 200 \<or> 400 \<le> StatusCode res"
  shows "resp (GetFeaturedCollections std (c\<lparr>HTTPClient := answering res\<rparr>) p) = None \<and>
         (sent (calls (GetFeaturedCollections std (c\<lparr>HTTPClient := answering res\<rparr>) p)) \<noteq> [] \<and> ReadAll (Body res) = Inr b \<longrightarrow>
            err (GetFeaturedCollections std (c\<lparr>HTTPClient := answering res\<rparr>) p) = Some (Errorf (''Unknown API error: '' @ Itoa (StatusCode res) @ '' '' @ b))) \<and>
         (sent (calls (GetFeaturedCollections std (c\<lparr>HTTPClient := answering res\<rparr>) p)) \<noteq> [] \<and> ReadAll (Body res) = Inl e \<longrightarrow>
            err (GetFeaturedCollections std (c\<lparr>HTTPClient := answering res\<rparr>) p) = Some e)"
  unfolding GetFeaturedCollections_def by (rule getCollections_answering_error [OF assms])

lemma GetFeaturedCollections_answering_reaches:
  assumes "StatusCode res < 200 \<or> 400 \<le> StatusCode res"
  shows "((\<forall>u. url_Parse std u = None) \<and> ReadAll (Body res) = Inr b \<longrightarrow>
            err (GetFeaturedCollections std (c\<lparr>HTTPClient := answering res\<rparr>) p) = Some (Errorf (''Unknown API error: '' @ Itoa (StatusCode res) @ '' '' @ b)))"
proof (intro impI)
  assume a: "(\<forall>u. url_Parse std u = None) \<and> ReadAll (Body res) = Inr b"
  then have "sent (calls (GetFeaturedCollections std (c\<lparr>HTTPClient := answering res\<rparr>) p)) \<noteq> []"
    by (simp add: GetFeaturedCollections_def getCollections_dispatch sent_dispatch)
  with a GetFeaturedCollections_answering_error [OF assms, of std c p b e]
  show "err (GetFeaturedCollections std (c\<lparr>HTTPClient := answering res\<rparr>) p) = Some (Errorf (''Unknown API error: '' @ Itoa (StatusCode res) @ '' '' @ b))"
    by blast
qed

lemma GetUserCollections_answering_error:
  assumes "StatusCode res < 200 \<or> 400 \<le> StatusCode res"
  shows "resp (GetUserCollections std (c\<lparr>HTTPClient := answering res\<rparr>) p) = None \<and>
         (sent (calls (GetUserCollections std (c\<lparr>HTTPClient := answering res\<rparr>) p)) \<noteq> [] \<and> ReadAll (Body res) = Inr b \<longrightarrow>
            err (GetUserCollections std (c\<lparr>HTTPClient := answering res\<rparr>) p) = Some (Errorf (''Unknown API error: '' @ Itoa (StatusCode res) @ '' '' @ b))) \<and>
         (sent (calls (GetUserCollections std (c\<lparr>HTTPClient := answering res\<rparr>) p)) \<noteq> [] \<and> ReadAll (Body res) = Inl e \<longrightarrow>
            err (GetUserCollections std (c\<lparr>HTTPClient := answering res\<rparr>) p) = Some e)"
  unfolding GetUserCollections_def by (rule getCollections_answering_error [OF assms])

lemma GetUserCollections_answering_reaches:
  assumes "StatusCode res < 200 \<or> 400 \<le> StatusCode res"
  shows "((\<forall>u. url_Parse std u = None) \<and> ReadAll (Body res) = Inr b \<longrightarrow>
            err (GetUserCollections std (c\<lparr>HTTPClient := answering res\<rparr>) p) = Some (Errorf (''Unknown API error: '' @ Itoa (StatusCode res) @ '' '' @ b)))"
proof (intro impI)
  assume a: "(\<forall>u. url_Parse std u = None) \<and> ReadAll (Body res) = Inr b"
  then have "sent (calls (GetUserCollections std (c\<lparr>HTTPClient := answering res\<rparr>) p)) \<noteq> []"
    by (simp add: GetUserCollections_def getCollections_dispatch sent_dispatch)
  with a GetUserCollections_answering_error [OF assms, of std c p b e]
  show "err (GetUserCollections std (c\<lparr>HTTPClient := answering res\<rparr>) p) = Some (Errorf (''Unknown API error: '' @ Itoa (StatusCode res) @ '' '' @ b))"
    by blast
qed

lemma GetPhotos_answering_error:
  assumes "StatusCode res < 200 \<or> 400 \<le> StatusCode res"
  shows "resp (GetPhotos std (c\<lparr>HTTPClient := answering res\<rparr>) p) = None \<and>
         (sent (calls (GetPhotos std (c\<lparr>HTTPClient := answering res\<rparr>) p)) \<noteq> [] \<and> ReadAll (Body res) = Inr b \<longrightarrow>
            err (GetPhotos std (c\<lparr>HTTPClient := answering res\<rparr>) p) = Some (Errorf (''Unknown API error: '' @ Itoa (StatusCode res) @ '' '' @ b))) \<and>
         (sent (calls (GetPhotos std (c\<lparr>HTTPClient := answering res\<rparr>) p)) \<noteq> [] \<and> ReadAll (Body res) = Inl e \<longrightarrow>
            err (GetPhotos std (c\<lparr>HTTPClient := answering res\<rparr>) p) = Some e)"
proof (cases "GetPhotosParams.Query p = []")
  case True
  then show ?thesis by (simp add: GetPhotos_dispatch)
next
  case False
  show ?thesis
    unfolding GetPhotos_dispatch if_not_P [OF False] by (rule dispatch_answering_error [OF assms])
qed

lemma GetPhotos_answering_reaches:
  assumes "StatusCode res < 200 \<or> 400 \<le> StatusCode res"
  shows "((\<forall>u. url_Parse std u = None) \<and> GetPhotosParams.Query p \<noteq> [] \<and> ReadAll (Body res) = Inr b \<longrightarrow>
            err (GetPhotos std (c\<lparr>HTTPClient := answering res\<rparr>) p) = Some (Errorf (''Unknown API error: '' @ Itoa (StatusCode res) @ '' '' @ b)))"
proof (intro impI)
  assume a: "(\<forall>u. url_Parse std u = None) \<and> GetPhotosParams.Query p \<noteq> [] \<and> ReadAll (Body res) = Inr b"
  then have "sent (calls (GetPhotos std (c\<lparr>HTTPClient := answering res\<rparr>) p)) \<noteq> []"
    by (simp add: GetPhotos_dispatch sent_dispatch)
  with a GetPhotos_answering_error [OF assms, of std c p b e]
  show "err (GetPhotos std (c\<lparr>HTTPClient := answering res\<rparr>) p) = Some (Errorf (''Unknown API error: '' @ Itoa (StatusCode res) @ '' '' @ b))"
    by blast
qed

lemma GetVideos_answering_error:
  assumes "StatusCode res < 200 \<or> 400 \<le> StatusCode res"
  shows "resp (GetVideos std (c\<lparr>HTTPClient := answering res\<rparr>) p) = None \<and>
         (sent (calls (GetVideos std (c\<lparr>HTTPClient := answering res\<rparr>) p)) \<noteq> [] \<and> ReadAll (Body res) = Inr b \<longrightarrow>
            err (GetVideos std (c\<lparr>HTTPClient := answering res\<rparr>) p) = Some (Errorf (''Unknown API error: '' @ Itoa (StatusCode res) @ '' '' @ b))) \<and>
         (sent (calls (GetVideos std (c\<lparr>HTTPClient := answering res\<rparr>) p)) \<noteq> [] \<and> ReadAll (Body res) = Inl e \<longrightarrow>
            err (GetVideos std (c\<lparr>HTTPClient := answering res\<rparr>) p) = Some e)"
proof (cases "GetVideosParams.Query p = []")
  case True
  then show ?thesis by (simp add: GetVideos_dispatch)
next
  case False
  show ?thesis
    unfolding GetVideos_dispatch if_not_P [OF False] by (rule dispatch_answering_error [OF assms])
qed

lemma GetVideos_answering_reaches:
  assumes "StatusCode res < 200 \<or> 400 \<le> StatusCode res"
  shows "((\<forall>u. url_Parse std u = None) \<and> GetVideosParams.Query p \<noteq> [] \<and> ReadAll (Body res) = Inr b \<longrightarrow>
            err (GetVideos std (c\<lparr>HTTPClient := answering res\<rparr>) p) = Some (Errorf (''Unknown API error: '' @ Itoa (StatusCode res) @ '' '' @ b)))"
proof (intro impI)
  assume a: "(\<forall>u. url_Parse std u = None) \<and> GetVideosParams.Query p \<noteq> [] \<and> ReadAll (Body res) = Inr b"
  then have "sent (calls (GetVideos std (c\<lparr>HTTPClient := answering res\<rparr>) p)) \<noteq> []"
    by (simp add: GetVideos_dispatch sent_dispatch)
  with a GetVideos_answering_error [OF assms, of std c p b e]
  show "err (GetVideos std (c\<lparr>HTTPClient := answering res\<rparr>) p) = Some (Errorf (''Unknown API error: '' @ Itoa (StatusCode res) @ '' '' @ b))"
    by blast
qed

text \<open>
  C3, as the code has it. When the transport answers with a status below \<open>200\<close> or of
  \<open>400\<close> and more, \<open>sendRequest\<close> reads the body with \<open>io.ReadAll\<close>.
  \<^item> When the body is read to its end (\<open>io.ReadAll\<close> returns the text \<open>b\<close>), the error is
    \<open>Unknown API error: <status> <b>\<close>: its message holds the decimal status and the whole
    body text. At status \<open>404\<close> with body \<open>Not found\<close> it is
    \<open>Unknown API error: 404 Not found\<close> (the witness).
  \<^item> When reading the body fails, the error returned is the read error itself, which
    carries neither the status nor any body text (the counterexample: status \<open>500\<close>, a
    body that breaks off with \<open>unexpected EOF\<close>).
  In both cases the destination is left as it was, and every binding called on a transport
  that answers so returns a nil response, with that error whenever it got as far as sending
  its request; and it does get that far, and returns the error with the status and the
  body, whenever \<open>http.NewRequest\<close> accepts its URL (and the query of a search is not
  empty) and the body is read to its end.
\<close>

theorem C3_error_status_carries_status_and_body:
  assumes "StatusCode res < 200 \<or> 400 \<le> StatusCode res"
  shows
  "(HTTPClient c' req = Inr res \<and> ReadAll (Body res) = Inr b \<longrightarrow>
      sendRequest std c' req vals
        = (Some (Errorf (''Unknown API error: '' @ Itoa (StatusCode res) @ '' '' @ b)), vals,
           [Do_call req])) \<and>
   (HTTPClient c' req = Inr res \<and> ReadAll (Body res) = Inl e \<longrightarrow>
      sendRequest std c' req vals = (Some e, vals, [Do_call req])) \<and>
   sublist (Itoa (StatusCode res)) (''Unknown API error: '' @ Itoa (StatusCode res) @ '' '' @ b) \<and>
   sublist b (''Unknown API error: '' @ Itoa (StatusCode res) @ '' '' @ b) \<and>
   resp (GetPhotos std (c\<lparr>HTTPClient := answering res\<rparr>) p1) = None \<and>
   (sent (calls (GetPhotos std (c\<lparr>HTTPClient := answering res\<rparr>) p1)) \<noteq> [] \<and> ReadAll (Body res) = Inr b \<longrightarrow>
      err (GetPhotos std (c\<lparr>HTTPClient := answering res\<rparr>) p1) = Some (Errorf (''Unknown API error: '' @ Itoa (StatusCode res) @ '' '' @ b))) \<and>
   (sent (calls (GetPhotos std (c\<lparr>HTTPClient := answering res\<rparr>) p1)) \<noteq> [] \<and> ReadAll (Body res) = Inl e \<longrightarrow>
      err (GetPhotos std (c\<lparr>HTTPClient := answering res\<rparr>) p1) = Some e) \<and>
   ((\<forall>u. url_Parse std u = None) \<and> GetPhotosParams.Query p1 \<noteq> [] \<and> ReadAll (Body res) = Inr b \<longrightarrow>
      err (GetPhotos std (c\<lparr>HTTPClient := answering res\<rparr>) p1) = Some (Errorf (''Unknown API error: '' @ Itoa (StatusCode res) @ '' '' @ b))) \<and>
   resp (GetCurated std (c\<lparr>HTTPClient := answering res\<rparr>) p2) = None \<and>
   (sent (calls (GetCurated std (c\<lparr>HTTPClient := answering res\<rparr>) p2)) \<noteq> [] \<and> ReadAll (Body res) = Inr b \<longrightarrow>
      err (GetCurated std (c\<lparr>HTTPClient := answering res\<rparr>) p2) = Some (Errorf (''Unknown API error: '' @ Itoa (StatusCode res) @ '' '' @ b))) \<and>
   (sent (calls (GetCurated std (c\<lparr>HTTPClient := answering res\<rparr>) p2)) \<noteq> [] \<and> ReadAll (Body res) = Inl e \<longrightarrow>
      err (GetCurated std (c\<lparr>HTTPClient := answering res\<rparr>) p2) = Some e) \<and>
   ((\<forall>u. url_Parse std u = None) \<and> ReadAll (Body res) = Inr b \<longrightarrow>
      err (GetCurated std (c\<lparr>HTTPClient := answering res\<rparr>) p2) = Some (Errorf (''Unknown API error: '' @ Itoa (StatusCode res) @ '' '' @ b))) \<and>
   resp (GetPhoto std (c\<lparr>HTTPClient := answering res\<rparr>) id1) = None \<and>
   (sent (calls (GetPhoto std (c\<lparr>HTTPClient := answering res\<rparr>) id1)) \<noteq> [] \<and> ReadAll (Body res) = Inr b \<longrightarrow>
      err (GetPhoto std (c\<lparr>HTTPClient := answering res\<rparr>) id1) = Some (Errorf (''Unknown API error: '' @ Itoa (StatusCode res) @ '' '' @ b))) \<and>
   (sent (calls (GetPhoto std (c\<lparr>HTTPClient := answering res\<rparr>) id1)) \<noteq> [] \<and> ReadAll (Body res) = Inl e \<longrightarrow>
      err (GetPhoto std (c\<lparr>HTTPClient := answering res\<rparr>) id1) = Some e) \<and>
   ((\<forall>u. url_Parse std u = None) \<and> ReadAll (Body res) = Inr b \<longrightarrow>
      err (GetPhoto std (c\<lparr>HTTPClient := answering res\<rparr>) id1) = Some (Errorf (''Unknown API error: '' @ Itoa (StatusCode res) @ '' '' @ b))) \<and>
   resp (getCollections std (c\<lparr>HTTPClient := answering res\<rparr>) p3 own) = None \<and>
   (sent (calls (getCollections std (c\<lparr>HTTPClient := answering res\<rparr>) p3 own)) \<noteq> [] \<and> ReadAll (Body res) = Inr b \<longrightarrow>
      err (getCollections std (c\<lparr>HTTPClient := answering res\<rparr>) p3 own) = Some (Errorf (''Unknown API error: '' @ Itoa (StatusCode res) @ '' '' @ b))) \<and>
   (sent (calls (getCollections std (c\<lparr>HTTPClient := answering res\<rparr>) p3 own)) \<noteq> [] \<and> ReadAll (Body res) = Inl e \<longrightarrow>
      err (getCollections std (c\<lparr>HTTPClient := answering res\<rparr>) p3 own) = Some e) \<and>
   ((\<forall>u. url_Parse std u = None) \<and> ReadAll (Body res) = Inr b \<longrightarrow>
      err (getCollections std (c\<lparr>HTTPClient := answering res\<rparr>) p3 own) = Some (Errorf (''Unknown API error: '' @ Itoa (StatusCode res) @ '' '' @ b))) \<and>
   resp (GetFeaturedCollections std (c\<lparr>HTTPClient := answering res\<rparr>) p3) = None \<and>
   (sent (calls (GetFeaturedCollections std (c\<lparr>HTTPClient := answering res\<rparr>) p3)) \<noteq> [] \<and> ReadAll (Body res) = Inr b \<longrightarrow>
      err (GetFeaturedCollections std (c\<lparr>HTTPClient := answering res\<rparr>) p3) = Some (Errorf (''Unknown API error: '' @ Itoa (StatusCode res) @ '' '' @ b))) \<and>
   (sent (calls (GetFeaturedCollections std (c\<lparr>HTTPClient := answering res\<rparr>) p3)) \<noteq> [] \<and> ReadAll (Body res) = Inl e \<longrightarrow>
      err (GetFeaturedCollections std (c\<lparr>HTTPClient := answering res\<rparr>) p3) = Some e) \<and>
   ((\<forall>u. url_Parse std u = None) \<and> ReadAll (Body res) = Inr b \<longrightarrow>
      err (GetFeaturedCollections std (c\<lparr>HTTPClient := answering res\<rparr>) p3) = Some (Errorf (''Unknown API error: '' @ Itoa (StatusCode res) @ '' '' @ b))) \<and>
   resp (GetUserCollections std (c\<lparr>HTTPClient := answering res\<rparr>) p3) = None \<and>
   (sent (calls (GetUserCollections std (c\<lparr>HTTPClient := answering res\<rparr>) p3)) \<noteq> [] \<and> ReadAll (Body res) = Inr b \<longrightarrow>
      err (GetUserCollections std (c\<lparr>HTTPClient := answering res\<rparr>) p3) = Some (Errorf (''Unknown API error: '' @ Itoa (StatusCode res) @ '' '' @ b))) \<and>
   (sent (calls (GetUserCollections std (c\<lparr>HTTPClient := answering res\<rparr>) p3)) \<noteq> [] \<and> ReadAll (Body res) = Inl e \<longrightarrow>
      err (GetUserCollections std (c\<lparr>HTTPClient := answering res\<rparr>) p3) = Some e) \<and>
   ((\<forall>u. url_Parse std u = None) \<and> ReadAll (Body res) = Inr b \<longrightarrow>
      err (GetUserCollections std (c\<lparr>HTTPClient := answering res\<rparr>) p3) = Some (Errorf (''Unknown API error: '' @ Itoa (StatusCode res) @ '' '' @ b))) \<and>
   resp (GetCollection std (c\<lparr>HTTPClient := answering res\<rparr>) p4 id2) = None \<and>
   (sent (calls (GetCollection std (c\<lparr>HTTPClient := answering res\<rparr>) p4 id2)) \<noteq> [] \<and> ReadAll (Body res) = Inr b \<longrightarrow>
      err (GetCollection std (c\<lparr>HTTPClient := answering res\<rparr>) p4 id2) = Some (Errorf (''Unknown API error: '' @ Itoa (StatusCode res) @ '' '' @ b))) \<and>
   (sent (calls (GetCollection std (c\<lparr>HTTPClient := answering res\<rparr>) p4 id2)) \<noteq> [] \<and> ReadAll (Body res) = Inl e \<longrightarrow>
      err (GetCollection std (c\<lparr>HTTPClient := answering res\<rparr>) p4 id2) = Some e) \<and>
   ((\<forall>u. url_Parse std u = None) \<and> ReadAll (Body res) = Inr b \<longrightarrow>
      err (GetCollection std (c\<lparr>HTTPClient := answering res\<rparr>) p4 id2) = Some (Errorf (''Unknown API error: '' @ Itoa (StatusCode res) @ '' '' @ b))) \<and>
   resp (GetVideo std (c\<lparr>HTTPClient := answering res\<rparr>) id3) = None \<and>
   (sent (calls (GetVideo std (c\<lparr>HTTPClient := answering res\<rparr>) id3)) \<noteq> [] \<and> ReadAll (Body res) = Inr b \<longrightarrow>
      err (GetVideo std (c\<lparr>HTTPClient := answering res\<rparr>) id3) = Some (Errorf (''Unknown API error: '' @ Itoa (StatusCode res) @ '' '' @ b))) \<and>
   (sent (calls (GetVideo std (c\<lparr>HTTPClient := answering res\<rparr>) id3)) \<noteq> [] \<and> ReadAll (Body res) = Inl e \<longrightarrow>
      err (GetVideo std (c\<lparr>HTTPClient := answering res\<rparr>) id3) = Some e) \<and>
   ((\<forall>u. url_Parse std u = None) \<and> ReadAll (Body res) = Inr b \<longrightarrow>
      err (GetVideo std (c\<lparr>HTTPClient := answering res\<rparr>) id3) = Some (Errorf (''Unknown API error: '' @ Itoa (StatusCode res) @ '' '' @ b))) \<and>
   resp (GetPopularVideos std (c\<lparr>HTTPClient := answering res\<rparr>) p5) = None \<and>
   (sent (calls (GetPopularVideos std (c\<lparr>HTTPClient := answering res\<rparr>) p5)) \<noteq> [] \<and> ReadAll (Body res) = Inr b \<longrightarrow>
      err (GetPopularVideos std (c\<lparr>HTTPClient := answering res\<rparr>) p5) = Some (Errorf (''Unknown API error: '' @ Itoa (StatusCode res) @ '' '' @ b))) \<and>
   (sent (calls (GetPopularVideos std (c\<lparr>HTTPClient := answering res\<rparr>) p5)) \<noteq> [] \<and> ReadAll (Body res) = Inl e \<longrightarrow>
      err (GetPopularVideos std (c\<lparr>HTTPClient := answering res\<rparr>) p5) = Some e) \<and>
   ((\<forall>u. url_Parse std u = None) \<and> ReadAll (Body res) = Inr b \<longrightarrow>
      err (GetPopularVideos std (c\<lparr>HTTPClient := answering res\<rparr>) p5) = Some (Errorf (''Unknown API error: '' @ Itoa (StatusCode res) @ '' '' @ b))) \<and>
   resp (GetVideos std (c\<lparr>HTTPClient := answering res\<rparr>) p6) = None \<and>
   (sent (calls (GetVideos std (c\<lparr>HTTPClient := answering res\<rparr>) p6)) \<noteq> [] \<and> ReadAll (Body res) = Inr b \<longrightarrow>
      err (GetVideos std (c\<lparr>HTTPClient := answering res\<rparr>) p6) = Some (Errorf (''Unknown API error: '' @ Itoa (StatusCode res) @ '' '' @ b))) \<and>
   (sent (calls (GetVideos std (c\<lparr>HTTPClient := answering res\<rparr>) p6)) \<noteq> [] \<and> ReadAll (Body res) = Inl e \<longrightarrow>
      err (GetVideos std (c\<lparr>HTTPClient := answering res\<rparr>) p6) = Some e) \<and>
   ((\<forall>u. url_Parse std u = None) \<and> GetVideosParams.Query p6 \<noteq> [] \<and> ReadAll (Body res) = Inr b \<longrightarrow>
      err (GetVideos std (c\<lparr>HTTPClient := answering res\<rparr>) p6) = Some (Errorf (''Unknown API error: '' @ Itoa (StatusCode res) @ '' '' @ b)))"
proof -
  have "sublist (Itoa (StatusCode res))
          (''Unknown API error: '' @ Itoa (StatusCode res) @ '' '' @ b)"
    by (rule sublist_appendI)
  moreover have "sublist b (''Unknown API error: '' @ Itoa (StatusCode res) @ '' '' @ b)"
    using sublist_appendI [of b "''Unknown API error: '' @ Itoa (StatusCode res) @ '' ''" "[]"]
    by simp
  moreover have "sendRequest std c' req vals
        = (Some (Errorf (''Unknown API error: '' @ Itoa (StatusCode res) @ '' '' @ b)), vals,
           [Do_call req])"
    if "HTTPClient c' req = Inr res" and "ReadAll (Body res) = Inr b"
    using sendRequest_error_status [OF that(1) assms that(2)] .
  moreover have "sendRequest std c' req vals = (Some e, vals, [Do_call req])"
    if "HTTPClient c' req = Inr res" and "ReadAll (Body res) = Inl e"
    using sendRequest_read_failed [OF that(1) assms that(2)] .
  ultimately show ?thesis
    by (intro conjI)
      (rule
            GetPhotos_answering_error [OF assms, THEN conjunct1]
            GetPhotos_answering_error [OF assms, THEN conjunct2, THEN conjunct1]
            GetPhotos_answering_error [OF assms, THEN conjunct2, THEN conjunct2]
            GetPhotos_answering_reaches [OF assms]
            GetCurated_answering_error [OF assms, THEN conjunct1]
            GetCurated_answering_error [OF assms, THEN conjunct2, THEN conjunct1]
            GetCurated_answering_error [OF assms, THEN conjunct2, THEN conjunct2]
            GetCurated_answering_reaches [OF assms]
            GetPhoto_answering_error [OF assms, THEN conjunct1]
            GetPhoto_answering_error [OF assms, THEN conjunct2, THEN conjunct1]
            GetPhoto_answering_error [OF assms, THEN conjunct2, THEN conjunct2]
            GetPhoto_answering_reaches [OF assms]
            getCollections_answering_error [OF assms, THEN conjunct1]
            getCollections_answering_error [OF assms, THEN conjunct2, THEN conjunct1]
            getCollections_answering_error [OF assms, THEN conjunct2, THEN conjunct2]
            getCollections_answering_reaches [OF assms]
            GetFeaturedCollections_answering_error [OF assms, THEN conjunct1]
            GetFeaturedCollections_answering_error [OF assms, THEN conjunct2, THEN conjunct1]
            GetFeaturedCollections_answering_error [OF assms, THEN conjunct2, THEN conjunct2]
            GetFeaturedCollections_answering_reaches [OF assms]
            GetUserCollections_answering_error [OF assms, THEN conjunct1]
            GetUserCollections_answering_error [OF assms, THEN conjunct2, THEN conjunct1]
            GetUserCollections_answering_error [OF assms, THEN conjunct2, THEN conjunct2]
            GetUserCollections_answering_reaches [OF assms]
            GetCollection_answering_error [OF assms, THEN conjunct1]
            GetCollection_answering_error [OF assms, THEN conjunct2, THEN conjunct1]
            GetCollection_answering_error [OF assms, THEN conjunct2, THEN conjunct2]
            GetCollection_answering_reaches [OF assms]
            GetVideo_answering_error [OF assms, THEN conjunct1]
            GetVideo_answering_error [OF assms, THEN conjunct2, THEN conjunct1]
            GetVideo_answering_error [OF assms, THEN conjunct2, THEN conjunct2]
            GetVideo_answering_reaches [OF assms]
            GetPopularVideos_answering_error [OF assms, THEN conjunct1]
            GetPopularVideos_answering_error [OF assms, THEN conjunct2, THEN conjunct1]
            GetPopularVideos_answering_error [OF assms, THEN conjunct2, THEN conjunct2]
            GetPopularVideos_answering_reaches [OF assms]
            GetVideos_answering_error [OF assms, THEN conjunct1]
            GetVideos_answering_error [OF assms, THEN conjunct2, THEN conjunct1]
            GetVideos_answering_error [OF assms, THEN conjunct2, THEN conjunct2]
            GetVideos_answering_reaches [OF assms]
       | blast)+
qed

lemma answering_canned:
  "answering \<lparr>StatusCode = s, Body = \<lparr>Data = b, ReadErr = None\<rparr>\<rparr> = canned s b"
  by (rule ext) (simp add: answering_def canned_def)

theorem C3_not_found_witness:
  "sendRequest std_empty_object (NewClient (canned 404 ''Not found'') ''KEY'')
      \<lparr>Method = ''GET'', URL = ''https://api.pexels.com/v1/photos/1'', Header = Map.empty\<rparr> ()
     = (Some (Errorf ''Unknown API error: 404 Not found''), (),
        [Do_call \<lparr>Method = ''GET'', URL = ''https://api.pexels.com/v1/photos/1'', Header = Map.empty\<rparr>]) \<and>
   sublist ''404'' ''Unknown API error: 404 Not found'' \<and>
   sublist ''Not found'' ''Unknown API error: 404 Not found'' \<and>
   resp (GetPhotos std_empty_object (NewClient (canned 404 ''Not found'') ''KEY'')
      \<lparr>GetPhotosParams.Query = ''nature'', Orientation = [], Size = [], Color = [], Locale = [], Page = 0, PerPage = 0\<rparr>) = None \<and>
   err (GetPhotos std_empty_object (NewClient (canned 404 ''Not found'') ''KEY'')
      \<lparr>GetPhotosParams.Query = ''nature'', Orientation = [], Size = [], Color = [], Locale = [], Page = 0, PerPage = 0\<rparr>) = Some (Errorf ''Unknown API error: 404 Not found'') \<and>
   resp (GetVideo std_empty_object (NewClient (canned 404 ''Not found'') ''KEY'') ''7'') = None \<and>
   err (GetVideo std_empty_object (NewClient (canned 404 ''Not found'') ''KEY'') ''7'') = Some (Errorf ''Unknown API error: 404 Not found'')"
  using C3_error_status_carries_status_and_body
    [where res = "\<lparr>StatusCode = 404, Body = \<lparr>Data = ''Not found'', ReadErr = None\<rparr>\<rparr>"
       and b = "''Not found''" and e = "Errorf ''unexpected EOF''" and std = std_empty_object
       and c = "NewClient (canned 404 ''Not found'') ''KEY''"
       and c' = "NewClient (canned 404 ''Not found'') ''KEY''"
       and req = "\<lparr>Method = ''GET'', URL = ''https://api.pexels.com/v1/photos/1'', Header = Map.empty\<rparr>"
       and vals = "()"
       and ?p1.0 = "\<lparr>GetPhotosParams.Query = ''nature'', Orientation = [], Size = [], Color = [], Locale = [], Page = 0, PerPage = 0\<rparr>"
       and ?p2.0 = "\<lparr>GetCuratedPhotoParams.Page = 0, PerPage = 0\<rparr>"
       and ?p3.0 = "\<lparr>GetFeaturedCollectionParams.Page = 0, PerPage = 0\<rparr>"
       and ?p4.0 = "\<lparr>GetCollectionMediaParams.Type = [], Sort = [], Page = 0, PerPage = 0\<rparr>"
       and ?p5.0 = "\<lparr>MinWidth = 0, MinHeight = 0, MinDuration = 0, MaxDuration = 0,
                    Page = 0, PerPage = 0\<rparr>"
       and ?p6.0 = "\<lparr>GetVideosParams.Query = [], Orientation = [], Size = [],
                    Locale = [], Page = 0, PerPage = 0\<rparr>"
       and own = False and ?id1.0 = "''1''" and ?id2.0 = "''2''" and ?id3.0 = "''7''"]
  by (simp add: Itoa_404 GetPhotos_dispatch GetVideo_dispatch sent_dispatch answering_canned
        std_empty_object_def canned_def NewClient_def ReadAll_def)

theorem C3_read_error_counterexample:
  "sendRequest std_empty_object
      (NewClient (answering \<lparr>StatusCode = 500,
         Body = \<lparr>Data = ''Internal Ser'', ReadErr = Some (Errorf ''unexpected EOF'')\<rparr>\<rparr>) ''KEY'')
      \<lparr>Method = ''GET'', URL = ''https://api.pexels.com/v1/photos/1'', Header = Map.empty\<rparr> ()
     = (Some (Errorf ''unexpected EOF''), (),
        [Do_call \<lparr>Method = ''GET'', URL = ''https://api.pexels.com/v1/photos/1'', Header = Map.empty\<rparr>]) \<and>
   err (GetPhoto std_empty_object
      (NewClient (answering \<lparr>StatusCode = 500,
         Body = \<lparr>Data = ''Internal Ser'', ReadErr = Some (Errorf ''unexpected EOF'')\<rparr>\<rparr>) ''KEY'')
      ''1'') = Some (Errorf ''unexpected EOF'') \<and>
   \<not> sublist ''500'' ''unexpected EOF'' \<and>
   \<not> sublist ''Internal Ser'' ''unexpected EOF''"
proof -
  have "\<not> sublist ''500'' ''unexpected EOF''" by code_simp
  moreover have "\<not> sublist ''Internal Ser'' ''unexpected EOF''" by code_simp
  ultimately show ?thesis
    by (simp add: GetPhoto_dispatch dispatch_def sendRequest_def std_empty_object_def
          NewClient_def answering_def ReadAll_def)
qed

section \<open>Statuses the pipeline decodes\<close>

lemma GetPhotos_canned_decoded:
  assumes "200 \<le> s" and "s < 400"
  shows "GetPhotos std (c\<lparr>HTTPClient := canned s b\<rparr>) p = GetPhotos std (c\<lparr>HTTPClient := canned 200 b\<rparr>) p"
  by (simp add: GetPhotos_dispatch dispatch_canned_decoded [OF assms])

lemma GetCurated_canned_decoded:
  assumes "200 \<le> s" and "s < 400"
  shows "GetCurated std (c\<lparr>HTTPClient := canned s b\<rparr>) p = GetCurated std (c\<lparr>HTTPClient := canned 200 b\<rparr>) p"
  by (simp add: GetCurated_dispatch dispatch_canned_decoded [OF assms])

lemma GetPhoto_canned_decoded:
  assumes "200 \<le> s" and "s < 400"
  shows "GetPhoto std (c\<lparr>HTTPClient := canned s b\<rparr>) id' = GetPhoto std (c\<lparr>HTTPClient := canned 200 b\<rparr>) id'"
  by (simp add: GetPhoto_dispatch dispatch_canned_decoded [OF assms])

lemma getCollections_canned_decoded:
  assumes "200 \<le> s" and "s < 400"
  shows "getCollections std (c\<lparr>HTTPClient := canned s b\<rparr>) p own = getCollections std (c\<lparr>HTTPClient := canned 200 b\<rparr>) p own"
  by (simp add: getCollections_dispatch dispatch_canned_decoded [OF assms])

lemma GetCollection_canned_decoded:
  assumes "200 \<le> s" and "s < 400"
  shows "GetCollection std (c\<lparr>HTTPClient := canned s b\<rparr>) p id' = GetCollection std (c\<lparr>HTTPClient := canned 200 b\<rparr>) p id'"
  by (simp add: GetCollection_dispatch dispatch_canned_decoded [OF assms])

lemma GetVideo_canned_decoded:
  assumes "200 \<le> s" and "s < 400"
  shows "GetVideo std (c\<lparr>HTTPClient := canned s b\<rparr>) id' = GetVideo std (c\<lparr>HTTPClient := canned 200 b\<rparr>) id'"
  by (simp add: GetVideo_dispatch dispatch_canned_decoded [OF assms])

lemma GetPopularVideos_canned_decoded:
  assumes "200 \<le> s" and "s < 400"
  shows "GetPopularVideos std (c\<lparr>HTTPClient := canned s b\<rparr>) p = GetPopularVideos std (c\<lparr>HTTPClient := canned 200 b\<rparr>) p"
  by (simp add: GetPopularVideos_dispatch dispatch_canned_decoded [OF assms])

lemma GetVideos_canned_decoded:
  assumes "200 \<le> s" and "s < 400"
  shows "GetVideos std (c\<lparr>HTTPClient := canned s b\<rparr>) p = GetVideos std (c\<lparr>HTTPClient := canned 200 b\<rparr>) p"
  by (simp add: GetVideos_dispatch dispatch_canned_decoded [OF assms])

lemma GetFeaturedCollections_canned_decoded:
  assumes "200 \<le> s" and "s < 400"
  shows "GetFeaturedCollections std (c\<lparr>HTTPClient := canned s b\<rparr>) p = GetFeaturedCollections std (c\<lparr>HTTPClient := canned 200 b\<rparr>) p"
  unfolding GetFeaturedCollections_def by (rule getCollections_canned_decoded [OF assms])

lemma GetUserCollections_canned_decoded:
  assumes "200 \<le> s" and "s < 400"
  shows "GetUserCollections std (c\<lparr>HTTPClient := canned s b\<rparr>) p = GetUserCollections std (c\<lparr>HTTPClient := canned 200 b\<rparr>) p"
  unfolding GetUserCollections_def by (rule getCollections_canned_decoded [OF assms])

lemma sendRequest_canned_decoded:
  assumes "200 \<le> s" and "s < 400"
  shows "sendRequest std (c\<lparr>HTTPClient := canned s b\<rparr>) req vals
           = sendRequest std (c\<lparr>HTTPClient := canned 200 b\<rparr>) req vals"
  using assms by (simp add: sendRequest_def canned_def)

lemma sendRequest_canned_error:
  assumes "s < 200 \<or> 400 \<le> s"
  shows "sendRequest std (c\<lparr>HTTPClient := canned s b\<rparr>) req vals
           = (Some (Errorf (''Unknown API error: '' @ Itoa s @ '' '' @ b)), vals, [Do_call req])"
  using assms by (auto simp: sendRequest_def canned_def ReadAll_def)

lemma sendRequest_canned_decodes:
  assumes "200 \<le> s" and "s < 400"
  shows "sendRequest std (c\<lparr>HTTPClient := canned s b\<rparr>) req vals
           = (snd (json_Decode std \<lparr>Data = b, ReadErr = None\<rparr> vals),
              fst (json_Decode std \<lparr>Data = b, ReadErr = None\<rparr> vals), [Do_call req])"
  using assms by (auto simp: sendRequest_def canned_def split: prod.splits option.splits)

text \<open>
  C4, as the code has it. The pipeline tests the status with
  \<open>res.StatusCode < 200 || res.StatusCode >= 400\<close>. A status below \<open>200\<close> or of \<open>400\<close> and
  more, on a body read to its end, gives the error with the status and the body text, and
  every binding then returns a nil response. A status from \<open>200\<close> to \<open>399\<close> is not an
  error: the pipeline and every binding do on it exactly what they do on status \<open>200\<close>
  with the same body, so a \<open>3xx\<close> answer with a JSON body yields a response value and no
  error (the counterexample: status \<open>300\<close>, body \<open>{}\<close>).
\<close>

theorem C4_error_statuses_are_below_200_or_from_400:
  "(s < 200 \<or> 400 \<le> s \<longrightarrow>
      sendRequest std (c\<lparr>HTTPClient := canned s b\<rparr>) req vals
        = (Some (Errorf (''Unknown API error: '' @ Itoa s @ '' '' @ b)), vals, [Do_call req]) \<and>
      resp (GetPhotos std (c\<lparr>HTTPClient := canned s b\<rparr>) p1) = None \<and>
      (sent (calls (GetPhotos std (c\<lparr>HTTPClient := canned s b\<rparr>) p1)) \<noteq> [] \<longrightarrow>
       err (GetPhotos std (c\<lparr>HTTPClient := canned s b\<rparr>) p1) = Some (Errorf (''Unknown API error: '' @ Itoa s @ '' '' @ b))) \<and>
      resp (GetCurated std (c\<lparr>HTTPClient := canned s b\<rparr>) p2) = None \<and>
      (sent (calls (GetCurated std (c\<lparr>HTTPClient := canned s b\<rparr>) p2)) \<noteq> [] \<longrightarrow>
       err (GetCurated std (c\<lparr>HTTPClient := canned s b\<rparr>) p2) = Some (Errorf (''Unknown API error: '' @ Itoa s @ '' '' @ b))) \<and>
      resp (GetPhoto std (c\<lparr>HTTPClient := canned s b\<rparr>) id1) = None \<and>
      (sent (calls (GetPhoto std (c\<lparr>HTTPClient := canned s b\<rparr>) id1)) \<noteq> [] \<longrightarrow>
       err (GetPhoto std (c\<lparr>HTTPClient := canned s b\<rparr>) id1) = Some (Errorf (''Unknown API error: '' @ Itoa s @ '' '' @ b))) \<and>
      resp (getCollections std (c\<lparr>HTTPClient := canned s b\<rparr>) p3 own) = None \<and>
      (sent (calls (getCollections std (c\<lparr>HTTPClient := canned s b\<rparr>) p3 own)) \<noteq> [] \<longrightarrow>
       err (getCollections std (c\<lparr>HTTPClient := canned s b\<rparr>) p3 own) = Some (Errorf (''Unknown API error: '' @ Itoa s @ '' '' @ b))) \<and>
      resp (GetFeaturedCollections std (c\<lparr>HTTPClient := canned s b\<rparr>) p3) = None \<and>
      (sent (calls (GetFeaturedCollections std (c\<lparr>HTTPClient := canned s b\<rparr>) p3)) \<noteq> [] \<longrightarrow>
       err (GetFeaturedCollections std (c\<lparr>HTTPClient := canned s b\<rparr>) p3) = Some (Errorf (''Unknown API error: '' @ Itoa s @ '' '' @ b))) \<and>
      resp (GetUserCollections std (c\<lparr>HTTPClient := canned s b\<rparr>) p3) = None \<and>
      (sent (calls (GetUserCollections std (c\<lparr>HTTPClient := canned s b\<rparr>) p3)) \<noteq> [] \<longrightarrow>
       err (GetUserCollections std (c\<lparr>HTTPClient := canned s b\<rparr>) p3) = Some (Errorf (''Unknown API error: '' @ Itoa s @ '' '' @ b))) \<and>
      resp (GetCollection std (c\<lparr>HTTPClient := canned s b\<rparr>) p4 id2) = None \<and>
      (sent (calls (GetCollection std (c\<lparr>HTTPClient := canned s b\<rparr>) p4 id2)) \<noteq> [] \<longrightarrow>
       err (GetCollection std (c\<lparr>HTTPClient := canned s b\<rparr>) p4 id2) = Some (Errorf (''Unknown API error: '' @ Itoa s @ '' '' @ b))) \<and>
      resp (GetVideo std (c\<lparr>HTTPClient := canned s b\<rparr>) id3) = None \<and>
      (sent (calls (GetVideo std (c\<lparr>HTTPClient := canned s b\<rparr>) id3)) \<noteq> [] \<longrightarrow>
       err (GetVideo std (c\<lparr>HTTPClient := canned s b\<rparr>) id3) = Some (Errorf (''Unknown API error: '' @ Itoa s @ '' '' @ b))) \<and>
      resp (GetPopularVideos std (c\<lparr>HTTPClient := canned s b\<rparr>) p5) = None \<and>
      (sent (calls (GetPopularVideos std (c\<lparr>HTTPClient := canned s b\<rparr>) p5)) \<noteq> [] \<longrightarrow>
       err (GetPopularVideos std (c\<lparr>HTTPClient := canned s b\<rparr>) p5) = Some (Errorf (''Unknown API error: '' @ Itoa s @ '' '' @ b))) \<and>
      resp (GetVideos std (c\<lparr>HTTPClient := canned s b\<rparr>) p6) = None \<and>
      (sent (calls (GetVideos std (c\<lparr>HTTPClient := canned s b\<rparr>) p6)) \<noteq> [] \<longrightarrow>
       err (GetVideos std (c\<lparr>HTTPClient := canned s b\<rparr>) p6) = Some (Errorf (''Unknown API error: '' @ Itoa s @ '' '' @ b)))) \<and>
   (200 \<le> s \<and> s < 400 \<longrightarrow>
      sendRequest std (c\<lparr>HTTPClient := canned s b\<rparr>) req vals
        = sendRequest std (c\<lparr>HTTPClient := canned 200 b\<rparr>) req vals \<and>
      sendRequest std (c\<lparr>HTTPClient := canned s b\<rparr>) req vals
        = (snd (json_Decode std \<lparr>Data = b, ReadErr = None\<rparr> vals),
           fst (json_Decode std \<lparr>Data = b, ReadErr = None\<rparr> vals), [Do_call req]) \<and>
      GetPhotos std (c\<lparr>HTTPClient := canned s b\<rparr>) p1 = GetPhotos std (c\<lparr>HTTPClient := canned 200 b\<rparr>) p1 \<and>
      GetCurated std (c\<lparr>HTTPClient := canned s b\<rparr>) p2 = GetCurated std (c\<lparr>HTTPClient := canned 200 b\<rparr>) p2 \<and>
      GetPhoto std (c\<lparr>HTTPClient := canned s b\<rparr>) id1 = GetPhoto std (c\<lparr>HTTPClient := canned 200 b\<rparr>) id1 \<and>
      getCollections std (c\<lparr>HTTPClient := canned s b\<rparr>) p3 own = getCollections std (c\<lparr>HTTPClient := canned 200 b\<rparr>) p3 own \<and>
      GetFeaturedCollections std (c\<lparr>HTTPClient := canned s b\<rparr>) p3 = GetFeaturedCollections std (c\<lparr>HTTPClient := canned 200 b\<rparr>) p3 \<and>
      GetUserCollections std (c\<lparr>HTTPClient := canned s b\<rparr>) p3 = GetUserCollections std (c\<lparr>HTTPClient := canned 200 b\<rparr>) p3 \<and>
      GetCollection std (c\<lparr>HTTPClient := canned s b\<rparr>) p4 id2 = GetCollection std (c\<lparr>HTTPClient := canned 200 b\<rparr>) p4 id2 \<and>
      GetVideo std (c\<lparr>HTTPClient := canned s b\<rparr>) id3 = GetVideo std (c\<lparr>HTTPClient := canned 200 b\<rparr>) id3 \<and>
      GetPopularVideos std (c\<lparr>HTTPClient := canned s b\<rparr>) p5 = GetPopularVideos std (c\<lparr>HTTPClient := canned 200 b\<rparr>) p5 \<and>
      GetVideos std (c\<lparr>HTTPClient := canned s b\<rparr>) p6 = GetVideos std (c\<lparr>HTTPClient := canned 200 b\<rparr>) p6)"
proof (rule conjI; rule impI)
  assume bad: "s < 200 \<or> 400 \<le> s"
  show "sendRequest std (c\<lparr>HTTPClient := canned s b\<rparr>) req vals
        = (Some (Errorf (''Unknown API error: '' @ Itoa s @ '' '' @ b)), vals, [Do_call req]) \<and>
      resp (GetPhotos std (c\<lparr>HTTPClient := canned s b\<rparr>) p1) = None \<and>
      (sent (calls (GetPhotos std (c\<lparr>HTTPClient := canned s b\<rparr>) p1)) \<noteq> [] \<longrightarrow>
       err (GetPhotos std (c\<lparr>HTTPClient := canned s b\<rparr>) p1) = Some (Errorf (''Unknown API error: '' @ Itoa s @ '' '' @ b))) \<and>
      resp (GetCurated std (c\<lparr>HTTPClient := canned s b\<rparr>) p2) = None \<and>
      (sent (calls (GetCurated std (c\<lparr>HTTPClient := canned s b\<rparr>) p2)) \<noteq> [] \<longrightarrow>
       err (GetCurated std (c\<lparr>HTTPClient := canned s b\<rparr>) p2) = Some (Errorf (''Unknown API error: '' @ Itoa s @ '' '' @ b))) \<and>
      resp (GetPhoto std (c\<lparr>HTTPClient := canned s b\<rparr>) id1) = None \<and>
      (sent (calls (GetPhoto std (c\<lparr>HTTPClient := canned s b\<rparr>) id1)) \<noteq> [] \<longrightarrow>
       err (GetPhoto std (c\<lparr>HTTPClient := canned s b\<rparr>) id1) = Some (Errorf (''Unknown API error: '' @ Itoa s @ '' '' @ b))) \<and>
      resp (getCollections std (c\<lparr>HTTPClient := canned s b\<rparr>) p3 own) = None \<and>
      (sent (calls (getCollections std (c\<lparr>HTTPClient := canned s b\<rparr>) p3 own)) \<noteq> [] \<longrightarrow>
       err (getCollections std (c\<lparr>HTTPClient := canned s b\<rparr>) p3 own) = Some (Errorf (''Unknown API error: '' @ Itoa s @ '' '' @ b))) \<and>
      resp (GetFeaturedCollections std (c\<lparr>HTTPClient := canned s b\<rparr>) p3) = None \<and>
      (sent (calls (GetFeaturedCollections std (c\<lparr>HTTPClient := canned s b\<rparr>) p3)) \<noteq> [] \<longrightarrow>
       err (GetFeaturedCollections std (c\<lparr>HTTPClient := canned s b\<rparr>) p3) = Some (Errorf (''Unknown API error: '' @ Itoa s @ '' '' @ b))) \<and>
      resp (GetUserCollections std (c\<lparr>HTTPClient := canned s b\<rparr>) p3) = None \<and>
      (sent (calls (GetUserCollections std (c\<lparr>HTTPClient := canned s b\<rparr>) p3)) \<noteq> [] \<longrightarrow>
       err (GetUserCollections std (c\<lparr>HTTPClient := canned s b\<rparr>) p3) = Some (Errorf (''Unknown API error: '' @ Itoa s @ '' '' @ b))) \<and>
      resp (GetCollection std (c\<lparr>HTTPClient := canned s b\<rparr>) p4 id2) = None \<and>
      (sent (calls (GetCollection std (c\<lparr>HTTPClient := canned s b\<rparr>) p4 id2)) \<noteq> [] \<longrightarrow>
       err (GetCollection std (c\<lparr>HTTPClient := canned s b\<rparr>) p4 id2) = Some (Errorf (''Unknown API error: '' @ Itoa s @ '' '' @ b))) \<and>
      resp (GetVideo std (c\<lparr>HTTPClient := canned s b\<rparr>) id3) = None \<and>
      (sent (calls (GetVideo std (c\<lparr>HTTPClient := canned s b\<rparr>) id3)) \<noteq> [] \<longrightarrow>
       err (GetVideo std (c\<lparr>HTTPClient := canned s b\<rparr>) id3) = Some (Errorf (''Unknown API error: '' @ Itoa s @ '' '' @ b))) \<and>
      resp (GetPopularVideos std (c\<lparr>HTTPClient := canned s b\<rparr>) p5) = None \<and>
      (sent (calls (GetPopularVideos std (c\<lparr>HTTPClient := canned s b\<rparr>) p5)) \<noteq> [] \<longrightarrow>
       err (GetPopularVideos std (c\<lparr>HTTPClient := canned s b\<rparr>) p5) = Some (Errorf (''Unknown API error: '' @ Itoa s @ '' '' @ b))) \<and>
      resp (GetVideos std (c\<lparr>HTTPClient := canned s b\<rparr>) p6) = None \<and>
      (sent (calls (GetVideos std (c\<lparr>HTTPClient := canned s b\<rparr>) p6)) \<noteq> [] \<longrightarrow>
       err (GetVideos std (c\<lparr>HTTPClient := canned s b\<rparr>) p6) = Some (Errorf (''Unknown API error: '' @ Itoa s @ '' '' @ b)))"
    by (intro conjI)
      (rule sendRequest_canned_error [OF bad]
            GetPhotos_canned_error [OF bad, THEN conjunct1]
            GetPhotos_canned_error [OF bad, THEN conjunct2]
            GetCurated_canned_error [OF bad, THEN conjunct1]
            GetCurated_canned_error [OF bad, THEN conjunct2]
            GetPhoto_canned_error [OF bad, THEN conjunct1]
            GetPhoto_canned_error [OF bad, THEN conjunct2]
            getCollections_canned_error [OF bad, THEN conjunct1]
            getCollections_canned_error [OF bad, THEN conjunct2]
            GetFeaturedCollections_canned_error [OF bad, THEN conjunct1]
            GetFeaturedCollections_canned_error [OF bad, THEN conjunct2]
            GetUserCollections_canned_error [OF bad, THEN conjunct1]
            GetUserCollections_canned_error [OF bad, THEN conjunct2]
            GetCollection_canned_error [OF bad, THEN conjunct1]
            GetCollection_canned_error [OF bad, THEN conjunct2]
            GetVideo_canned_error [OF bad, THEN conjunct1]
            GetVideo_canned_error [OF bad, THEN conjunct2]
            GetPopularVideos_canned_error [OF bad, THEN conjunct1]
            GetPopularVideos_canned_error [OF bad, THEN conjunct2]
            GetVideos_canned_error [OF bad, THEN conjunct1]
            GetVideos_canned_error [OF bad, THEN conjunct2])+
next
  assume ok: "200 \<le> s \<and> s < 400"
  then have ok1: "200 \<le> s" and ok2: "s < 400" by simp_all
  show "sendRequest std (c\<lparr>HTTPClient := canned s b\<rparr>) req vals
        = sendRequest std (c\<lparr>HTTPClient := canned 200 b\<rparr>) req vals \<and>
      sendRequest std (c\<lparr>HTTPClient := canned s b\<rparr>) req vals
        = (snd (json_Decode std \<lparr>Data = b, ReadErr = None\<rparr> vals),
           fst (json_Decode std \<lparr>Data = b, ReadErr = None\<rparr> vals), [Do_call req]) \<and>
      GetPhotos std (c\<lparr>HTTPClient := canned s b\<rparr>) p1 = GetPhotos std (c\<lparr>HTTPClient := canned 200 b\<rparr>) p1 \<and>
      GetCurated std (c\<lparr>HTTPClient := canned s b\<rparr>) p2 = GetCurated std (c\<lparr>HTTPClient := canned 200 b\<rparr>) p2 \<and>
      GetPhoto std (c\<lparr>HTTPClient := canned s b\<rparr>) id1 = GetPhoto std (c\<lparr>HTTPClient := canned 200 b\<rparr>) id1 \<and>
      getCollections std (c\<lparr>HTTPClient := canned s b\<rparr>) p3 own = getCollections std (c\<lparr>HTTPClient := canned 200 b\<rparr>) p3 own \<and>
      GetFeaturedCollections std (c\<lparr>HTTPClient := canned s b\<rparr>) p3 = GetFeaturedCollections std (c\<lparr>HTTPClient := canned 200 b\<rparr>) p3 \<and>
      GetUserCollections std (c\<lparr>HTTPClient := canned s b\<rparr>) p3 = GetUserCollections std (c\<lparr>HTTPClient := canned 200 b\<rparr>) p3 \<and>
      GetCollection std (c\<lparr>HTTPClient := canned s b\<rparr>) p4 id2 = GetCollection std (c\<lparr>HTTPClient := canned 200 b\<rparr>) p4 id2 \<and>
      GetVideo std (c\<lparr>HTTPClient := canned s b\<rparr>) id3 = GetVideo std (c\<lparr>HTTPClient := canned 200 b\<rparr>) id3 \<and>
      GetPopularVideos std (c\<lparr>HTTPClient := canned s b\<rparr>) p5 = GetPopularVideos std (c\<lparr>HTTPClient := canned 200 b\<rparr>) p5 \<and>
      GetVideos std (c\<lparr>HTTPClient := canned s b\<rparr>) p6 = GetVideos std (c\<lparr>HTTPClient := canned 200 b\<rparr>) p6"
    by (intro conjI)
      (rule sendRequest_canned_decoded [OF ok1 ok2] sendRequest_canned_decodes [OF ok1 ok2]
            GetPhotos_canned_decoded [OF ok1 ok2]
            GetCurated_canned_decoded [OF ok1 ok2]
            GetPhoto_canned_decoded [OF ok1 ok2]
            getCollections_canned_decoded [OF ok1 ok2]
            GetFeaturedCollections_canned_decoded [OF ok1 ok2]
            GetUserCollections_canned_decoded [OF ok1 ok2]
            GetCollection_canned_decoded [OF ok1 ok2]
            GetVideo_canned_decoded [OF ok1 ok2]
            GetPopularVideos_canned_decoded [OF ok1 ok2]
            GetVideos_canned_decoded [OF ok1 ok2])+
qed

theorem C4_statuses_witness:
  "resp (GetPhoto std_empty_object (NewClient (canned 404 ''Not found'') ''KEY'') ''2014422'') = None \<and>
   err (GetPhoto std_empty_object (NewClient (canned 404 ''Not found'') ''KEY'') ''2014422'')
     = Some (Errorf ''Unknown API error: 404 Not found'') \<and>
   GetPhoto std_empty_object (NewClient (canned 301 ''{}'') ''KEY'') ''2014422''
     = GetPhoto std_empty_object (NewClient (canned 200 ''{}'') ''KEY'') ''2014422''"
proof -
  have "resp (GetPhoto std_empty_object (NewClient (canned 404 ''Not found'') ''KEY'') ''2014422'') = None \<and>
   err (GetPhoto std_empty_object (NewClient (canned 404 ''Not found'') ''KEY'') ''2014422'')
     = Some (Errorf ''Unknown API error: 404 Not found'')"
    using C4_error_statuses_are_below_200_or_from_400
      [where s = 404 and b = "''Not found''" and std = std_empty_object
         and c = "NewClient (canned 404 ''Not found'') ''KEY''"
         and req = "\<lparr>Method = ''GET'', URL = ''u'', Header = Map.empty\<rparr>"
         and vals = "()"
       and ?p1.0 = "\<lparr>GetPhotosParams.Query = ''nature'', Orientation = [], Size = [], Color = [], Locale = [], Page = 0, PerPage = 0\<rparr>"
         and ?p2.0 = "\<lparr>GetCuratedPhotoParams.Page = 0, PerPage = 0\<rparr>"
         and ?p3.0 = "\<lparr>GetFeaturedCollectionParams.Page = 0, PerPage = 0\<rparr>"
         and ?p4.0 = "\<lparr>GetCollectionMediaParams.Type = [], Sort = [], Page = 0, PerPage = 0\<rparr>"
         and ?p5.0 = "\<lparr>MinWidth = 0, MinHeight = 0, MinDuration = 0, MaxDuration = 0,
                      Page = 0, PerPage = 0\<rparr>"
         and ?p6.0 = "\<lparr>GetVideosParams.Query = [], Orientation = [], Size = [],
                      Locale = [], Page = 0, PerPage = 0\<rparr>"
         and own = False and ?id1.0 = "''2014422''" and ?id2.0 = "''2''" and ?id3.0 = "''7''"]
    by (simp add: GetPhoto_dispatch sent_dispatch std_empty_object_def Itoa_404)
  moreover have "GetPhoto std_empty_object (NewClient (canned 301 ''{}'') ''KEY'') ''2014422''
     = GetPhoto std_empty_object (NewClient (canned 200 ''{}'') ''KEY'') ''2014422''"
    using C4_error_statuses_are_below_200_or_from_400
      [where s = 301 and b = "''{}''" and std = std_empty_object
         and c = "NewClient (canned 301 ''{}'') ''KEY''"
         and req = "\<lparr>Method = ''GET'', URL = ''u'', Header = Map.empty\<rparr>"
         and vals = "()"
       and ?p1.0 = "\<lparr>GetPhotosParams.Query = ''nature'', Orientation = [], Size = [], Color = [], Locale = [], Page = 0, PerPage = 0\<rparr>"
         and ?p2.0 = "\<lparr>GetCuratedPhotoParams.Page = 0, PerPage = 0\<rparr>"
         and ?p3.0 = "\<lparr>GetFeaturedCollectionParams.Page = 0, PerPage = 0\<rparr>"
         and ?p4.0 = "\<lparr>GetCollectionMediaParams.Type = [], Sort = [], Page = 0, PerPage = 0\<rparr>"
         and ?p5.0 = "\<lparr>MinWidth = 0, MinHeight = 0, MinDuration = 0, MaxDuration = 0,
                      Page = 0, PerPage = 0\<rparr>"
         and ?p6.0 = "\<lparr>GetVideosParams.Query = [], Orientation = [], Size = [],
                      Locale = [], Page = 0, PerPage = 0\<rparr>"
         and own = False and ?id1.0 = "''2014422''" and ?id2.0 = "''2''" and ?id3.0 = "''7''"]
    by simp
  ultimately show ?thesis by simp
qed

theorem C4_status_300_counterexample:
  "err (GetPhoto std_empty_object (NewClient (canned 300 ''{}'') ''KEY'') ''2014422'') = None \<and>
   resp (GetPhoto std_empty_object (NewClient (canned 300 ''{}'') ''KEY'') ''2014422'')
     = Some ()"
  by (simp add: GetPhoto_dispatch dispatch_def sendRequest_def std_empty_object_def
        NewClient_def canned_def)

section \<open>Routing of the collection listings\<close>

lemma getCollections_same_answer:
  assumes "url_Parse std u1 = url_Parse std u2"
    and "HTTPClient c \<lparr>Method = ''GET'', URL = u1, Header = hdr\<rparr>
           = HTTPClient c \<lparr>Method = ''GET'', URL = u2, Header = hdr\<rparr>"
  shows "resp (dispatch std c u1 hdr ps) = resp (dispatch std c u2 hdr ps) \<and>
         err (dispatch std c u1 hdr ps) = err (dispatch std c u2 hdr ps)"
  using assms by (simp add: dispatch_def sendRequest_def split: option.splits sum.splits prod.splits)

text \<open>
  C7. \<open>getCollections\<close> builds \<open>{BaseURL}{Version}/collections/featured?{query}\<close> when
  \<open>own\<close> is false and \<open>{BaseURL}{Version}/collections?{query}\<close> when it is true, and
  \<open>GetFeaturedCollections\<close> and \<open>GetUserCollections\<close> are these two calls. Everything else
  is the same in both: the query is the encoding of the same defaulted record, the record
  left to the caller is the same, every request sent is a \<open>GET\<close> with the same three
  headers, and when the URL parser and the transport treat the two URLs alike the two
  calls return the same response and the same error.
\<close>

theorem C7_collections_route_on_own:
  "GetFeaturedCollections std c p = getCollections std c p False \<and>
   GetUserCollections std c p = getCollections std c p True \<and>
   built_urls (calls (getCollections std c p False))
     = [BaseURL c @ Version c @ ''/collections/featured?''
          @ Encode (structToURLValues (reflect_GetFeaturedCollectionParams
              (defaults_collections p)))] \<and>
   built_urls (calls (getCollections std c p True))
     = [BaseURL c @ Version c @ ''/collections?''
          @ Encode (structToURLValues (reflect_GetFeaturedCollectionParams
              (defaults_collections p)))] \<and>
   params (getCollections std c p False) = params (getCollections std c p True) \<and>
   (\<forall>r \<in> set (sent (calls (getCollections std c p own))).
      Method r = ''GET'' \<and>
      Header r = [''Accept'' \<mapsto> [''application/json''],
          ''Content-Type'' \<mapsto> [''application/json''], ''Authorization'' \<mapsto> [ApiKey c]]) \<and>
   (url_Parse std (BaseURL c @ Version c @ ''/collections/featured?''
          @ Encode (structToURLValues (reflect_GetFeaturedCollectionParams
              (defaults_collections p))))
      = url_Parse std (BaseURL c @ Version c @ ''/collections?''
          @ Encode (structToURLValues (reflect_GetFeaturedCollectionParams
              (defaults_collections p)))) \<and>
    HTTPClient c \<lparr>Method = ''GET'',
        URL = BaseURL c @ Version c @ ''/collections/featured?''
          @ Encode (structToURLValues (reflect_GetFeaturedCollectionParams
              (defaults_collections p))),
        Header = [''Accept'' \<mapsto> [''application/json''],
          ''Content-Type'' \<mapsto> [''application/json''], ''Authorization'' \<mapsto> [ApiKey c]]\<rparr>
      = HTTPClient c \<lparr>Method = ''GET'',
        URL = BaseURL c @ Version c @ ''/collections?''
          @ Encode (structToURLValues (reflect_GetFeaturedCollectionParams
              (defaults_collections p))),
        Header = [''Accept'' \<mapsto> [''application/json''],
          ''Content-Type'' \<mapsto> [''application/json''], ''Authorization'' \<mapsto> [ApiKey c]]\<rparr> \<longrightarrow>
    resp (getCollections std c p False) = resp (getCollections std c p True) \<and>
    err (getCollections std c p False) = err (getCollections std c p True))"
proof -
  have "resp (getCollections std c p False) = resp (getCollections std c p True) \<and>
    err (getCollections std c p False) = err (getCollections std c p True)"
    if "url_Parse std (BaseURL c @ Version c @ ''/collections/featured?''
          @ Encode (structToURLValues (reflect_GetFeaturedCollectionParams
              (defaults_collections p))))
      = url_Parse std (BaseURL c @ Version c @ ''/collections?''
          @ Encode (structToURLValues (reflect_GetFeaturedCollectionParams
              (defaults_collections p))))"
    and "HTTPClient c \<lparr>Method = ''GET'',
        URL = BaseURL c @ Version c @ ''/collections/featured?''
          @ Encode (structToURLValues (reflect_GetFeaturedCollectionParams
              (defaults_collections p))),
        Header = headers_json c\<rparr>
      = HTTPClient c \<lparr>Method = ''GET'',
        URL = BaseURL c @ Version c @ ''/collections?''
          @ Encode (structToURLValues (reflect_GetFeaturedCollectionParams
              (defaults_collections p))),
        Header = headers_json c\<rparr>"
    using getCollections_same_answer [OF that]
    by (simp add: getCollections_dispatch)
  then show ?thesis
    by (simp add: GetFeaturedCollections_def GetUserCollections_def getCollections_dispatch
          built_urls_dispatch params_dispatch sent_dispatch headers_json_def)
qed

theorem C7_collections_witness:
  "built_urls (calls (getCollections std_empty_object (NewClient (canned 200 ''{}'') ''KEY'')
      \<lparr>GetFeaturedCollectionParams.Page = 2, PerPage = 0\<rparr> False))
     = [''https://api.pexels.com/v1/collections/featured?page=2&per_page=5''] \<and>
   built_urls (calls (getCollections std_empty_object (NewClient (canned 200 ''{}'') ''KEY'')
      \<lparr>GetFeaturedCollectionParams.Page = 2, PerPage = 0\<rparr> True))
     = [''https://api.pexels.com/v1/collections?page=2&per_page=5''] \<and>
   resp (getCollections std_empty_object (NewClient (canned 200 ''{}'') ''KEY'')
      \<lparr>GetFeaturedCollectionParams.Page = 2, PerPage = 0\<rparr> False)
     = resp (getCollections std_empty_object (NewClient (canned 200 ''{}'') ''KEY'')
      \<lparr>GetFeaturedCollectionParams.Page = 2, PerPage = 0\<rparr> True) \<and>
   map Header (sent (calls (getCollections std_empty_object
      (NewClient (canned 200 ''{}'') ''KEY'')
      \<lparr>GetFeaturedCollectionParams.Page = 2, PerPage = 0\<rparr> True)))
     = [[''Accept'' \<mapsto> [''application/json''], ''Content-Type'' \<mapsto> [''application/json''],
         ''Authorization'' \<mapsto> [''KEY'']]]"
proof -
  have enc: "Encode (structToURLValues (reflect_GetFeaturedCollectionParams
      (defaults_collections \<lparr>GetFeaturedCollectionParams.Page = 2, PerPage = 0\<rparr>)))
    = ''page=2&per_page=5''"
    by code_simp
  have sent_one: "sent (calls (getCollections std_empty_object
      (NewClient (canned 200 ''{}'') ''KEY'')
      \<lparr>GetFeaturedCollectionParams.Page = 2, PerPage = 0\<rparr> True)) \<noteq> []"
    by (simp add: getCollections_dispatch sent_dispatch std_empty_object_def)
  show ?thesis
    using C7_collections_route_on_own
      [where std = std_empty_object and c = "NewClient (canned 200 ''{}'') ''KEY''"
         and p = "\<lparr>GetFeaturedCollectionParams.Page = 2, PerPage = 0\<rparr>" and own = True]
      sent_one
    by (simp add: enc NewClient_def canned_def)
      (simp add: getCollections_dispatch sent_dispatch std_empty_object_def NewClient_def
         headers_json_def)
qed

section \<open>The URL of every binding\<close>

text \<open>
  C8, as the code has it. The URL a binding hands to \<open>http.NewRequest\<close> is:
  \<^item> photo search: \<open>{BaseURL}{Version}/search?{query}\<close> (when the search query is not empty);
  \<^item> curated photos: \<open>{BaseURL}{Version}/curated?{query}\<close>;
  \<^item> photo by ID: \<open>{BaseURL}{Version}/photos/{id}\<close>, with no question mark and no query;
  \<^item> featured and user collections: \<open>{BaseURL}{Version}/collections/featured?{query}\<close> and
    \<open>{BaseURL}{Version}/collections?{query}\<close>;
  \<^item> collection media by ID: \<open>{BaseURL}{Version}/collections/{id}?{query}\<close>;
  \<^item> video search: \<open>{BaseURL}/videos/search?{query}\<close> (when the search query is not empty);
  \<^item> popular videos: \<open>{BaseURL}videos/popular?{query}\<close>;
  \<^item> video by ID: \<open>{BaseURL}/videos/videos/{id}\<close>, with no query;
  where \<open>{query}\<close> is \<open>Encode\<close> of the encoder's output on the defaulted record. The
  claim's pattern \<open>...?{encodedParams}\<close> for every binding fails on photo by ID, whose URL
  has no \<open>?\<close> (the counterexample).
\<close>

theorem C8_url_of_every_binding:
  "(GetPhotosParams.Query p1 \<noteq> [] \<longrightarrow>
      built_urls (calls (GetPhotos std c p1))
        = [BaseURL c @ Version c @ ''/search?''
             @ Encode (structToURLValues (reflect_GetPhotosParams (defaults_photos p1)))]) \<and>
   built_urls (calls (GetCurated std c p2))
     = [BaseURL c @ Version c @ ''/curated?''
          @ Encode (structToURLValues (reflect_GetCuratedPhotoParams (defaults_curated p2)))] \<and>
   built_urls (calls (GetPhoto std c id1)) = [BaseURL c @ Version c @ ''/photos/'' @ id1] \<and>
   built_urls (calls (GetFeaturedCollections std c p3))
     = [BaseURL c @ Version c @ ''/collections/featured?''
          @ Encode (structToURLValues (reflect_GetFeaturedCollectionParams (defaults_collections p3)))] \<and>
   built_urls (calls (GetUserCollections std c p3))
     = [BaseURL c @ Version c @ ''/collections?''
          @ Encode (structToURLValues (reflect_GetFeaturedCollectionParams (defaults_collections p3)))] \<and>
   built_urls (calls (GetCollection std c p4 id2))
     = [BaseURL c @ Version c @ ''/collections/'' @ id2 @ ''?''
          @ Encode (structToURLValues (reflect_GetCollectionMediaParams (defaults_media p4)))] \<and>
   (GetVideosParams.Query p6 \<noteq> [] \<longrightarrow>
      built_urls (calls (GetVideos std c p6))
        = [BaseURL c @ ''/videos/search?''
             @ Encode (structToURLValues (reflect_GetVideosParams (defaults_videos p6)))]) \<and>
   built_urls (calls (GetPopularVideos std c p5))
     = [BaseURL c @ ''videos/popular?''
          @ Encode (structToURLValues (reflect_GetPopularVideosParams (defaults_popular p5)))] \<and>
   built_urls (calls (GetVideo std c id3)) = [BaseURL c @ ''/videos/videos/'' @ id3]"
  by (simp add: GetPhotos_dispatch GetCurated_dispatch GetPhoto_dispatch getCollections_dispatch
        GetFeaturedCollections_def GetUserCollections_def GetCollection_dispatch
        GetVideo_dispatch GetPopularVideos_dispatch GetVideos_dispatch built_urls_dispatch)

theorem C8_url_witness:
  "built_urls (calls (GetPhotos std_empty_object (NewClient (canned 200 ''{}'') ''KEY'')
      \<lparr>GetPhotosParams.Query = ''red car'', Orientation = [], Size = [], Color = [], Locale = [], Page = 0, PerPage = 0\<rparr>))
     = [''https://api.pexels.com/v1/search?page=1&per_page=5&query=red+car''] \<and>
   built_urls (calls (GetVideos std_empty_object (NewClient (canned 200 ''{}'') ''KEY'')
      \<lparr>GetVideosParams.Query = ''sea'', Orientation = [], Size = [], Locale = [], Page = 0, PerPage = 15\<rparr>))
     = [''https://api.pexels.com//videos/search?page=1&per_page=15&query=sea''] \<and>
   built_urls (calls (GetPopularVideos std_empty_object (NewClient (canned 200 ''{}'') ''KEY'')
      \<lparr>MinWidth = 0, MinHeight = 0, MinDuration = 0, MaxDuration = 0, Page = 0, PerPage = 0\<rparr>))
     = [''https://api.pexels.com/videos/popular?page=1&per_page=2''] \<and>
   built_urls (calls (GetVideo std_empty_object (NewClient (canned 200 ''{}'') ''KEY'') ''2499611''))
     = [''https://api.pexels.com//videos/videos/2499611'']"
proof -
  have e1: "Encode (structToURLValues (reflect_GetPhotosParams (defaults_photos
      \<lparr>GetPhotosParams.Query = ''red car'', Orientation = [], Size = [], Color = [], Locale = [], Page = 0, PerPage = 0\<rparr>)))
    = ''page=1&per_page=5&query=red+car''"
    by code_simp
  have e6: "Encode (structToURLValues (reflect_GetVideosParams (defaults_videos
      \<lparr>GetVideosParams.Query = ''sea'', Orientation = [], Size = [], Locale = [], Page = 0, PerPage = 15\<rparr>)))
    = ''page=1&per_page=15&query=sea''"
    by code_simp
  have e5: "Encode (structToURLValues (reflect_GetPopularVideosParams (defaults_popular
      \<lparr>MinWidth = 0, MinHeight = 0, MinDuration = 0, MaxDuration = 0, Page = 0, PerPage = 0\<rparr>)))
    = ''page=1&per_page=2''"
    by code_simp
  show ?thesis
    using C8_url_of_every_binding
      [where std = std_empty_object and c = "NewClient (canned 200 ''{}'') ''KEY''"
         and ?p1.0 = "\<lparr>GetPhotosParams.Query = ''red car'', Orientation = [], Size = [], Color = [], Locale = [], Page = 0, PerPage = 0\<rparr>"
         and ?p2.0 = "\<lparr>GetCuratedPhotoParams.Page = 0, PerPage = 0\<rparr>"
         and ?p3.0 = "\<lparr>GetFeaturedCollectionParams.Page = 0, PerPage = 0\<rparr>"
         and ?p4.0 = "\<lparr>GetCollectionMediaParams.Type = [], Sort = [], Page = 0, PerPage = 0\<rparr>"
         and ?p5.0 = "\<lparr>MinWidth = 0, MinHeight = 0, MinDuration = 0, MaxDuration = 0, Page = 0, PerPage = 0\<rparr>"
         and ?p6.0 = "\<lparr>GetVideosParams.Query = ''sea'', Orientation = [], Size = [], Locale = [], Page = 0, PerPage = 15\<rparr>"
         and ?id1.0 = "''2014422''" and ?id2.0 = "''2''" and ?id3.0 = "''2499611''"]
    by (simp add: e1 e5 e6 NewClient_def)
qed

theorem C8_photo_by_id_counterexample:
  "built_urls (calls (GetPhoto std_empty_object (NewClient (canned 200 ''{}'') ''KEY'')
      ''2014422''))
     = [''https://api.pexels.com/v1/photos/2014422''] \<and>
   CHR ''?'' \<notin> set ''https://api.pexels.com/v1/photos/2014422''"
  by (simp add: GetPhoto_dispatch built_urls_dispatch NewClient_def)

section \<open>The headers of every binding\<close>

lemma headers_sent_GetPhotos:
  "map Header (sent (calls (GetPhotos std c p1)))
     = (if GetPhotosParams.Query p1 \<noteq> [] \<and>
        url_Parse std
           (BaseURL c @ Version c @ ''/search?''
            @ Encode (structToURLValues (reflect_GetPhotosParams (defaults_photos p1)))) = None
        then [[''Accept'' \<mapsto> [''application/json''], ''Authorization'' \<mapsto> [ApiKey c]]]
        else []) \<and>
   map (\<lambda>r. Header r ''Content-Type'') (sent (calls (GetPhotos std c p1)))
     = (if GetPhotosParams.Query p1 \<noteq> [] \<and>
        url_Parse std
           (BaseURL c @ Version c @ ''/search?''
            @ Encode (structToURLValues (reflect_GetPhotosParams (defaults_photos p1)))) = None
        then [None]
        else [])"
  by (simp add: GetPhotos_dispatch sent_dispatch headers_plain_def headers_json_def)

lemma headers_sent_GetVideos:
  "map Header (sent (calls (GetVideos std c p6)))
     = (if GetVideosParams.Query p6 \<noteq> [] \<and>
        url_Parse std
           (BaseURL c @ ''/videos/search?''
            @ Encode (structToURLValues (reflect_GetVideosParams (defaults_videos p6)))) = None
        then [[''Accept'' \<mapsto> [''application/json''], ''Authorization'' \<mapsto> [ApiKey c]]]
        else []) \<and>
   map (\<lambda>r. Header r ''Content-Type'') (sent (calls (GetVideos std c p6)))
     = (if GetVideosParams.Query p6 \<noteq> [] \<and>
        url_Parse std
           (BaseURL c @ ''/videos/search?''
            @ Encode (structToURLValues (reflect_GetVideosParams (defaults_videos p6)))) = None
        then [None]
        else [])"
  by (simp add: GetVideos_dispatch sent_dispatch headers_plain_def headers_json_def)

lemma headers_sent_GetCurated:
  "map Header (sent (calls (GetCurated std c p2)))
     = (if url_Parse std
           (BaseURL c @ Version c @ ''/curated?''
            @ Encode (structToURLValues (reflect_GetCuratedPhotoParams (defaults_curated p2)))) = None
        then [[''Accept'' \<mapsto> [''application/json''],
            ''Content-Type'' \<mapsto> [''application/json''],
            ''Authorization'' \<mapsto> [ApiKey c]]]
        else [])"
  by (simp add: GetCurated_dispatch sent_dispatch headers_plain_def headers_json_def)

lemma headers_sent_GetPhoto:
  "map Header (sent (calls (GetPhoto std c id1)))
     = (if url_Parse std
           (BaseURL c @ Version c @ ''/photos/'' @ id1) = None
        then [[''Accept'' \<mapsto> [''application/json''],
            ''Content-Type'' \<mapsto> [''application/json''],
            ''Authorization'' \<mapsto> [ApiKey c]]]
        else [])"
  by (simp add: GetPhoto_dispatch sent_dispatch headers_plain_def headers_json_def)

lemma headers_sent_GetFeaturedCollections:
  "map Header (sent (calls (GetFeaturedCollections std c p3)))
     = (if url_Parse std
           (BaseURL c @ Version c @ ''/collections/featured?''
            @ Encode (structToURLValues (reflect_GetFeaturedCollectionParams (defaults_collections p3)))) = None
        then [[''Accept'' \<mapsto> [''application/json''],
            ''Content-Type'' \<mapsto> [''application/json''],
            ''Authorization'' \<mapsto> [ApiKey c]]]
        else [])"
  by (simp add: GetFeaturedCollections_def getCollections_dispatch sent_dispatch headers_plain_def headers_json_def)

lemma headers_sent_GetUserCollections:
  "map Header (sent (calls (GetUserCollections std c p3)))
     = (if url_Parse std
           (BaseURL c @ Version c @ ''/collections?''
            @ Encode (structToURLValues (reflect_GetFeaturedCollectionParams (defaults_collections p3)))) = None
        then [[''Accept'' \<mapsto> [''application/json''],
            ''Content-Type'' \<mapsto> [''application/json''],
            ''Authorization'' \<mapsto> [ApiKey c]]]
        else [])"
  by (simp add: GetUserCollections_def getCollections_dispatch sent_dispatch headers_plain_def headers_json_def)

lemma headers_sent_GetCollection:
  "map Header (sent (calls (GetCollection std c p4 id2)))
     = (if url_Parse std
           (BaseURL c @ Version c @ ''/collections/'' @ id2 @ ''?''
            @ Encode (structToURLValues (reflect_GetCollectionMediaParams (defaults_media p4)))) = None
        then [[''Accept'' \<mapsto> [''application/json''],
            ''Content-Type'' \<mapsto> [''application/json''],
            ''Authorization'' \<mapsto> [ApiKey c]]]
        else [])"
  by (simp add: GetCollection_dispatch sent_dispatch headers_plain_def headers_json_def)

lemma headers_sent_GetVideo:
  "map Header (sent (calls (GetVideo std c id3)))
     = (if url_Parse std
           (BaseURL c @ ''/videos/videos/'' @ id3) = None
        then [[''Accept'' \<mapsto> [''application/json''],
            ''Content-Type'' \<mapsto> [''application/json''],
            ''Authorization'' \<mapsto> [ApiKey c]]]
        else [])"
  by (simp add: GetVideo_dispatch sent_dispatch headers_plain_def headers_json_def)

lemma headers_sent_GetPopularVideos:
  "map Header (sent (calls (GetPopularVideos std c p5)))
     = (if url_Parse std
           (BaseURL c @ ''videos/popular?''
            @ Encode (structToURLValues (reflect_GetPopularVideosParams (defaults_popular p5)))) = None
        then [[''Accept'' \<mapsto> [''application/json''],
            ''Content-Type'' \<mapsto> [''application/json''],
            ''Authorization'' \<mapsto> [ApiKey c]]]
        else [])"
  by (simp add: GetPopularVideos_dispatch sent_dispatch headers_plain_def headers_json_def)

text \<open>
  C9. Every binding, once \<open>http.NewRequest\<close> has accepted its URL (and, for the two search
  bindings, the query is not empty), sends exactly one request, and the header of that
  request is exactly: \<open>Accept: application/json\<close> and \<open>Authorization\<close> with the API key
  as it is (no \<open>Bearer\<close> before it), and, for every binding but photo search and video
  search, \<open>Content-Type: application/json\<close>. The requests of the two search bindings have
  no \<open>Content-Type\<close> at all. Otherwise the binding sends nothing.
\<close>

theorem C9_headers_of_every_binding:
  "map Header (sent (calls (GetPhotos std c p1)))
     = (if GetPhotosParams.Query p1 \<noteq> [] \<and>
        url_Parse std
           (BaseURL c @ Version c @ ''/search?''
            @ Encode (structToURLValues (reflect_GetPhotosParams (defaults_photos p1)))) = None
        then [[''Accept'' \<mapsto> [''application/json''], ''Authorization'' \<mapsto> [ApiKey c]]]
        else []) \<and>
   map (\<lambda>r. Header r ''Content-Type'') (sent (calls (GetPhotos std c p1)))
     = (if GetPhotosParams.Query p1 \<noteq> [] \<and>
        url_Parse std
           (BaseURL c @ Version c @ ''/search?''
            @ Encode (structToURLValues (reflect_GetPhotosParams (defaults_photos p1)))) = None
        then [None]
        else []) \<and>
   map Header (sent (calls (GetVideos std c p6)))
     = (if GetVideosParams.Query p6 \<noteq> [] \<and>
        url_Parse std
           (BaseURL c @ ''/videos/search?''
            @ Encode (structToURLValues (reflect_GetVideosParams (defaults_videos p6)))) = None
        then [[''Accept'' \<mapsto> [''application/json''], ''Authorization'' \<mapsto> [ApiKey c]]]
        else []) \<and>
   map (\<lambda>r. Header r ''Content-Type'') (sent (calls (GetVideos std c p6)))
     = (if GetVideosParams.Query p6 \<noteq> [] \<and>
        url_Parse std
           (BaseURL c @ ''/videos/search?''
            @ Encode (structToURLValues (reflect_GetVideosParams (defaults_videos p6)))) = None
        then [None]
        else []) \<and>
   map Header (sent (calls (GetCurated std c p2)))
     = (if url_Parse std
           (BaseURL c @ Version c @ ''/curated?''
            @ Encode (structToURLValues (reflect_GetCuratedPhotoParams (defaults_curated p2)))) = None
        then [[''Accept'' \<mapsto> [''application/json''],
            ''Content-Type'' \<mapsto> [''application/json''],
            ''Authorization'' \<mapsto> [ApiKey c]]]
        else []) \<and>
   map Header (sent (calls (GetPhoto std c id1)))
     = (if url_Parse std
           (BaseURL c @ Version c @ ''/photos/'' @ id1) = None
        then [[''Accept'' \<mapsto> [''application/json''],
            ''Content-Type'' \<mapsto> [''application/json''],
            ''Authorization'' \<mapsto> [ApiKey c]]]
        else []) \<and>
   map Header (sent (calls (GetFeaturedCollections std c p3)))
     = (if url_Parse std
           (BaseURL c @ Version c @ ''/collections/featured?''
            @ Encode (structToURLValues (reflect_GetFeaturedCollectionParams (defaults_collections p3)))) = None
        then [[''Accept'' \<mapsto> [''application/json''],
            ''Content-Type'' \<mapsto> [''application/json''],
            ''Authorization'' \<mapsto> [ApiKey c]]]
        else []) \<and>
   map Header (sent (calls (GetUserCollections std c p3)))
     = (if url_Parse std
           (BaseURL c @ Version c @ ''/collections?''
            @ Encode (structToURLValues (reflect_GetFeaturedCollectionParams (defaults_collections p3)))) = None
        then [[''Accept'' \<mapsto> [''application/json''],
            ''Content-Type'' \<mapsto> [''application/json''],
            ''Authorization'' \<mapsto> [ApiKey c]]]
        else []) \<and>
   map Header (sent (calls (GetCollection std c p4 id2)))
     = (if url_Parse std
           (BaseURL c @ Version c @ ''/collections/'' @ id2 @ ''?''
            @ Encode (structToURLValues (reflect_GetCollectionMediaParams (defaults_media p4)))) = None
        then [[''Accept'' \<mapsto> [''application/json''],
            ''Content-Type'' \<mapsto> [''application/json''],
            ''Authorization'' \<mapsto> [ApiKey c]]]
        else []) \<and>
   map Header (sent (calls (GetVideo std c id3)))
     = (if url_Parse std
           (BaseURL c @ ''/videos/videos/'' @ id3) = None
        then [[''Accept'' \<mapsto> [''application/json''],
            ''Content-Type'' \<mapsto> [''application/json''],
            ''Authorization'' \<mapsto> [ApiKey c]]]
        else []) \<and>
   map Header (sent (calls (GetPopularVideos std c p5)))
     = (if url_Parse std
           (BaseURL c @ ''videos/popular?''
            @ Encode (structToURLValues (reflect_GetPopularVideosParams (defaults_popular p5)))) = None
        then [[''Accept'' \<mapsto> [''application/json''],
            ''Content-Type'' \<mapsto> [''application/json''],
            ''Authorization'' \<mapsto> [ApiKey c]]]
        else [])"
  by (intro conjI)
    (rule headers_sent_GetPhotos [THEN conjunct1] headers_sent_GetPhotos [THEN conjunct2]
          headers_sent_GetVideos [THEN conjunct1] headers_sent_GetVideos [THEN conjunct2]
          headers_sent_GetCurated headers_sent_GetPhoto headers_sent_GetFeaturedCollections
          headers_sent_GetUserCollections headers_sent_GetCollection headers_sent_GetVideo
          headers_sent_GetPopularVideos)+

theorem C9_headers_witness:
  "map Header (sent (calls (GetPhotos std_empty_object (NewClient (canned 200 ''{}'') ''KEY'')
      \<lparr>GetPhotosParams.Query = ''red car'', Orientation = [], Size = [], Color = [], Locale = [], Page = 0, PerPage = 0\<rparr>)))
     = [[''Accept'' \<mapsto> [''application/json''], ''Authorization'' \<mapsto> [''KEY'']]] \<and>
   map (\<lambda>r. Header r ''Content-Type'') (sent (calls (GetPhotos std_empty_object (NewClient (canned 200 ''{}'') ''KEY'')
      \<lparr>GetPhotosParams.Query = ''red car'', Orientation = [], Size = [], Color = [], Locale = [], Page = 0, PerPage = 0\<rparr>)))
     = [None] \<and>
   map Header (sent (calls (GetVideos std_empty_object (NewClient (canned 200 ''{}'') ''KEY'')
      \<lparr>GetVideosParams.Query = ''sea'', Orientation = [], Size = [], Locale = [], Page = 0, PerPage = 15\<rparr>)))
     = [[''Accept'' \<mapsto> [''application/json''], ''Authorization'' \<mapsto> [''KEY'']]] \<and>
   map (\<lambda>r. Header r ''Content-Type'') (sent (calls (GetVideos std_empty_object (NewClient (canned 200 ''{}'') ''KEY'')
      \<lparr>GetVideosParams.Query = ''sea'', Orientation = [], Size = [], Locale = [], Page = 0, PerPage = 15\<rparr>)))
     = [None] \<and>
   map Header (sent (calls (GetCurated std_empty_object (NewClient (canned 200 ''{}'') ''KEY'')
      \<lparr>GetCuratedPhotoParams.Page = 0, PerPage = 0\<rparr>)))
     = [[''Accept'' \<mapsto> [''application/json''], ''Content-Type'' \<mapsto> [''application/json''],
         ''Authorization'' \<mapsto> [''KEY'']]] \<and>
   map Header (sent (calls (GetPhoto std_empty_object (NewClient (canned 200 ''{}'') ''KEY'') ''2014422'')))
     = [[''Accept'' \<mapsto> [''application/json''], ''Content-Type'' \<mapsto> [''application/json''],
         ''Authorization'' \<mapsto> [''KEY'']]] \<and>
   map Header (sent (calls (GetFeaturedCollections std_empty_object (NewClient (canned 200 ''{}'') ''KEY'')
      \<lparr>GetFeaturedCollectionParams.Page = 0, PerPage = 0\<rparr>)))
     = [[''Accept'' \<mapsto> [''application/json''], ''Content-Type'' \<mapsto> [''application/json''],
         ''Authorization'' \<mapsto> [''KEY'']]] \<and>
   map Header (sent (calls (GetUserCollections std_empty_object (NewClient (canned 200 ''{}'') ''KEY'')
      \<lparr>GetFeaturedCollectionParams.Page = 0, PerPage = 0\<rparr>)))
     = [[''Accept'' \<mapsto> [''application/json''], ''Content-Type'' \<mapsto> [''application/json''],
         ''Authorization'' \<mapsto> [''KEY'']]] \<and>
   map Header (sent (calls (GetCollection std_empty_object (NewClient (canned 200 ''{}'') ''KEY'')
      \<lparr>GetCollectionMediaParams.Type = [], Sort = [], Page = 0, PerPage = 0\<rparr> ''2'')))
     = [[''Accept'' \<mapsto> [''application/json''], ''Content-Type'' \<mapsto> [''application/json''],
         ''Authorization'' \<mapsto> [''KEY'']]] \<and>
   map Header (sent (calls (GetVideo std_empty_object (NewClient (canned 200 ''{}'') ''KEY'') ''2499611'')))
     = [[''Accept'' \<mapsto> [''application/json''], ''Content-Type'' \<mapsto> [''application/json''],
         ''Authorization'' \<mapsto> [''KEY'']]] \<and>
   map Header (sent (calls (GetPopularVideos std_empty_object (NewClient (canned 200 ''{}'') ''KEY'')
      \<lparr>MinWidth = 0, MinHeight = 0, MinDuration = 0, MaxDuration = 0, Page = 0, PerPage = 0\<rparr>)))
     = [[''Accept'' \<mapsto> [''application/json''], ''Content-Type'' \<mapsto> [''application/json''],
         ''Authorization'' \<mapsto> [''KEY'']]]"
  using C9_headers_of_every_binding
      [where std = std_empty_object and c = "NewClient (canned 200 ''{}'') ''KEY''"
         and ?p1.0 = "\<lparr>GetPhotosParams.Query = ''red car'', Orientation = [], Size = [], Color = [], Locale = [], Page = 0, PerPage = 0\<rparr>"
         and ?p2.0 = "\<lparr>GetCuratedPhotoParams.Page = 0, PerPage = 0\<rparr>"
         and ?p3.0 = "\<lparr>GetFeaturedCollectionParams.Page = 0, PerPage = 0\<rparr>"
         and ?p4.0 = "\<lparr>GetCollectionMediaParams.Type = [], Sort = [], Page = 0, PerPage = 0\<rparr>"
         and ?p5.0 = "\<lparr>MinWidth = 0, MinHeight = 0, MinDuration = 0, MaxDuration = 0, Page = 0, PerPage = 0\<rparr>"
         and ?p6.0 = "\<lparr>GetVideosParams.Query = ''sea'', Orientation = [], Size = [], Locale = [], Page = 0, PerPage = 15\<rparr>"
         and ?id1.0 = "''2014422''" and ?id2.0 = "''2''" and ?id3.0 = "''2499611''"]
  by (simp add: std_empty_object_def NewClient_def)

section \<open>Printing integers\<close>

lemma FormatUint_not_Nil: "FormatUint n \<noteq> []"
  by (subst FormatUint.simps) simp

lemma digit_eq_zero: "n < 10 \<Longrightarrow> digit n = CHR ''0'' \<longleftrightarrow> n = 0"
  unfolding digit_def
  by (auto simp: less_Suc_eq numeral_eq_Suc nth_Cons')

lemma FormatUint_eq_zero: "FormatUint n = ''0'' \<longleftrightarrow> n = 0"
proof (cases "n < 10")
  case True
  then show ?thesis by (subst FormatUint.simps) (simp add: digit_eq_zero)
next
  case False
  then have "FormatUint n = FormatUint (n div 10) @ [digit (n mod 10)]"
    by (subst FormatUint.simps) simp
  moreover have "FormatUint (n div 10) \<noteq> []" by (rule FormatUint_not_Nil)
  ultimately have "length (FormatUint n) \<ge> 2"
    by (cases "FormatUint (n div 10)") simp_all
  with False show ?thesis by auto
qed

lemma Itoa_eq_zero: "Itoa n = ''0'' \<longleftrightarrow> n = 0"
  by (auto simp: Itoa_def FormatUint_eq_zero)

lemma source_condition:
  "(urlTag field \<noteq> [] \<and>
      ((Kind_of (Interface field) = reflect_Int \<and> Sprint (Interface field) \<noteq> ''0'') \<or>
       (Kind_of (Interface field) = reflect_String \<and> Sprint (Interface field) \<noteq> [])))
   = spec_included field"
  by (cases "Interface field") (simp_all add: spec_included_def Itoa_eq_zero)

section \<open>What the encoder keeps\<close>

lemma loop_step:
  "structToURLValues_loop (field # rest) val =
     structToURLValues_loop rest
       (if spec_included field
        then AList.update (urlTag field) [Sprint (Interface field)] val else val)"
  by (simp add: Let_def source_condition Values_Set_def del: Sprint.simps Kind_of.simps)

lemma loop_untouched:
  "\<forall>field \<in> set s. spec_included field \<longrightarrow> urlTag field \<noteq> k \<Longrightarrow>
   map_of (structToURLValues_loop s val) k = map_of val k"
proof (induction s arbitrary: val)
  case Nil
  then show ?case by simp
next
  case (Cons field rest)
  then show ?case
    unfolding loop_step by (auto simp: update_conv')
qed

lemma distinct_tags_Cons:
  "distinct_tags (field # rest) \<Longrightarrow> distinct_tags rest"
  by (simp add: distinct_tags_def split: if_splits)

lemma distinct_tags_head:
  "distinct_tags (field # rest) \<Longrightarrow> urlTag field \<noteq> [] \<Longrightarrow> g \<in> set rest \<Longrightarrow>
   urlTag g \<noteq> urlTag field"
proof
  assume a: "distinct_tags (field # rest)" "urlTag field \<noteq> []" "g \<in> set rest"
    and eq: "urlTag g = urlTag field"
  from a(1,2) have "urlTag field \<notin> set (filter (\<lambda>t. t \<noteq> []) (map urlTag rest))"
    by (simp add: distinct_tags_def)
  moreover from a(2,3) eq have "urlTag field \<in> set (filter (\<lambda>t. t \<noteq> []) (map urlTag rest))"
    by (auto simp: image_iff intro!: bexI [of _ g])
  ultimately show False by contradiction
qed

lemma loop_included:
  "distinct_tags s \<Longrightarrow> field \<in> set s \<Longrightarrow> spec_included field \<Longrightarrow>
   map_of (structToURLValues_loop s val) (urlTag field) = Some [Sprint (Interface field)]"
proof (induction s arbitrary: val)
  case Nil
  then show ?case by simp
next
  case (Cons g rest)
  show ?case
  proof (cases "field \<in> set rest")
    case True
    then show ?thesis
      unfolding loop_step using Cons.IH [OF distinct_tags_Cons [OF Cons.prems(1)] True Cons.prems(3)]
      by simp
  next
    case False
    with Cons.prems have g: "g = field" by simp
    have tag: "urlTag field \<noteq> []" using Cons.prems(3) by (simp add: spec_included_def)
    have "\<forall>h \<in> set rest. spec_included h \<longrightarrow> urlTag h \<noteq> urlTag field"
      using distinct_tags_head [OF Cons.prems(1) [unfolded g] tag] by blast
    then show ?thesis
      unfolding loop_step g using Cons.prems(3) by (simp add: loop_untouched update_conv')
  qed
qed

lemma tag_determines_field:
  assumes "distinct_tags s" and "f \<in> set s" and "g \<in> set s"
    and "urlTag f = urlTag g" and "urlTag f \<noteq> []"
  shows "f = g"
proof -
  let ?t = "filter (\<lambda>f. urlTag f \<noteq> []) s"
  have "distinct (map urlTag ?t)"
    using assms(1) by (simp add: distinct_tags_def filter_map comp_def)
  then have "inj_on urlTag (set ?t)" by (simp add: distinct_map)
  moreover have "f \<in> set ?t" "g \<in> set ?t" using assms by simp_all
  ultimately show ?thesis using assms(4) by (auto dest: inj_onD)
qed

lemma loop_excluded:
  assumes "distinct_tags s" and "field \<in> set s" and "\<not> spec_included field"
  shows "map_of (structToURLValues_loop s val) (urlTag field) = map_of val (urlTag field)"
proof (rule loop_untouched, intro ballI impI)
  fix g assume g: "g \<in> set s" "spec_included g"
  show "urlTag g \<noteq> urlTag field"
  proof
    assume eq: "urlTag g = urlTag field"
    have "urlTag g \<noteq> []" using g(2) by (simp add: spec_included_def)
    then have "g = field" using tag_determines_field [OF assms(1) g(1) assms(2) eq] by simp
    with g(2) assms(3) show False by simp
  qed
qed

lemma loop_keys:
  "map_of (structToURLValues_loop s val) k = Some xs \<Longrightarrow>
   map_of val k = Some xs \<or>
   (\<exists>field \<in> set s. spec_included field \<and> urlTag field = k \<and> xs = [Sprint (Interface field)])"
proof (induction s arbitrary: val)
  case Nil
  then show ?case by simp
next
  case (Cons g rest)
  from Cons.IH [OF Cons.prems [unfolded loop_step]]
  show ?case by (auto simp: update_conv' split: if_splits)
qed

lemma structToURLValues_keys:
  "map_of (structToURLValues s) k = Some xs \<Longrightarrow>
   \<exists>field \<in> set s. spec_included field \<and> urlTag field = k \<and> xs = [Sprint (Interface field)]"
  using loop_keys [of s "[]" k xs] by (simp add: structToURLValues_def)

lemma loop_distinct:
  "distinct (map fst val) \<Longrightarrow> distinct (map fst (structToURLValues_loop s val))"
proof (induction s arbitrary: val)
  case Nil
  then show ?case by simp
next
  case (Cons g rest)
  then show ?case unfolding loop_step by (simp add: distinct_update)
qed

lemma structToURLValues_distinct: "distinct (map fst (structToURLValues s))"
  using loop_distinct [of "[]" s] by (simp add: structToURLValues_def)

lemma distinct_tags_GetPhotosParams: "distinct_tags (reflect_GetPhotosParams p)"
  by (simp add: distinct_tags_def reflect_GetPhotosParams_def)

lemma distinct_tags_GetCuratedPhotoParams: "distinct_tags (reflect_GetCuratedPhotoParams p)"
  by (simp add: distinct_tags_def reflect_GetCuratedPhotoParams_def)

lemma distinct_tags_GetFeaturedCollectionParams: "distinct_tags (reflect_GetFeaturedCollectionParams p)"
  by (simp add: distinct_tags_def reflect_GetFeaturedCollectionParams_def)

lemma distinct_tags_GetCollectionMediaParams: "distinct_tags (reflect_GetCollectionMediaParams p)"
  by (simp add: distinct_tags_def reflect_GetCollectionMediaParams_def)

lemma distinct_tags_GetVideosParams: "distinct_tags (reflect_GetVideosParams p)"
  by (simp add: distinct_tags_def reflect_GetVideosParams_def)

lemma distinct_tags_GetPopularVideosParams: "distinct_tags (reflect_GetPopularVideosParams p)"
  by (simp add: distinct_tags_def reflect_GetPopularVideosParams_def)

text \<open>
  C5. For a struct whose annotations are distinct (as those of every parameter record of
  the client are), the output of \<open>structToURLValues\<close> has, for each field, the field's
  key with the one value \<open>fmt.Sprint\<close> prints for it exactly when the field has a non-empty
  annotation and a value that is not zero (a non-zero integer, a non-empty string); the
  key of any other field is absent. The output has no other key.
\<close>

theorem C5_encoder_keeps_annotated_nonzero_fields:
  assumes "distinct_tags s"
  shows
  "(\<forall>field \<in> set s.
      (spec_included field \<longrightarrow>
         map_of (structToURLValues s) (urlTag field) = Some [Sprint (Interface field)]) \<and>
      (\<not> spec_included field \<longrightarrow> map_of (structToURLValues s) (urlTag field) = None)) \<and>
   (\<forall>k xs. map_of (structToURLValues s) k = Some xs \<longrightarrow>
      (\<exists>field \<in> set s. spec_included field \<and> urlTag field = k \<and>
         xs = [Sprint (Interface field)])) \<and>
   distinct_tags (reflect_GetPhotosParams p1) \<and>
   distinct_tags (reflect_GetCuratedPhotoParams p2) \<and>
   distinct_tags (reflect_GetFeaturedCollectionParams p3) \<and>
   distinct_tags (reflect_GetCollectionMediaParams p4) \<and>
   distinct_tags (reflect_GetVideosParams p5) \<and>
   distinct_tags (reflect_GetPopularVideosParams p6)"
proof -
  have "map_of (structToURLValues s) (urlTag field) = Some [Sprint (Interface field)]"
    if "field \<in> set s" and "spec_included field" for field
    using loop_included [OF assms that] by (simp add: structToURLValues_def)
  moreover have "map_of (structToURLValues s) (urlTag field) = None"
    if "field \<in> set s" and "\<not> spec_included field" for field
    using loop_excluded [OF assms that] by (simp add: structToURLValues_def)
  moreover have "\<exists>field \<in> set s. spec_included field \<and> urlTag field = k \<and>
         xs = [Sprint (Interface field)]"
    if "map_of (structToURLValues s) k = Some xs" for k xs
    using that by (rule structToURLValues_keys)
  ultimately show ?thesis
    by (simp add: distinct_tags_GetPhotosParams distinct_tags_GetCuratedPhotoParams
          distinct_tags_GetFeaturedCollectionParams distinct_tags_GetCollectionMediaParams
          distinct_tags_GetVideosParams distinct_tags_GetPopularVideosParams)
qed

lemma Itoa_10: "Itoa 10 = ''10''"
  by (simp add: Itoa_def FormatUint.simps digit_def)

theorem C5_encoder_witness:
  "map_of (structToURLValues (reflect_GetPhotosParams
      \<lparr>GetPhotosParams.Query = ''nature'', Orientation = [], Size = ''medium'', Color = [], Locale = [], Page = 0, PerPage = 10\<rparr>)) ''query'' = Some [''nature''] \<and>
   map_of (structToURLValues (reflect_GetPhotosParams
      \<lparr>GetPhotosParams.Query = ''nature'', Orientation = [], Size = ''medium'', Color = [], Locale = [], Page = 0, PerPage = 10\<rparr>)) ''orientation'' = None \<and>
   map_of (structToURLValues (reflect_GetPhotosParams
      \<lparr>GetPhotosParams.Query = ''nature'', Orientation = [], Size = ''medium'', Color = [], Locale = [], Page = 0, PerPage = 10\<rparr>)) ''size'' = Some [''medium''] \<and>
   map_of (structToURLValues (reflect_GetPhotosParams
      \<lparr>GetPhotosParams.Query = ''nature'', Orientation = [], Size = ''medium'', Color = [], Locale = [], Page = 0, PerPage = 10\<rparr>)) ''page'' = None \<and>
   map_of (structToURLValues (reflect_GetPhotosParams
      \<lparr>GetPhotosParams.Query = ''nature'', Orientation = [], Size = ''medium'', Color = [], Locale = [], Page = 0, PerPage = 10\<rparr>)) ''per_page'' = Some [''10'']"
  using C5_encoder_keeps_annotated_nonzero_fields
    [OF distinct_tags_GetPhotosParams
       [of "\<lparr>GetPhotosParams.Query = ''nature'', Orientation = [], Size = ''medium'', Color = [], Locale = [], Page = 0, PerPage = 10\<rparr>"],
     where ?p1.0 = "\<lparr>GetPhotosParams.Query = ''nature'', Orientation = [], Size = ''medium'', Color = [], Locale = [], Page = 0, PerPage = 10\<rparr>"
       and ?p2.0 = "\<lparr>GetCuratedPhotoParams.Page = 0, PerPage = 0\<rparr>"
       and ?p3.0 = "\<lparr>GetFeaturedCollectionParams.Page = 0, PerPage = 0\<rparr>"
       and ?p4.0 = "\<lparr>GetCollectionMediaParams.Type = [], Sort = [], Page = 0, PerPage = 0\<rparr>"
       and ?p5.0 = "\<lparr>GetVideosParams.Query = [], Orientation = [], Size = [],
                    Locale = [], Page = 0, PerPage = 0\<rparr>"
       and ?p6.0 = "\<lparr>MinWidth = 0, MinHeight = 0, MinDuration = 0, MaxDuration = 0,
                    Page = 0, PerPage = 0\<rparr>"]
  by (simp add: reflect_GetPhotosParams_def spec_included_def Itoa_10)

section \<open>Query escaping\<close>

lemma escaped_specials:
  "shouldEscape CHR ''&''" "shouldEscape CHR ''=''" "shouldEscape CHR '';''"
  "shouldEscape CHR ''%''" "shouldEscape CHR ''+''" "shouldEscape CHR '' ''"
  by (simp_all add: shouldEscape_def)

lemma hex_table:
  "list_all (\<lambda>k. ishex (upperhex ! k) \<and> unhex (upperhex ! k) = k \<and>
      upperhex ! k \<notin> set ''&=;'') [0..<16]"
  by code_simp

lemma hex_digit:
  assumes "k < 16"
  shows "ishex (upperhex ! k)" and "unhex (upperhex ! k) = k"
    and "upperhex ! k \<noteq> CHR ''&''" and "upperhex ! k \<noteq> CHR ''=''" and "upperhex ! k \<noteq> CHR '';''"
  using hex_table assms by (auto simp: list_all_iff)

lemma of_char_split: "(of_char c :: nat) div 16 < 16" "(of_char c :: nat) mod 16 < 16"
proof -
  have "(of_char c :: nat) < 256" by simp
  then show "(of_char c :: nat) div 16 < 16" by presburger
  show "(of_char c :: nat) mod 16 < 16" by simp
qed

lemma escape_byte_clean:
  "CHR ''&'' \<notin> set (escape_byte c)" "CHR ''='' \<notin> set (escape_byte c)"
  "CHR '';'' \<notin> set (escape_byte c)"
  using hex_digit(3-5) [OF of_char_split(1) [of c]] hex_digit(3-5) [OF of_char_split(2) [of c]]
    escaped_specials
  by (auto simp: escape_byte_def)

lemma QueryEscape_clean:
  "CHR ''&'' \<notin> set (QueryEscape s)" "CHR ''='' \<notin> set (QueryEscape s)"
  "CHR '';'' \<notin> set (QueryEscape s)"
  using escape_byte_clean by (auto simp: QueryEscape_def)

lemma QueryUnescape_escape_byte:
  "QueryUnescape (escape_byte c @ t) =
     (case QueryUnescape t of Inl e \<Rightarrow> Inl e | Inr r \<Rightarrow> Inr (c # r))"
proof (cases "shouldEscape c")
  case False
  then have "c \<noteq> CHR ''%''" "c \<noteq> CHR ''+''" using escaped_specials by auto
  with False show ?thesis by (simp add: escape_byte_def split: sum.splits)
next
  case True
  show ?thesis
  proof (cases "c = CHR '' ''")
    case True
    then show ?thesis using escaped_specials by (simp add: escape_byte_def split: sum.splits)
  next
    case False
    have "char_of (unhex (upperhex ! (of_char c div 16)) * 16
            + unhex (upperhex ! (of_char c mod 16))) = c"
      using hex_digit(2) [OF of_char_split(1) [of c]] hex_digit(2) [OF of_char_split(2) [of c]]
      by simp
    with False True show ?thesis
      using hex_digit(1) [OF of_char_split(1) [of c]] hex_digit(1) [OF of_char_split(2) [of c]]
      by (simp add: escape_byte_def split: sum.splits)
  qed
qed

lemma QueryUnescape_QueryEscape: "QueryUnescape (QueryEscape s) = Inr s"
proof (induction s)
  case Nil
  then show ?case by (simp add: QueryEscape_def)
next
  case (Cons c s)
  have "QueryEscape (c # s) = escape_byte c @ QueryEscape s" by (simp add: QueryEscape_def)
  then show ?case using Cons by (simp add: QueryUnescape_escape_byte)
qed

section \<open>What \<open>Encode\<close> writes\<close>

lemma piece_clean: "CHR ''&'' \<notin> set (piece kx)" "CHR '';'' \<notin> set (piece kx)" "piece kx \<noteq> []"
  using QueryEscape_clean by (simp_all add: piece_def)

lemma Encode_values_fold:
  "Encode_values (QueryEscape k) vs buf = foldl add_piece buf (map (\<lambda>x. piece (k, x)) vs)"
  by (induction vs arbitrary: buf) (simp_all add: add_piece_def piece_def)

lemma Encode_keys_fold:
  "Encode_keys v ks buf =
     foldl add_piece buf
       (map piece (concat (map (\<lambda>k. map (\<lambda>x. (k, x)) (Values_index v k)) ks)))"
  by (induction ks arbitrary: buf) (simp_all add: Encode_values_fold comp_def)

lemma foldl_add_piece:
  "\<forall>p \<in> set ps. p \<noteq> [] \<Longrightarrow>
   foldl add_piece buf ps = join_amp (if buf = [] then ps else buf # ps)"
proof (induction ps arbitrary: buf)
  case Nil
  then show ?case by simp
next
  case (Cons p ps)
  then have p: "p \<noteq> []" and rest: "\<forall>q \<in> set ps. q \<noteq> []" by simp_all
  have step: "add_piece buf p \<noteq> []" using p by (simp add: add_piece_def)
  show ?case
  proof (cases ps)
    case Nil
    then show ?thesis by (simp add: add_piece_def)
  next
    case (Cons q qs)
    then show ?thesis
      using Cons.IH [OF rest, of "add_piece buf p"] step
      by (simp add: add_piece_def)
  qed
qed

lemma Encode_join: "Encode v = join_amp (map piece (Encode_pairs v))"
proof (cases "v = []")
  case True
  then show ?thesis by (simp add: Encode_def Encode_pairs_def)
next
  case False
  have "\<forall>p \<in> set (map piece (Encode_pairs v)). p \<noteq> []" using piece_clean(3) by simp
  from foldl_add_piece [OF this, of "[]"] False show ?thesis
    by (simp add: Encode_def Encode_keys_fold Encode_pairs_def)
qed

lemma Split_not_Nil: "Split s sep \<noteq> []"
  by (cases s) (simp_all split: list.splits)

lemma Split_no_sep: "sep \<notin> set p \<Longrightarrow> Split p sep = [p]"
  by (induction p) auto

lemma Split_append: "sep \<notin> set p \<Longrightarrow> Split (p @ sep # r) sep = p # Split r sep"
  by (induction p) auto

lemma Split_join:
  "ps \<noteq> [] \<Longrightarrow> \<forall>p \<in> set ps. CHR ''&'' \<notin> set p \<Longrightarrow> Split (join_amp ps) CHR ''&'' = ps"
proof (induction ps rule: join_amp.induct)
  case 1
  then show ?case by simp
next
  case (2 p)
  then show ?case by (simp add: Split_no_sep)
next
  case (3 p q ps)
  then show ?case by (simp add: Split_append)
qed

lemma Encode_pairs_member:
  assumes "map_of v k = Some xs" and "x \<in> set xs"
  shows "(k, x) \<in> set (Encode_pairs v)"
proof -
  have "k \<in> set (sort (remdups (map fst v)))"
    using assms(1) by (auto dest: map_of_SomeD intro: rev_image_eqI)
  moreover have "x \<in> set (Values_index v k)" using assms by (simp add: Values_index_def)
  ultimately show ?thesis by (auto simp: Encode_pairs_def)
qed


lemma piece_in_Encode:
  assumes "map_of v k = Some xs" and "x \<in> set xs"
  shows "piece (k, x) \<in> set (Split (Encode v) CHR ''&'')"
proof -
  have mem: "(k, x) \<in> set (Encode_pairs v)" using assms by (rule Encode_pairs_member)
  then have "map piece (Encode_pairs v) \<noteq> []" by auto
  moreover have "\<forall>p \<in> set (map piece (Encode_pairs v)). CHR ''&'' \<notin> set p"
    using piece_clean(1) by auto
  ultimately have "Split (Encode v) CHR ''&'' = map piece (Encode_pairs v)"
    unfolding Encode_join by (rule Split_join)
  with mem show ?thesis by auto
qed

section \<open>The defaults in the encoded query\<close>

lemma field_piece_in_query:
  assumes "distinct_tags s" and "field \<in> set s" and "spec_included field"
  shows "piece (urlTag field, Sprint (Interface field))
           \<in> set (Split (Encode (structToURLValues s)) CHR ''&'')"
proof -
  have "map_of (structToURLValues s) (urlTag field) = Some [Sprint (Interface field)]"
    using loop_included [OF assms] by (simp add: structToURLValues_def)
  then show ?thesis by (rule piece_in_Encode) simp
qed

lemma default_pieces:
  "piece (''page'', Sprint (IntV 1)) = ''page=1''"
  "piece (''per_page'', Sprint (IntV 5)) = ''per_page=5''"
  "piece (''per_page'', Sprint (IntV 2)) = ''per_page=2''"
  by (simp_all add: piece_def QueryEscape_def escape_byte_def shouldEscape_def Itoa_def
        FormatUint.simps digit_def)

lemma page_default_photos:
  assumes "GetPhotosParams.Page p = 0"
  shows "''page=1'' \<in> set (Split (Encode (structToURLValues (reflect_GetPhotosParams (defaults_photos p))))
           CHR ''&'')"
  using field_piece_in_query [OF distinct_tags_GetPhotosParams,
      of "\<lparr>urlTag = ''page'', Interface = IntV 1\<rparr>" "defaults_photos p"] assms
  by (simp add: reflect_GetPhotosParams_def defaults_photos_def spec_included_def default_pieces
        del: Sprint.simps)

lemma per_page_default_photos:
  assumes "GetPhotosParams.PerPage p = 0"
  shows "''per_page=5'' \<in> set (Split (Encode (structToURLValues (reflect_GetPhotosParams (defaults_photos p))))
           CHR ''&'')"
  using field_piece_in_query [OF distinct_tags_GetPhotosParams,
      of "\<lparr>urlTag = ''per_page'', Interface = IntV 5\<rparr>" "defaults_photos p"] assms
  by (simp add: reflect_GetPhotosParams_def defaults_photos_def spec_included_def default_pieces
        del: Sprint.simps)

lemma page_default_curated:
  assumes "GetCuratedPhotoParams.Page p = 0"
  shows "''page=1'' \<in> set (Split (Encode (structToURLValues (reflect_GetCuratedPhotoParams (defaults_curated p))))
           CHR ''&'')"
  using field_piece_in_query [OF distinct_tags_GetCuratedPhotoParams,
      of "\<lparr>urlTag = ''page'', Interface = IntV 1\<rparr>" "defaults_curated p"] assms
  by (simp add: reflect_GetCuratedPhotoParams_def defaults_curated_def spec_included_def default_pieces
        del: Sprint.simps)

lemma per_page_default_curated:
  assumes "GetCuratedPhotoParams.PerPage p = 0"
  shows "''per_page=5'' \<in> set (Split (Encode (structToURLValues (reflect_GetCuratedPhotoParams (defaults_curated p))))
           CHR ''&'')"
  using field_piece_in_query [OF distinct_tags_GetCuratedPhotoParams,
      of "\<lparr>urlTag = ''per_page'', Interface = IntV 5\<rparr>" "defaults_curated p"] assms
  by (simp add: reflect_GetCuratedPhotoParams_def defaults_curated_def spec_included_def default_pieces
        del: Sprint.simps)

lemma page_default_collections:
  assumes "GetFeaturedCollectionParams.Page p = 0"
  shows "''page=1'' \<in> set (Split (Encode (structToURLValues (reflect_GetFeaturedCollectionParams (defaults_collections p))))
           CHR ''&'')"
  using field_piece_in_query [OF distinct_tags_GetFeaturedCollectionParams,
      of "\<lparr>urlTag = ''page'', Interface = IntV 1\<rparr>" "defaults_collections p"] assms
  by (simp add: reflect_GetFeaturedCollectionParams_def defaults_collections_def spec_included_def default_pieces
        del: Sprint.simps)

lemma per_page_default_collections:
  assumes "GetFeaturedCollectionParams.PerPage p = 0"
  shows "''per_page=5'' \<in> set (Split (Encode (structToURLValues (reflect_GetFeaturedCollectionParams (defaults_collections p))))
           CHR ''&'')"
  using field_piece_in_query [OF distinct_tags_GetFeaturedCollectionParams,
      of "\<lparr>urlTag = ''per_page'', Interface = IntV 5\<rparr>" "defaults_collections p"] assms
  by (simp add: reflect_GetFeaturedCollectionParams_def defaults_collections_def spec_included_def default_pieces
        del: Sprint.simps)

lemma page_default_media:
  assumes "GetCollectionMediaParams.Page p = 0"
  shows "''page=1'' \<in> set (Split (Encode (structToURLValues (reflect_GetCollectionMediaParams (defaults_media p))))
           CHR ''&'')"
  using field_piece_in_query [OF distinct_tags_GetCollectionMediaParams,
      of "\<lparr>urlTag = ''page'', Interface = IntV 1\<rparr>" "defaults_media p"] assms
  by (simp add: reflect_GetCollectionMediaParams_def defaults_media_def spec_included_def default_pieces
        del: Sprint.simps)

lemma per_page_default_media:
  assumes "GetCollectionMediaParams.PerPage p = 0"
  shows "''per_page=5'' \<in> set (Split (Encode (structToURLValues (reflect_GetCollectionMediaParams (defaults_media p))))
           CHR ''&'')"
  using field_piece_in_query [OF distinct_tags_GetCollectionMediaParams,
      of "\<lparr>urlTag = ''per_page'', Interface = IntV 5\<rparr>" "defaults_media p"] assms
  by (simp add: reflect_GetCollectionMediaParams_def defaults_media_def spec_included_def default_pieces
        del: Sprint.simps)

lemma page_default_videos:
  assumes "GetVideosParams.Page p = 0"
  shows "''page=1'' \<in> set (Split (Encode (structToURLValues (reflect_GetVideosParams (defaults_videos p))))
           CHR ''&'')"
  using field_piece_in_query [OF distinct_tags_GetVideosParams,
      of "\<lparr>urlTag = ''page'', Interface = IntV 1\<rparr>" "defaults_videos p"] assms
  by (simp add: reflect_GetVideosParams_def defaults_videos_def spec_included_def default_pieces
        del: Sprint.simps)

lemma per_page_default_videos:
  assumes "GetVideosParams.PerPage p = 0"
  shows "''per_page=5'' \<in> set (Split (Encode (structToURLValues (reflect_GetVideosParams (defaults_videos p))))
           CHR ''&'')"
  using field_piece_in_query [OF distinct_tags_GetVideosParams,
      of "\<lparr>urlTag = ''per_page'', Interface = IntV 5\<rparr>" "defaults_videos p"] assms
  by (simp add: reflect_GetVideosParams_def defaults_videos_def spec_included_def default_pieces
        del: Sprint.simps)

lemma page_default_popular:
  assumes "GetPopularVideosParams.Page p = 0"
  shows "''page=1'' \<in> set (Split (Encode (structToURLValues (reflect_GetPopularVideosParams (defaults_popular p))))
           CHR ''&'')"
  using field_piece_in_query [OF distinct_tags_GetPopularVideosParams,
      of "\<lparr>urlTag = ''page'', Interface = IntV 1\<rparr>" "defaults_popular p"] assms
  by (simp add: reflect_GetPopularVideosParams_def defaults_popular_def spec_included_def default_pieces
        del: Sprint.simps)

lemma per_page_default_popular:
  assumes "GetPopularVideosParams.PerPage p = 0"
  shows "''per_page=2'' \<in> set (Split (Encode (structToURLValues (reflect_GetPopularVideosParams (defaults_popular p))))
           CHR ''&'')"
  using field_piece_in_query [OF distinct_tags_GetPopularVideosParams,
      of "\<lparr>urlTag = ''per_page'', Interface = IntV 2\<rparr>" "defaults_popular p"] assms
  by (simp add: reflect_GetPopularVideosParams_def defaults_popular_def spec_included_def default_pieces
        del: Sprint.simps)

lemma defaults_in_query_GetPhotos:
  "GetPhotosParams.Query p1 \<noteq> [] \<longrightarrow>
      built_urls (calls (GetPhotos std c p1))
        = [BaseURL c @ Version c @ ''/search?''
             @ Encode (structToURLValues (reflect_GetPhotosParams (defaults_photos p1)))] \<and>
      (GetPhotosParams.Page p1 = 0 \<longrightarrow>
         ''page=1'' \<in> set (Split (Encode (structToURLValues (reflect_GetPhotosParams (defaults_photos p1)))) CHR ''&'')) \<and>
      (GetPhotosParams.PerPage p1 = 0 \<longrightarrow>
         ''per_page=5'' \<in> set (Split (Encode (structToURLValues (reflect_GetPhotosParams (defaults_photos p1)))) CHR ''&''))"
  using page_default_photos [of p1] per_page_default_photos [of p1]
  by (simp add: GetPhotos_dispatch built_urls_dispatch)

lemma defaults_in_query_GetCurated:
  "built_urls (calls (GetCurated std c p2))
        = [BaseURL c @ Version c @ ''/curated?''
             @ Encode (structToURLValues (reflect_GetCuratedPhotoParams (defaults_curated p2)))] \<and>
      (GetCuratedPhotoParams.Page p2 = 0 \<longrightarrow>
         ''page=1'' \<in> set (Split (Encode (structToURLValues (reflect_GetCuratedPhotoParams (defaults_curated p2)))) CHR ''&'')) \<and>
      (GetCuratedPhotoParams.PerPage p2 = 0 \<longrightarrow>
         ''per_page=5'' \<in> set (Split (Encode (structToURLValues (reflect_GetCuratedPhotoParams (defaults_curated p2)))) CHR ''&''))"
  using page_default_curated [of p2] per_page_default_curated [of p2]
  by (simp add: GetCurated_dispatch built_urls_dispatch)

lemma defaults_in_query_GetVideos:
  "GetVideosParams.Query p6 \<noteq> [] \<longrightarrow>
      built_urls (calls (GetVideos std c p6))
        = [BaseURL c @ ''/videos/search?''
             @ Encode (structToURLValues (reflect_GetVideosParams (defaults_videos p6)))] \<and>
      (GetVideosParams.Page p6 = 0 \<longrightarrow>
         ''page=1'' \<in> set (Split (Encode (structToURLValues (reflect_GetVideosParams (defaults_videos p6)))) CHR ''&'')) \<and>
      (GetVideosParams.PerPage p6 = 0 \<longrightarrow>
         ''per_page=5'' \<in> set (Split (Encode (structToURLValues (reflect_GetVideosParams (defaults_videos p6)))) CHR ''&''))"
  using page_default_videos [of p6] per_page_default_videos [of p6]
  by (simp add: GetVideos_dispatch built_urls_dispatch)

lemma defaults_in_query_GetPopularVideos:
  "built_urls (calls (GetPopularVideos std c p5))
        = [BaseURL c @ ''videos/popular?''
             @ Encode (structToURLValues (reflect_GetPopularVideosParams (defaults_popular p5)))] \<and>
      (GetPopularVideosParams.Page p5 = 0 \<longrightarrow>
         ''page=1'' \<in> set (Split (Encode (structToURLValues (reflect_GetPopularVideosParams (defaults_popular p5)))) CHR ''&'')) \<and>
      (GetPopularVideosParams.PerPage p5 = 0 \<longrightarrow>
         ''per_page=2'' \<in> set (Split (Encode (structToURLValues (reflect_GetPopularVideosParams (defaults_popular p5)))) CHR ''&''))"
  using page_default_popular [of p5] per_page_default_popular [of p5]
  by (simp add: GetPopularVideos_dispatch built_urls_dispatch)

lemma defaults_in_query_GetFeaturedCollections:
  "built_urls (calls (GetFeaturedCollections std c p3))
        = [BaseURL c @ Version c @ ''/collections/featured?''
             @ Encode (structToURLValues (reflect_GetFeaturedCollectionParams (defaults_collections p3)))] \<and>
      (GetFeaturedCollectionParams.Page p3 = 0 \<longrightarrow>
         ''page=1'' \<in> set (Split (Encode (structToURLValues (reflect_GetFeaturedCollectionParams (defaults_collections p3)))) CHR ''&'')) \<and>
      (GetFeaturedCollectionParams.PerPage p3 = 0 \<longrightarrow>
         ''per_page=5'' \<in> set (Split (Encode (structToURLValues (reflect_GetFeaturedCollectionParams (defaults_collections p3)))) CHR ''&''))"
  using page_default_collections [of p3] per_page_default_collections [of p3]
  by (simp add: GetFeaturedCollections_def getCollections_dispatch built_urls_dispatch)

lemma defaults_in_query_GetUserCollections:
  "built_urls (calls (GetUserCollections std c p3))
        = [BaseURL c @ Version c @ ''/collections?''
             @ Encode (structToURLValues (reflect_GetFeaturedCollectionParams (defaults_collections p3)))] \<and>
      (GetFeaturedCollectionParams.Page p3 = 0 \<longrightarrow>
         ''page=1'' \<in> set (Split (Encode (structToURLValues (reflect_GetFeaturedCollectionParams (defaults_collections p3)))) CHR ''&'')) \<and>
      (GetFeaturedCollectionParams.PerPage p3 = 0 \<longrightarrow>
         ''per_page=5'' \<in> set (Split (Encode (structToURLValues (reflect_GetFeaturedCollectionParams (defaults_collections p3)))) CHR ''&''))"
  using page_default_collections [of p3] per_page_default_collections [of p3]
  by (simp add: GetUserCollections_def getCollections_dispatch built_urls_dispatch)

lemma defaults_in_query_GetCollection:
  "built_urls (calls (GetCollection std c p4 id2))
        = [BaseURL c @ Version c @ ''/collections/'' @ id2 @ ''?''
             @ Encode (structToURLValues (reflect_GetCollectionMediaParams (defaults_media p4)))] \<and>
      (GetCollectionMediaParams.Page p4 = 0 \<longrightarrow>
         ''page=1'' \<in> set (Split (Encode (structToURLValues (reflect_GetCollectionMediaParams (defaults_media p4)))) CHR ''&'')) \<and>
      (GetCollectionMediaParams.PerPage p4 = 0 \<longrightarrow>
         ''per_page=5'' \<in> set (Split (Encode (structToURLValues (reflect_GetCollectionMediaParams (defaults_media p4)))) CHR ''&''))"
  using page_default_media [of p4] per_page_default_media [of p4]
  by (simp add: GetCollection_dispatch built_urls_dispatch)

text \<open>
  C2. Every list-shape binding puts the encoding of the defaulted record after the \<open>?\<close> of
  its URL, and in that encoded query, cut at its \<open>&\<close>: when the caller's \<open>Page\<close> is \<open>0\<close>
  one piece is \<open>page=1\<close>; when the caller's \<open>PerPage\<close> is \<open>0\<close> one piece is
  \<open>per_page=5\<close>, and \<open>per_page=2\<close> for popular videos. The two search bindings encode a
  query only when the search text is not empty (otherwise they stop at the validation
  error of C1, and there is no URL to speak of).
\<close>

theorem C2_defaults_are_in_the_encoded_query:
  "(GetPhotosParams.Query p1 \<noteq> [] \<longrightarrow>
      built_urls (calls (GetPhotos std c p1))
        = [BaseURL c @ Version c @ ''/search?''
             @ Encode (structToURLValues (reflect_GetPhotosParams (defaults_photos p1)))] \<and>
      (GetPhotosParams.Page p1 = 0 \<longrightarrow>
         ''page=1'' \<in> set (Split (Encode (structToURLValues (reflect_GetPhotosParams (defaults_photos p1)))) CHR ''&'')) \<and>
      (GetPhotosParams.PerPage p1 = 0 \<longrightarrow>
         ''per_page=5'' \<in> set (Split (Encode (structToURLValues (reflect_GetPhotosParams (defaults_photos p1)))) CHR ''&''))) \<and>
   (built_urls (calls (GetCurated std c p2))
        = [BaseURL c @ Version c @ ''/curated?''
             @ Encode (structToURLValues (reflect_GetCuratedPhotoParams (defaults_curated p2)))] \<and>
      (GetCuratedPhotoParams.Page p2 = 0 \<longrightarrow>
         ''page=1'' \<in> set (Split (Encode (structToURLValues (reflect_GetCuratedPhotoParams (defaults_curated p2)))) CHR ''&'')) \<and>
      (GetCuratedPhotoParams.PerPage p2 = 0 \<longrightarrow>
         ''per_page=5'' \<in> set (Split (Encode (structToURLValues (reflect_GetCuratedPhotoParams (defaults_curated p2)))) CHR ''&''))) \<and>
   (GetVideosParams.Query p6 \<noteq> [] \<longrightarrow>
      built_urls (calls (GetVideos std c p6))
        = [BaseURL c @ ''/videos/search?''
             @ Encode (structToURLValues (reflect_GetVideosParams (defaults_videos p6)))] \<and>
      (GetVideosParams.Page p6 = 0 \<longrightarrow>
         ''page=1'' \<in> set (Split (Encode (structToURLValues (reflect_GetVideosParams (defaults_videos p6)))) CHR ''&'')) \<and>
      (GetVideosParams.PerPage p6 = 0 \<longrightarrow>
         ''per_page=5'' \<in> set (Split (Encode (structToURLValues (reflect_GetVideosParams (defaults_videos p6)))) CHR ''&''))) \<and>
   (built_urls (calls (GetPopularVideos std c p5))
        = [BaseURL c @ ''videos/popular?''
             @ Encode (structToURLValues (reflect_GetPopularVideosParams (defaults_popular p5)))] \<and>
      (GetPopularVideosParams.Page p5 = 0 \<longrightarrow>
         ''page=1'' \<in> set (Split (Encode (structToURLValues (reflect_GetPopularVideosParams (defaults_popular p5)))) CHR ''&'')) \<and>
      (GetPopularVideosParams.PerPage p5 = 0 \<longrightarrow>
         ''per_page=2'' \<in> set (Split (Encode (structToURLValues (reflect_GetPopularVideosParams (defaults_popular p5)))) CHR ''&''))) \<and>
   (built_urls (calls (GetFeaturedCollections std c p3))
        = [BaseURL c @ Version c @ ''/collections/featured?''
             @ Encode (structToURLValues (reflect_GetFeaturedCollectionParams (defaults_collections p3)))] \<and>
      (GetFeaturedCollectionParams.Page p3 = 0 \<longrightarrow>
         ''page=1'' \<in> set (Split (Encode (structToURLValues (reflect_GetFeaturedCollectionParams (defaults_collections p3)))) CHR ''&'')) \<and>
      (GetFeaturedCollectionParams.PerPage p3 = 0 \<longrightarrow>
         ''per_page=5'' \<in> set (Split (Encode (structToURLValues (reflect_GetFeaturedCollectionParams (defaults_collections p3)))) CHR ''&''))) \<and>
   (built_urls (calls (GetUserCollections std c p3))
        = [BaseURL c @ Version c @ ''/collections?''
             @ Encode (structToURLValues (reflect_GetFeaturedCollectionParams (defaults_collections p3)))] \<and>
      (GetFeaturedCollectionParams.Page p3 = 0 \<longrightarrow>
         ''page=1'' \<in> set (Split (Encode (structToURLValues (reflect_GetFeaturedCollectionParams (defaults_collections p3)))) CHR ''&'')) \<and>
      (GetFeaturedCollectionParams.PerPage p3 = 0 \<longrightarrow>
         ''per_page=5'' \<in> set (Split (Encode (structToURLValues (reflect_GetFeaturedCollectionParams (defaults_collections p3)))) CHR ''&''))) \<and>
   (built_urls (calls (GetCollection std c p4 id2))
        = [BaseURL c @ Version c @ ''/collections/'' @ id2 @ ''?''
             @ Encode (structToURLValues (reflect_GetCollectionMediaParams (defaults_media p4)))] \<and>
      (GetCollectionMediaParams.Page p4 = 0 \<longrightarrow>
         ''page=1'' \<in> set (Split (Encode (structToURLValues (reflect_GetCollectionMediaParams (defaults_media p4)))) CHR ''&'')) \<and>
      (GetCollectionMediaParams.PerPage p4 = 0 \<longrightarrow>
         ''per_page=5'' \<in> set (Split (Encode (structToURLValues (reflect_GetCollectionMediaParams (defaults_media p4)))) CHR ''&'')))"
  by (rule defaults_in_query_GetPhotos defaults_in_query_GetCurated defaults_in_query_GetVideos
        defaults_in_query_GetPopularVideos defaults_in_query_GetFeaturedCollections
        defaults_in_query_GetUserCollections defaults_in_query_GetCollection conjI)+

theorem C2_defaults_witness:
  "built_urls (calls (GetPhotos std_empty_object (NewClient (canned 200 ''{}'') ''KEY'')
      \<lparr>GetPhotosParams.Query = ''red car'', Orientation = [], Size = [], Color = [], Locale = [], Page = 0, PerPage = 0\<rparr>))
     = [''https://api.pexels.com/v1/search?page=1&per_page=5&query=red+car''] \<and>
   ''page=1'' \<in> set (Split ''page=1&per_page=5&query=red+car'' CHR ''&'') \<and>
   ''per_page=5'' \<in> set (Split ''page=1&per_page=5&query=red+car'' CHR ''&'') \<and>
   built_urls (calls (GetPopularVideos std_empty_object (NewClient (canned 200 ''{}'') ''KEY'')
      \<lparr>MinWidth = 0, MinHeight = 0, MinDuration = 0, MaxDuration = 0, Page = 0, PerPage = 0\<rparr>))
     = [''https://api.pexels.com/videos/popular?page=1&per_page=2''] \<and>
   ''page=1'' \<in> set (Split ''page=1&per_page=2'' CHR ''&'') \<and>
   ''per_page=2'' \<in> set (Split ''page=1&per_page=2'' CHR ''&'')"
proof -
  have e1: "Encode (structToURLValues (reflect_GetPhotosParams (defaults_photos
      \<lparr>GetPhotosParams.Query = ''red car'', Orientation = [], Size = [], Color = [], Locale = [], Page = 0, PerPage = 0\<rparr>)))
    = ''page=1&per_page=5&query=red+car''"
    by code_simp
  have e5: "Encode (structToURLValues (reflect_GetPopularVideosParams (defaults_popular
      \<lparr>MinWidth = 0, MinHeight = 0, MinDuration = 0, MaxDuration = 0, Page = 0, PerPage = 0\<rparr>)))
    = ''page=1&per_page=2''"
    by code_simp
  have s1: "Split ''page=1&per_page=5&query=red+car'' CHR ''&''
      = [''page=1'', ''per_page=5'', ''query=red+car'']"
    by simp
  have s5: "Split ''page=1&per_page=2'' CHR ''&'' = [''page=1'', ''per_page=2'']"
    by simp
  show ?thesis
    using C2_defaults_are_in_the_encoded_query
      [where std = std_empty_object and c = "NewClient (canned 200 ''{}'') ''KEY''"
         and ?p1.0 = "\<lparr>GetPhotosParams.Query = ''red car'', Orientation = [], Size = [], Color = [], Locale = [], Page = 0, PerPage = 0\<rparr>"
         and ?p2.0 = "\<lparr>GetCuratedPhotoParams.Page = 0, PerPage = 0\<rparr>"
         and ?p3.0 = "\<lparr>GetFeaturedCollectionParams.Page = 0, PerPage = 0\<rparr>"
         and ?p4.0 = "\<lparr>GetCollectionMediaParams.Type = [], Sort = [], Page = 0, PerPage = 0\<rparr>"
         and ?p5.0 = "\<lparr>MinWidth = 0, MinHeight = 0, MinDuration = 0, MaxDuration = 0, Page = 0, PerPage = 0\<rparr>"
         and ?p6.0 = "\<lparr>GetVideosParams.Query = ''sea'', Orientation = [], Size = [], Locale = [], Page = 0, PerPage = 15\<rparr>"
         and ?id2.0 = "''2''"]
    unfolding e1 e5 s1 s5
    by (simp add: NewClient_def)
qed

section \<open>Reading back what \<open>Encode\<close> writes\<close>

lemma Cut_found:
  assumes "sep \<notin> set p"
  shows "Cut (p @ sep # r) sep = (p, r, True)"
proof -
  have clean: "\<And>x. x \<in> set p \<Longrightarrow> x \<noteq> sep" using assms by auto
  have "takeWhile (\<lambda>c. c \<noteq> sep) (p @ sep # r) = p"
    using clean by (simp add: takeWhile_append2)
  moreover have "dropWhile (\<lambda>c. c \<noteq> sep) (p @ sep # r) = sep # r"
    using clean by (simp add: dropWhile_append2)
  ultimately show ?thesis by (simp add: Cut_def)
qed

lemma Cut_not_found: "sep \<notin> set p \<Longrightarrow> Cut p sep = (p, [], False)"
  by (simp add: Cut_def)

lemma piece_Cut: "Cut (piece kx) CHR ''='' = (QueryEscape (fst kx), QueryEscape (snd kx), True)"
  using Cut_found [OF QueryEscape_clean(2), of "fst kx" "QueryEscape (snd kx)"]
  by (simp add: piece_def)

lemma parseQuery_Nil: "parseQuery m [] er = (m, er)"
  by (subst parseQuery.simps) simp

lemma parseQuery_piece_more:
  "parseQuery m (piece kx @ CHR ''&'' # rest) er = parseQuery (parse_add m kx) rest er"
  using piece_clean [of kx]
  by (subst parseQuery.simps)
    (simp add: Cut_found piece_Cut QueryUnescape_QueryEscape parse_add_def)

lemma parseQuery_piece_last:
  "parseQuery m (piece kx) er = (parse_add m kx, er)"
  using piece_clean [of kx]
  by (subst parseQuery.simps)
    (simp add: Cut_not_found piece_Cut QueryUnescape_QueryEscape parse_add_def parseQuery_Nil)

lemma parseQuery_join:
  "parseQuery m (join_amp (map piece kxs)) er = (foldl parse_add m kxs, er)"
proof (induction kxs arbitrary: m)
  case Nil
  then show ?case by (simp add: parseQuery_Nil)
next
  case (Cons kx kxs)
  show ?case
  proof (cases kxs)
    case Nil
    then show ?thesis by (simp add: parseQuery_piece_last)
  next
    case (Cons ky rest)
    then show ?thesis
      using Cons.IH [of "parse_add m kx"] by (simp add: parseQuery_piece_more)
  qed
qed

lemma ParseQuery_Encode:
  "ParseQuery (Encode v) = (foldl parse_add [] (Encode_pairs v), None)"
  by (simp add: ParseQuery_def Encode_join parseQuery_join)

lemma map_of_parse_add:
  "map_of (parse_add m kx) k =
     (if k = fst kx then Some (Values_index m k @ [snd kx]) else map_of m k)"
  by (simp add: parse_add_def update_conv')

lemma Values_index_parse_add:
  "Values_index (parse_add m kx) k =
     (if k = fst kx then Values_index m k @ [snd kx] else Values_index m k)"
  by (simp add: Values_index_def map_of_parse_add)

lemma map_of_foldl_parse_add:
  "map_of (foldl parse_add m kxs) k =
     (if map snd (filter (\<lambda>kx. fst kx = k) kxs) = [] then map_of m k
      else Some (Values_index m k @ map snd (filter (\<lambda>kx. fst kx = k) kxs)))"
proof (induction kxs arbitrary: m)
  case Nil
  then show ?case by simp
next
  case (Cons kx kxs)
  show ?case
    by (simp add: Cons.IH map_of_parse_add Values_index_parse_add)
qed

lemma collect_grouped:
  "distinct ks \<Longrightarrow>
   map snd (filter (\<lambda>kx. fst kx = k) (concat (map (\<lambda>k'. map (\<lambda>x. (k', x)) (f k')) ks)))
     = (if k \<in> set ks then f k else [])"
proof (induction ks)
  case Nil
  then show ?case by simp
next
  case (Cons k' ks)
  have same: "map snd (filter (\<lambda>kx. fst kx = k') (map (\<lambda>x. (k', x)) (f k'))) = f k'"
    by (induction "f k'") (simp_all add: filter_map comp_def)
  have other: "k \<noteq> k' \<Longrightarrow> filter (\<lambda>kx. fst kx = k) (map (\<lambda>x. (k', x)) (f k')) = []"
    by (simp add: filter_map comp_def)
  from Cons show ?case
    by (cases "k = k'") (auto simp: same other comp_def)
qed

lemma collect_Encode_pairs:
  "map snd (filter (\<lambda>kx. fst kx = k) (Encode_pairs v)) = Values_index v k"
proof -
  have "k \<notin> fst ` set v \<Longrightarrow> Values_index v k = []"
    by (simp add: Values_index_def map_of_eq_None_iff [THEN iffD2])
  then show ?thesis
    unfolding Encode_pairs_def
    by (subst collect_grouped) auto
qed

lemma map_of_ParseQuery_Encode:
  "map_of (fst (ParseQuery (Encode v))) k =
     (if Values_index v k = [] then None else Some (Values_index v k))"
  by (simp add: ParseQuery_Encode map_of_foldl_parse_add collect_Encode_pairs Values_index_def)

section \<open>Parse after encode\<close>

lemma digit_table:
  "list_all (\<lambda>d. CHR ''0'' \<le> digit d \<and> digit d \<le> CHR ''9'' \<and>
      of_char (digit d) - of_char CHR ''0'' = d \<and> digit d \<noteq> CHR ''-'' \<and> digit d \<noteq> CHR ''+'')
     [0..<10]"
  by code_simp

lemma digit_facts:
  assumes "d < 10"
  shows "CHR ''0'' \<le> digit d" and "digit d \<le> CHR ''9''"
    and "(of_char (digit d) :: nat) - 48 = d"
    and "digit d \<noteq> CHR ''-''" and "digit d \<noteq> CHR ''+''"
  using digit_table assms by (auto simp: list_all_iff)

lemma ParseUint_append:
  "ParseUint (xs @ ys) a = (case ParseUint xs a of None \<Rightarrow> None | Some b \<Rightarrow> ParseUint ys b)"
  by (induction xs arbitrary: a) simp_all

lemma ParseUint_digit:
  assumes "d < 10"
  shows "ParseUint [digit d] a = Some (a * 10 + d)"
  using digit_facts(1-3) [OF assms] by simp

lemma ParseUint_FormatUint: "ParseUint (FormatUint n) 0 = Some n"
proof (induction n rule: FormatUint.induct)
  case (1 n)
  show ?case
  proof (cases "n < 10")
    case True
    then have "FormatUint n = [digit n]" by (subst FormatUint.simps) simp
    then show ?thesis using ParseUint_digit [OF True, of 0] by (simp del: ParseUint.simps)
  next
    case False
    then have "FormatUint n = FormatUint (n div 10) @ [digit (n mod 10)]"
      by (subst FormatUint.simps) simp
    moreover have "ParseUint (FormatUint (n div 10)) 0 = Some (n div 10)"
      using "1.IH" False by simp
    moreover have "ParseUint [digit (n mod 10)] (n div 10) = Some (n div 10 * 10 + n mod 10)"
      by (rule ParseUint_digit) simp
    ultimately show ?thesis by (simp add: ParseUint_append del: ParseUint.simps)
  qed
qed

lemma FormatUint_first:
  "\<exists>d t. d < 10 \<and> FormatUint n = digit d # t"
proof (induction n rule: FormatUint.induct)
  case (1 n)
  show ?case
  proof (cases "n < 10")
    case True
    then show ?thesis by (subst FormatUint.simps) auto
  next
    case False
    then have eq: "FormatUint n = FormatUint (n div 10) @ [digit (n mod 10)]"
      by (subst FormatUint.simps) simp
    from "1.IH" False obtain d t where "d < 10" "FormatUint (n div 10) = digit d # t" by auto
    then show ?thesis unfolding eq by auto
  qed
qed

lemma Atoi_Itoa: "Atoi (Itoa i) = Some i"
proof (cases "i < 0")
  case True
  then show ?thesis
    by (simp add: Atoi_def Itoa_def FormatUint_not_Nil ParseUint_FormatUint)
next
  case False
  obtain d t where d: "d < 10" "FormatUint (nat i) = digit d # t"
    using FormatUint_first by blast
  have "ParseUint (digit d # t) 0 = Some (nat i)"
    using ParseUint_FormatUint [of "nat i"] d(2) by simp
  with False d show ?thesis
    by (simp add: Atoi_def Itoa_def digit_facts(4,5))
qed

lemma Values_Get_Some: "map_of m k = Some [x] \<Longrightarrow> Values_Get m k = x"
  by (simp add: Values_Get_def Values_index_def)

lemma Values_Get_None: "map_of m k = None \<Longrightarrow> Values_Get m k = []"
  by (simp add: Values_Get_def Values_index_def)

lemma structToURLValues_nonempty_values:
  "map_of (structToURLValues s) k = Some xs \<Longrightarrow> xs \<noteq> []"
  by (auto dest: structToURLValues_keys)

lemma map_of_roundtrip:
  "map_of (fst (ParseQuery (Encode (structToURLValues s)))) k = map_of (structToURLValues s) k"
proof (cases "map_of (structToURLValues s) k")
  case None
  then show ?thesis by (simp add: map_of_ParseQuery_Encode Values_index_def)
next
  case (Some xs)
  then have "xs \<noteq> []" by (rule structToURLValues_nonempty_values)
  with Some show ?thesis by (simp add: map_of_ParseQuery_Encode Values_index_def)
qed

lemma encoder_entry:
  assumes "distinct_tags s" and "field \<in> set s"
  shows "map_of (structToURLValues s) (urlTag field)
           = (if spec_included field then Some [Sprint (Interface field)] else None)"
  using loop_included [OF assms, of "[]"] loop_excluded [OF assms, of "[]"]
  by (simp add: structToURLValues_def)

lemma recovered_string:
  assumes "distinct_tags s" and "\<lparr>urlTag = k, Interface = StrV x\<rparr> \<in> set s" and "k \<noteq> []"
  shows "Values_Get (fst (ParseQuery (Encode (structToURLValues s)))) k = x"
proof (cases "x = []")
  case True
  then have "map_of (fst (ParseQuery (Encode (structToURLValues s)))) k = None"
    using encoder_entry [OF assms(1,2)] by (simp add: map_of_roundtrip spec_included_def)
  with True show ?thesis by (simp add: Values_Get_None)
next
  case False
  then have "map_of (fst (ParseQuery (Encode (structToURLValues s)))) k = Some [x]"
    using encoder_entry [OF assms(1,2)] assms(3)
    by (simp add: map_of_roundtrip spec_included_def)
  then show ?thesis by (rule Values_Get_Some)
qed

lemma recovered_int:
  assumes "distinct_tags s" and "\<lparr>urlTag = k, Interface = IntV n\<rparr> \<in> set s" and "k \<noteq> []"
    and "n \<noteq> 0"
  shows "Atoi (Values_Get (fst (ParseQuery (Encode (structToURLValues s)))) k) = Some n"
proof -
  have "map_of (fst (ParseQuery (Encode (structToURLValues s)))) k = Some [Itoa n]"
    using encoder_entry [OF assms(1,2)] assms(3,4)
    by (simp add: map_of_roundtrip spec_included_def)
  then have "Values_Get (fst (ParseQuery (Encode (structToURLValues s)))) k = Itoa n" by (rule Values_Get_Some)
  then show ?thesis by (simp add: Atoi_Itoa)
qed

lemma in_reflect_GetPhotosParams:
  "\<lparr>urlTag = ''query'', Interface = StrV (GetPhotosParams.Query p)\<rparr>
     \<in> set (reflect_GetPhotosParams p)"
  "\<lparr>urlTag = ''orientation'', Interface = StrV (GetPhotosParams.Orientation p)\<rparr>
     \<in> set (reflect_GetPhotosParams p)"
  "\<lparr>urlTag = ''size'', Interface = StrV (GetPhotosParams.Size p)\<rparr>
     \<in> set (reflect_GetPhotosParams p)"
  "\<lparr>urlTag = ''color'', Interface = StrV (GetPhotosParams.Color p)\<rparr>
     \<in> set (reflect_GetPhotosParams p)"
  "\<lparr>urlTag = ''locale'', Interface = StrV (GetPhotosParams.Locale p)\<rparr>
     \<in> set (reflect_GetPhotosParams p)"
  "\<lparr>urlTag = ''page'', Interface = IntV (GetPhotosParams.Page p)\<rparr>
     \<in> set (reflect_GetPhotosParams p)"
  "\<lparr>urlTag = ''per_page'', Interface = IntV (GetPhotosParams.PerPage p)\<rparr>
     \<in> set (reflect_GetPhotosParams p)"
  by (simp_all add: reflect_GetPhotosParams_def)

text \<open>
  C6. Take the query string that \<open>Encode\<close> writes for the encoder's output on a struct
  with distinct annotations, and read it back with \<open>url.ParseQuery\<close>. The parse reports
  no error, and the values it returns are, key by key, the encoder's output. So for every
  field with a non-empty annotation: a non-empty string is read back (\<open>Values.Get\<close>) as
  that string, a non-zero integer is read back, through \<open>strconv.Atoi\<close>, as that integer,
  and a field that was left out has no key. The annotations of every parameter record of
  the client are distinct. For the photo-search record this gives back
  \<open>query\<close>, \<open>orientation\<close>, \<open>size\<close>, \<open>color\<close> and \<open>locale\<close> as they were (an empty
  one as the empty string of an absent key), and \<open>page\<close> and \<open>per_page\<close> when they are
  not zero.
\<close>

theorem C6_parse_after_encode_recovers_the_fields:
  assumes "distinct_tags s"
  shows
  "snd (ParseQuery (Encode (structToURLValues s))) = None \<and>
   (\<forall>k. map_of (fst (ParseQuery (Encode (structToURLValues s)))) k
          = map_of (structToURLValues s) k) \<and>
   (\<forall>field \<in> set s. \<forall>x.
      urlTag field \<noteq> [] \<and> Interface field = StrV x \<and> x \<noteq> [] \<longrightarrow>
      Values_Get (fst (ParseQuery (Encode (structToURLValues s)))) (urlTag field) = x) \<and>
   (\<forall>field \<in> set s. \<forall>n.
      urlTag field \<noteq> [] \<and> Interface field = IntV n \<and> n \<noteq> 0 \<longrightarrow>
      Atoi (Values_Get (fst (ParseQuery (Encode (structToURLValues s)))) (urlTag field))
        = Some n) \<and>
   (\<forall>field \<in> set s. \<not> spec_included field \<longrightarrow>
      map_of (fst (ParseQuery (Encode (structToURLValues s)))) (urlTag field) = None) \<and>
   Values_Get (fst (ParseQuery (Encode (structToURLValues (reflect_GetPhotosParams p))))) ''query''
     = GetPhotosParams.Query p \<and>
   Values_Get (fst (ParseQuery (Encode (structToURLValues (reflect_GetPhotosParams p))))) ''orientation''
     = GetPhotosParams.Orientation p \<and>
   Values_Get (fst (ParseQuery (Encode (structToURLValues (reflect_GetPhotosParams p))))) ''size''
     = GetPhotosParams.Size p \<and>
   Values_Get (fst (ParseQuery (Encode (structToURLValues (reflect_GetPhotosParams p))))) ''color''
     = GetPhotosParams.Color p \<and>
   Values_Get (fst (ParseQuery (Encode (structToURLValues (reflect_GetPhotosParams p))))) ''locale''
     = GetPhotosParams.Locale p \<and>
   (GetPhotosParams.Page p \<noteq> 0 \<longrightarrow>
      Atoi (Values_Get (fst (ParseQuery (Encode (structToURLValues (reflect_GetPhotosParams p))))) ''page'')
        = Some (GetPhotosParams.Page p)) \<and>
   (GetPhotosParams.PerPage p \<noteq> 0 \<longrightarrow>
      Atoi (Values_Get (fst (ParseQuery (Encode (structToURLValues (reflect_GetPhotosParams p))))) ''per_page'')
        = Some (GetPhotosParams.PerPage p)) \<and>
   distinct_tags (reflect_GetPhotosParams p1) \<and>
   distinct_tags (reflect_GetCuratedPhotoParams p2) \<and>
   distinct_tags (reflect_GetFeaturedCollectionParams p3) \<and>
   distinct_tags (reflect_GetCollectionMediaParams p4) \<and>
   distinct_tags (reflect_GetVideosParams p5) \<and>
   distinct_tags (reflect_GetPopularVideosParams p6)"
proof (intro conjI ballI allI impI)
  show "snd (ParseQuery (Encode (structToURLValues s))) = None"
    by (simp add: ParseQuery_Encode)
next
  fix k
  show "map_of (fst (ParseQuery (Encode (structToURLValues s)))) k = map_of (structToURLValues s) k"
    by (rule map_of_roundtrip)
next
  fix field x
  assume f: "field \<in> set s"
    and a: "urlTag field \<noteq> [] \<and> Interface field = StrV x \<and> x \<noteq> []"
  then have "field = \<lparr>urlTag = urlTag field, Interface = StrV x\<rparr>" by simp
  with f have "\<lparr>urlTag = urlTag field, Interface = StrV x\<rparr> \<in> set s" by simp
  then show "Values_Get (fst (ParseQuery (Encode (structToURLValues s)))) (urlTag field) = x"
    using a by (intro recovered_string [OF assms]) simp_all
next
  fix field n
  assume f: "field \<in> set s"
    and a: "urlTag field \<noteq> [] \<and> Interface field = IntV n \<and> n \<noteq> 0"
  then have "field = \<lparr>urlTag = urlTag field, Interface = IntV n\<rparr>" by simp
  with f have "\<lparr>urlTag = urlTag field, Interface = IntV n\<rparr> \<in> set s" by simp
  then show "Atoi (Values_Get (fst (ParseQuery (Encode (structToURLValues s)))) (urlTag field)) = Some n"
    using a by (intro recovered_int [OF assms]) simp_all
next
  fix field
  assume "field \<in> set s" and "\<not> spec_included field"
  then show "map_of (fst (ParseQuery (Encode (structToURLValues s)))) (urlTag field) = None"
    using encoder_entry [OF assms, of field] by (simp add: map_of_roundtrip)
next
  show "Values_Get (fst (ParseQuery (Encode (structToURLValues (reflect_GetPhotosParams p))))) ''query''
     = GetPhotosParams.Query p"
    by (rule recovered_string [OF distinct_tags_GetPhotosParams in_reflect_GetPhotosParams(1)])
      simp
  show "Values_Get (fst (ParseQuery (Encode (structToURLValues (reflect_GetPhotosParams p))))) ''orientation''
     = GetPhotosParams.Orientation p"
    by (rule recovered_string [OF distinct_tags_GetPhotosParams in_reflect_GetPhotosParams(2)])
      simp
  show "Values_Get (fst (ParseQuery (Encode (structToURLValues (reflect_GetPhotosParams p))))) ''size''
     = GetPhotosParams.Size p"
    by (rule recovered_string [OF distinct_tags_GetPhotosParams in_reflect_GetPhotosParams(3)])
      simp
  show "Values_Get (fst (ParseQuery (Encode (structToURLValues (reflect_GetPhotosParams p))))) ''color''
     = GetPhotosParams.Color p"
    by (rule recovered_string [OF distinct_tags_GetPhotosParams in_reflect_GetPhotosParams(4)])
      simp
  show "Values_Get (fst (ParseQuery (Encode (structToURLValues (reflect_GetPhotosParams p))))) ''locale''
     = GetPhotosParams.Locale p"
    by (rule recovered_string [OF distinct_tags_GetPhotosParams in_reflect_GetPhotosParams(5)])
      simp
next
  assume "GetPhotosParams.Page p \<noteq> 0"
  then show "Atoi (Values_Get (fst (ParseQuery (Encode (structToURLValues (reflect_GetPhotosParams p))))) ''page'')
        = Some (GetPhotosParams.Page p)"
    by (intro recovered_int [OF distinct_tags_GetPhotosParams in_reflect_GetPhotosParams(6)])
      simp_all
next
  assume "GetPhotosParams.PerPage p \<noteq> 0"
  then show "Atoi (Values_Get (fst (ParseQuery (Encode (structToURLValues (reflect_GetPhotosParams p))))) ''per_page'')
        = Some (GetPhotosParams.PerPage p)"
    by (intro recovered_int [OF distinct_tags_GetPhotosParams in_reflect_GetPhotosParams(7)])
      simp_all
next
  show "distinct_tags (reflect_GetPhotosParams p1)" by (rule distinct_tags_GetPhotosParams)
  show "distinct_tags (reflect_GetCuratedPhotoParams p2)" by (rule distinct_tags_GetCuratedPhotoParams)
  show "distinct_tags (reflect_GetFeaturedCollectionParams p3)" by (rule distinct_tags_GetFeaturedCollectionParams)
  show "distinct_tags (reflect_GetCollectionMediaParams p4)" by (rule distinct_tags_GetCollectionMediaParams)
  show "distinct_tags (reflect_GetVideosParams p5)" by (rule distinct_tags_GetVideosParams)
  show "distinct_tags (reflect_GetPopularVideosParams p6)" by (rule distinct_tags_GetPopularVideosParams)
qed

theorem C6_parse_after_encode_witness:
  "Encode (structToURLValues (reflect_GetPhotosParams
      \<lparr>GetPhotosParams.Query = ''red car & co'', Orientation = ''landscape'', Size = [], Color = [], Locale = ''en-US'', Page = 12, PerPage = 0\<rparr>))
     = ''locale=en-US&orientation=landscape&page=12&query=red+car+%26+co'' \<and>
   snd (ParseQuery ''locale=en-US&orientation=landscape&page=12&query=red+car+%26+co'') = None \<and>
   Values_Get (fst (ParseQuery ''locale=en-US&orientation=landscape&page=12&query=red+car+%26+co''))
     ''query'' = ''red car & co'' \<and>
   Values_Get (fst (ParseQuery ''locale=en-US&orientation=landscape&page=12&query=red+car+%26+co''))
     ''orientation'' = ''landscape'' \<and>
   Values_Get (fst (ParseQuery ''locale=en-US&orientation=landscape&page=12&query=red+car+%26+co''))
     ''size'' = [] \<and>
   Atoi (Values_Get (fst (ParseQuery ''locale=en-US&orientation=landscape&page=12&query=red+car+%26+co''))
     ''page'') = Some 12"
proof -
  have e: "Encode (structToURLValues (reflect_GetPhotosParams
      \<lparr>GetPhotosParams.Query = ''red car & co'', Orientation = ''landscape'', Size = [], Color = [], Locale = ''en-US'', Page = 12, PerPage = 0\<rparr>))
     = ''locale=en-US&orientation=landscape&page=12&query=red+car+%26+co''"
    by code_simp
  show ?thesis
    using C6_parse_after_encode_recovers_the_fields
      [OF distinct_tags_GetPhotosParams
         [of "\<lparr>GetPhotosParams.Query = ''red car & co'', Orientation = ''landscape'', Size = [], Color = [], Locale = ''en-US'', Page = 12, PerPage = 0\<rparr>"],
       where p = "\<lparr>GetPhotosParams.Query = ''red car & co'', Orientation = ''landscape'', Size = [], Color = [], Locale = ''en-US'', Page = 12, PerPage = 0\<rparr>"
         and ?p1.0 = "\<lparr>GetPhotosParams.Query = ''red car & co'', Orientation = ''landscape'', Size = [], Color = [], Locale = ''en-US'', Page = 12, PerPage = 0\<rparr>"
         and ?p2.0 = "\<lparr>GetCuratedPhotoParams.Page = 0, PerPage = 0\<rparr>"
         and ?p3.0 = "\<lparr>GetFeaturedCollectionParams.Page = 0, PerPage = 0\<rparr>"
         and ?p4.0 = "\<lparr>GetCollectionMediaParams.Type = [], Sort = [], Page = 0, PerPage = 0\<rparr>"
         and ?p5.0 = "\<lparr>GetVideosParams.Query = [], Orientation = [], Size = [],
                      Locale = [], Page = 0, PerPage = 0\<rparr>"
         and ?p6.0 = "\<lparr>MinWidth = 0, MinHeight = 0, MinDuration = 0, MaxDuration = 0,
                      Page = 0, PerPage = 0\<rparr>"]
    unfolding e by simp
qed

end
